theory Spec2Isabelle
  imports Main "HOL-Library.Word"
begin

unbundle bit_operations_syntax

section \<open>Machine types\<close>

text \<open>
  Go's \<open>byte\<close>/\<open>uint8\<close>, \<open>uint16\<close> and \<open>uint32\<close> are words of that width. Go's \<open>int\<close> and
  \<open>uint\<close> are taken at their 64-bit width where a value is stored in a struct
  (\<open>StepPosition.Val\<close>, \<open>InfoObjAddr\<close>, \<open>time.Duration\<close>); signed ones are read with
  \<open>sint\<close>. Lengths and the small sizes that only take part in the size computation
  are \<open>int\<close>.
\<close>

type_synonym byte = "8 word"
type_synonym uint16 = "16 word"
type_synonym int16 = "16 word"
type_synonym uint32 = "32 word"
type_synonym int32 = "32 word"

text \<open>Go's shifts \<open>x << n\<close> and \<open>x >> n\<close> on an unsigned operand.\<close>

definition lsh :: "'a::len word \<Rightarrow> nat \<Rightarrow> 'a word" where
  "lsh x n = push_bit n x"

definition rsh :: "'a::len word \<Rightarrow> nat \<Rightarrow> 'a word" where
  "rsh x n = drop_bit n x"

section \<open>APCI framing (package cs104)\<close>

text \<open>
  Modelled from the spec: \<open>asdu.ASDUSizeMax\<close> is declared in a file of package
  \<open>asdu\<close> that is not among the sources; the spec gives 249, the value that lets an
  ASDU fit in a 255-byte APDU.
\<close>

definition ASDUSizeMax :: int where
  "ASDUSizeMax = 249"

definition startFrame :: byte where
  "startFrame = 0x68"

definition APCICtlFiledSize :: int where
  "APCICtlFiledSize = 4"

definition APDUSizeMax :: int where
  "APDUSizeMax = 255"

definition APDUFieldSizeMax :: int where
  "APDUFieldSizeMax = APCICtlFiledSize + ASDUSizeMax"

text \<open>U frame control domain functions: \<^verbatim>\<open>4 << iota\<close>.\<close>

definition uStartDtActive :: byte where "uStartDtActive = 0x04"
definition uStartDtConfirm :: byte where "uStartDtConfirm = 0x08"
definition uStopDtActive :: byte where "uStopDtActive = 0x10"
definition uStopDtConfirm :: byte where "uStopDtConfirm = 0x20"
definition uTestFrActive :: byte where "uTestFrActive = 0x40"
definition uTestFrConfirm :: byte where "uTestFrConfirm = 0x80"

text \<open>
  \<open>parse\<close> returns an \<open>interface{}\<close> holding an \<open>iAPCI{sendSN, rcvSN}\<close>, an
  \<open>sAPCI{rcvSN}\<close> or a \<open>uAPCI{function}\<close>.
\<close>

datatype frame = iAPCI uint16 uint16 | sAPCI uint16 | uAPCI byte

record APCI =
  start :: byte
  apduFiledLen :: byte
  ctr1 :: byte
  ctr2 :: byte
  ctr3 :: byte
  ctr4 :: byte

text \<open>
  \<open>newIFrame\<close>: the error is the one \<open>fmt.Errorf\<close> builds; the APDU is the six header
  bytes followed by a copy of the ASDU. \<open>byte(len(asdus) + 4)\<close> truncates.
\<close>

definition newIFrame :: "uint16 \<Rightarrow> uint16 \<Rightarrow> byte list \<Rightarrow> string + byte list" where
  "newIFrame sendSN RcvSN asdus =
     (if int (length asdus) > ASDUSizeMax then Inl ''ASDU filed large than max 249''
      else Inr ([startFrame,
                 of_nat (length asdus + 4),
                 ucast (lsh sendSN 1),
                 ucast (rsh sendSN 7),
                 ucast (lsh RcvSN 1),
                 ucast (rsh RcvSN 7)] @ asdus))"

definition newSFrame :: "uint16 \<Rightarrow> byte list" where
  "newSFrame RcvSN = [startFrame, 4, 0x01, 0x00, ucast (lsh RcvSN 1), ucast (rsh RcvSN 7)]"

definition newUFrame :: "byte \<Rightarrow> byte list" where
  "newUFrame which = [startFrame, 4, which OR 0x03, 0x00, 0x00, 0x00]"

text \<open>
  \<open>parse\<close> indexes \<open>apdu[0]\<close> to \<open>apdu[5]\<close> and slices \<open>apdu[6:]\<close>; on a slice shorter
  than six bytes Go panics, which is \<open>None\<close> here.
\<close>

definition parse :: "byte list \<Rightarrow> (frame \<times> byte list) option" where
  "parse apdu =
     (if length apdu < 6 then None
      else
        let apci = \<lparr>start = apdu ! 0, apduFiledLen = apdu ! 1, ctr1 = apdu ! 2,
                    ctr2 = apdu ! 3, ctr3 = apdu ! 4, ctr4 = apdu ! 5\<rparr>
        in if ctr1 apci AND 0x01 = 0
           then Some (iAPCI (rsh (ucast (ctr1 apci)) 1 + lsh (ucast (ctr2 apci)) 7)
                            (rsh (ucast (ctr3 apci)) 1 + lsh (ucast (ctr4 apci)) 7),
                      drop 6 apdu)
           else if ctr1 apci AND 0x03 = 0x01
           then Some (sAPCI (rsh (ucast (ctr3 apci)) 1 + lsh (ucast (ctr4 apci)) 7),
                      drop 6 apdu)
           else Some (uAPCI (ctr1 apci AND 0xfc), drop 6 apdu))"

section \<open>CS-104 configuration (package cs104)\<close>

text \<open>\<open>time.Duration\<close> is an \<open>int64\<close> count of nanoseconds.\<close>

type_synonym Duration = "64 word"

definition Second :: Duration where
  "Second = 1000000000"

definition Hour :: Duration where
  "Hour = 3600 * Second"

definition ConnectTimeout0Min :: Duration where "ConnectTimeout0Min = 1 * Second"
definition ConnectTimeout0Max :: Duration where "ConnectTimeout0Max = 255 * Second"
definition SendUnAckTimeout1Min :: Duration where "SendUnAckTimeout1Min = 1 * Second"
definition SendUnAckTimeout1Max :: Duration where "SendUnAckTimeout1Max = 255 * Second"
definition RecvUnAckTimeout2Min :: Duration where "RecvUnAckTimeout2Min = 1 * Second"
definition RecvUnAckTimeout2Max :: Duration where "RecvUnAckTimeout2Max = 255 * Second"
definition IdleTimeout3Min :: Duration where "IdleTimeout3Min = 1 * Second"
definition IdleTimeout3Max :: Duration where "IdleTimeout3Max = 48 * Hour"
definition SendUnAckLimitKMin :: uint16 where "SendUnAckLimitKMin = 1"
definition SendUnAckLimitKMax :: uint16 where "SendUnAckLimitKMax = 32767"
definition RecvUnAckLimitWMin :: uint16 where "RecvUnAckLimitWMin = 1"
definition RecvUnAckLimitWMax :: uint16 where "RecvUnAckLimitWMax = 32767"

record Config =
  ConnectTimeout0 :: Duration
  SendUnAckLimitK :: uint16
  SendUnAckTimeout1 :: Duration
  RecvUnAckLimitW :: uint16
  RecvUnAckTimeout2 :: Duration
  IdleTimeout3 :: Duration

text \<open>The errors \<open>Config.Valid\<close> builds with \<open>errors.New\<close>, one constructor per message.\<close>

datatype config_error =
    ErrInvalidPointer
  | ErrConnectTimeout0
  | ErrSendUnAckLimitK
  | ErrSendUnAckTimeout1
  | ErrRecvUnAckLimitW
  | ErrRecvUnAckTimeout2
  | ErrIdleTimeout3

text \<open>
  \<open>Valid\<close> works on the receiver in place, one field after the other, and returns at the
  first field out of range. Each step below is one \<open>if ... else if ...\<close> statement of the
  source: it gives the error, if any, and the configuration as that statement leaves it.
  Durations compare as signed integers.
\<close>

definition Valid_ConnectTimeout0 :: "Config \<Rightarrow> config_error option \<times> Config" where
  "Valid_ConnectTimeout0 sf =
     (if ConnectTimeout0 sf = 0 then (None, sf\<lparr>ConnectTimeout0 := 30 * Second\<rparr>)
      else if ConnectTimeout0 sf <s ConnectTimeout0Min \<or> ConnectTimeout0Max <s ConnectTimeout0 sf
        then (Some ErrConnectTimeout0, sf)
      else (None, sf))"

definition Valid_SendUnAckLimitK :: "Config \<Rightarrow> config_error option \<times> Config" where
  "Valid_SendUnAckLimitK sf =
     (if SendUnAckLimitK sf = 0 then (None, sf\<lparr>SendUnAckLimitK := 12\<rparr>)
      else if SendUnAckLimitK sf < SendUnAckLimitKMin \<or> SendUnAckLimitKMax < SendUnAckLimitK sf
        then (Some ErrSendUnAckLimitK, sf)
      else (None, sf))"

definition Valid_SendUnAckTimeout1 :: "Config \<Rightarrow> config_error option \<times> Config" where
  "Valid_SendUnAckTimeout1 sf =
     (if SendUnAckTimeout1 sf = 0 then (None, sf\<lparr>SendUnAckTimeout1 := 15 * Second\<rparr>)
      else if SendUnAckTimeout1 sf <s SendUnAckTimeout1Min
              \<or> SendUnAckTimeout1Max <s SendUnAckTimeout1 sf
        then (Some ErrSendUnAckTimeout1, sf)
      else (None, sf))"

definition Valid_RecvUnAckLimitW :: "Config \<Rightarrow> config_error option \<times> Config" where
  "Valid_RecvUnAckLimitW sf =
     (if RecvUnAckLimitW sf = 0 then (None, sf\<lparr>RecvUnAckLimitW := 8\<rparr>)
      else if RecvUnAckLimitW sf < RecvUnAckLimitWMin \<or> RecvUnAckLimitWMax < RecvUnAckLimitW sf
        then (Some ErrRecvUnAckLimitW, sf)
      else (None, sf))"

definition Valid_RecvUnAckTimeout2 :: "Config \<Rightarrow> config_error option \<times> Config" where
  "Valid_RecvUnAckTimeout2 sf =
     (if RecvUnAckTimeout2 sf = 0 then (None, sf\<lparr>RecvUnAckTimeout2 := 10 * Second\<rparr>)
      else if RecvUnAckTimeout2 sf <s RecvUnAckTimeout2Min
              \<or> RecvUnAckTimeout2Max <s RecvUnAckTimeout2 sf
        then (Some ErrRecvUnAckTimeout2, sf)
      else (None, sf))"

definition Valid_IdleTimeout3 :: "Config \<Rightarrow> config_error option \<times> Config" where
  "Valid_IdleTimeout3 sf =
     (if IdleTimeout3 sf = 0 then (None, sf\<lparr>IdleTimeout3 := 20 * Second\<rparr>)
      else if IdleTimeout3 sf <s IdleTimeout3Min \<or> IdleTimeout3Max <s IdleTimeout3 sf
        then (Some ErrIdleTimeout3, sf)
      else (None, sf))"

text \<open>
  \<open>func (sf *Config) Valid() error\<close>: the receiver is a pointer, \<open>None\<close> is \<open>nil\<close>. The
  result is the error and the configuration the pointer refers to afterwards.
\<close>

definition Valid :: "Config option \<Rightarrow> config_error option \<times> Config option" where
  "Valid p =
     (case p of
        None \<Rightarrow> (Some ErrInvalidPointer, None)
      | Some sf \<Rightarrow>
          (case Valid_ConnectTimeout0 sf of (Some e, sf) \<Rightarrow> (Some e, Some sf) | (None, sf) \<Rightarrow>
          (case Valid_SendUnAckLimitK sf of (Some e, sf) \<Rightarrow> (Some e, Some sf) | (None, sf) \<Rightarrow>
          (case Valid_SendUnAckTimeout1 sf of (Some e, sf) \<Rightarrow> (Some e, Some sf) | (None, sf) \<Rightarrow>
          (case Valid_RecvUnAckLimitW sf of (Some e, sf) \<Rightarrow> (Some e, Some sf) | (None, sf) \<Rightarrow>
          (case Valid_RecvUnAckTimeout2 sf of (Some e, sf) \<Rightarrow> (Some e, Some sf) | (None, sf) \<Rightarrow>
          (case Valid_IdleTimeout3 sf of (Some e, sf) \<Rightarrow> (Some e, Some sf) | (None, sf) \<Rightarrow>
             (None, Some sf))))))))"

definition DefaultConfig :: Config where
  "DefaultConfig =
     \<lparr>ConnectTimeout0 = 30 * Second, SendUnAckLimitK = 12, SendUnAckTimeout1 = 15 * Second,
      RecvUnAckLimitW = 8, RecvUnAckTimeout2 = 10 * Second, IdleTimeout3 = 20 * Second\<rparr>"

section \<open>Information elements (package asdu)\<close>

text \<open>
  Several structs of the package share field names (\<open>Ioa\<close>, \<open>Value\<close>, \<open>Qds\<close>,
  \<open>Time\<close>, \<open>Cause\<close>, \<open>Qual\<close>, \<open>InSelect\<close>). The records keep the names of the source;
  a field is written with its record's name in front (\<open>StepPositionInfo.Ioa\<close>) where the
  short name alone would mean another record's field.
\<close>

text \<open>\<^verbatim>\<open>type InfoObjAddr uint\<close>\<close>

type_synonym InfoObjAddr = "64 word"

definition InfoObjAddrIrrelevant :: InfoObjAddr where
  "InfoObjAddrIrrelevant = 0"

type_synonym SinglePoint = byte
type_synonym DoublePoint = byte
type_synonym QualityDescriptor = byte
type_synonym QualityDescriptorProtection = byte

definition QDSGood :: QualityDescriptor where "QDSGood = 0"

text \<open>Go's \<open>x >> n\<close> on a signed operand is the arithmetic shift.\<close>

definition srsh :: "'a::len word \<Rightarrow> nat \<Rightarrow> 'a word" where
  "srsh x n = signed_drop_bit n x"

text \<open>
  \<^verbatim>\<open>type StepPosition struct { Val int; HasTransient bool }\<close>
\<close>

record StepPosition =
  Val :: "64 word"
  HasTransient :: bool

text \<open>
  \<^verbatim>\<open>p := sf.Val & 0x7f; if sf.HasTransient { p |= 0x80 }; return byte(p)\<close>
\<close>

definition StepPosition_Value :: "StepPosition \<Rightarrow> byte" where
  "StepPosition_Value sf =
     (let p = Val sf AND 0x7f;
          p = (if HasTransient sf then p OR 0x80 else p)
      in ucast p)"

text \<open>
  \<^verbatim>\<open>step := StepPosition{HasTransient: (b & 0x80) != 0}\<close>, then
  \<^verbatim>\<open>if b&0x40 == 0 { step.Val = int(b & 0x3f) } else { step.Val = int(b) | (-1 &^ 0x3f) }\<close>.
\<close>

definition ParseStepPosition :: "byte \<Rightarrow> StepPosition" where
  "ParseStepPosition b =
     (let step = \<lparr>Val = 0, HasTransient = (b AND 0x80 \<noteq> 0)\<rparr>
      in if b AND 0x40 = 0
         then step\<lparr>Val := ucast (b AND 0x3f)\<rparr>
         else step\<lparr>Val := ucast b OR (- 1 AND NOT 0x3f)\<rparr>)"

text \<open>\<^verbatim>\<open>type Normalize int16\<close>\<close>

type_synonym Normalize = int16

record BinaryCounterReading =
  CounterReading :: int32
  SeqNumber :: byte
  HasCarry :: bool
  IsAdjusted :: bool
  IsInvalid :: bool

type_synonym SingleEvent = byte
type_synonym StartEvent = byte
type_synonym OutputCircuitInfo = byte

definition FBPTestWord :: uint16 where
  "FBPTestWord = 0x55aa"

type_synonym SingleCommand = byte
type_synonym DoubleCommand = byte
type_synonym StepCommand = byte
type_synonym COICause = byte

record CauseOfInitial =
  Cause :: COICause
  IsLocalChange :: bool

definition ParseCauseOfInitial :: "byte \<Rightarrow> CauseOfInitial" where
  "ParseCauseOfInitial b =
     \<lparr>CauseOfInitial.Cause = b AND 0x7f, IsLocalChange = (b AND 0x80 = 0x80)\<rparr>"

definition CauseOfInitial_Value :: "CauseOfInitial \<Rightarrow> byte" where
  "CauseOfInitial_Value sf =
     (if IsLocalChange sf then CauseOfInitial.Cause sf OR 0x80 else CauseOfInitial.Cause sf)"

type_synonym QualifierOfInterrogation = byte

definition QOIStation :: QualifierOfInterrogation where "QOIStation = 20"
definition QOIUnused :: QualifierOfInterrogation where "QOIUnused = 0"

type_synonym QCCRequest = byte
type_synonym QCCFreeze = byte

record QualifierCountCall =
  Request :: QCCRequest
  Freeze :: QCCFreeze

definition ParseQualifierCountCall :: "byte \<Rightarrow> QualifierCountCall" where
  "ParseQualifierCountCall b = \<lparr>Request = b AND 0x3f, Freeze = b AND 0xc0\<rparr>"

definition QualifierCountCall_Value :: "QualifierCountCall \<Rightarrow> byte" where
  "QualifierCountCall_Value sf = (Request sf AND 0x3f) OR (Freeze sf AND 0xc0)"

type_synonym QPMCategory = byte

record QualifierOfParameterMV =
  Category :: QPMCategory
  IsChange :: bool
  IsInOperation :: bool

definition ParseQualifierOfParamMV :: "byte \<Rightarrow> QualifierOfParameterMV" where
  "ParseQualifierOfParamMV b =
     \<lparr>Category = b AND 0x3f, IsChange = (b AND 0x40 = 0x40),
      IsInOperation = (b AND 0x80 = 0x80)\<rparr>"

definition QualifierOfParameterMV_Value :: "QualifierOfParameterMV \<Rightarrow> byte" where
  "QualifierOfParameterMV_Value sf =
     (let v = Category sf AND 0x3f;
          v = (if IsChange sf then v OR 0x40 else v);
          v = (if IsInOperation sf then v OR 0x80 else v)
      in v)"

type_synonym QualifierOfParameterAct = byte
type_synonym QOCQual = byte

record QualifierOfCommand =
  Qual :: QOCQual
  InSelect :: bool

definition ParseQualifierOfCommand :: "byte \<Rightarrow> QualifierOfCommand" where
  "ParseQualifierOfCommand b =
     \<lparr>QualifierOfCommand.Qual = rsh b 2 AND 0x1f,
      QualifierOfCommand.InSelect = (b AND 0x80 = 0x80)\<rparr>"

definition QualifierOfCommand_Value :: "QualifierOfCommand \<Rightarrow> byte" where
  "QualifierOfCommand_Value sf =
     (let v = lsh (QualifierOfCommand.Qual sf AND 0x1f) 2;
          v = (if QualifierOfCommand.InSelect sf then v OR 0x80 else v)
      in v)"

type_synonym QualifierOfResetProcessCmd = byte

text \<open>\<^verbatim>\<open>type QOSQual uint\<close>\<close>

type_synonym QOSQual = "64 word"

record QualifierOfSetpointCmd =
  Qual :: QOSQual
  InSelect :: bool

definition ParseQualifierOfSetpointCmd :: "byte \<Rightarrow> QualifierOfSetpointCmd" where
  "ParseQualifierOfSetpointCmd b =
     \<lparr>QualifierOfSetpointCmd.Qual = ucast (b AND 0x7f),
      QualifierOfSetpointCmd.InSelect = (b AND 0x80 = 0x80)\<rparr>"

definition QualifierOfSetpointCmd_Value :: "QualifierOfSetpointCmd \<Rightarrow> byte" where
  "QualifierOfSetpointCmd_Value sf =
     (let v = ucast (QualifierOfSetpointCmd.Qual sf) AND 0x7f;
          v = (if QualifierOfSetpointCmd.InSelect sf then v OR 0x80 else v)
      in v)"

text \<open>\<^verbatim>\<open>type StatusAndStatusChangeDetection uint32\<close>\<close>

type_synonym StatusAndStatusChangeDetection = uint32

section \<open>Data unit identifier (package asdu)\<close>

text \<open>
  The errors of package \<open>asdu\<close> that the sources return. \<open>ErrSend\<close> wraps what the
  connection's \<open>Send\<close> returns (see \<open>Connect\<close> below).
\<close>

datatype send_error = SendBusy | ConnectionClosed

datatype error =
    ErrTypeIdentifier
  | ErrTypeIDNotMatch
  | ErrNotAnyObjInfo
  | ErrLengthOutOfRange
  | ErrInfoObjAddrFit
  | ErrParam
  | ErrCmdCause
  | ErrSend send_error

text \<open>\<^verbatim>\<open>type TypeID uint8\<close> and its constants (\<open>iota\<close> counts the reserved entries).\<close>

type_synonym TypeID = byte

named_theorems TypeID_defs

definition M_SP_NA_1 :: TypeID where [TypeID_defs]: "M_SP_NA_1 = 1"
definition M_SP_TA_1 :: TypeID where [TypeID_defs]: "M_SP_TA_1 = 2"
definition M_DP_NA_1 :: TypeID where [TypeID_defs]: "M_DP_NA_1 = 3"
definition M_DP_TA_1 :: TypeID where [TypeID_defs]: "M_DP_TA_1 = 4"
definition M_ST_NA_1 :: TypeID where [TypeID_defs]: "M_ST_NA_1 = 5"
definition M_ST_TA_1 :: TypeID where [TypeID_defs]: "M_ST_TA_1 = 6"
definition M_BO_NA_1 :: TypeID where [TypeID_defs]: "M_BO_NA_1 = 7"
definition M_BO_TA_1 :: TypeID where [TypeID_defs]: "M_BO_TA_1 = 8"
definition M_ME_NA_1 :: TypeID where [TypeID_defs]: "M_ME_NA_1 = 9"
definition M_ME_TA_1 :: TypeID where [TypeID_defs]: "M_ME_TA_1 = 10"
definition M_ME_NB_1 :: TypeID where [TypeID_defs]: "M_ME_NB_1 = 11"
definition M_ME_TB_1 :: TypeID where [TypeID_defs]: "M_ME_TB_1 = 12"
definition M_ME_NC_1 :: TypeID where [TypeID_defs]: "M_ME_NC_1 = 13"
definition M_ME_TC_1 :: TypeID where [TypeID_defs]: "M_ME_TC_1 = 14"
definition M_IT_NA_1 :: TypeID where [TypeID_defs]: "M_IT_NA_1 = 15"
definition M_IT_TA_1 :: TypeID where [TypeID_defs]: "M_IT_TA_1 = 16"
definition M_EP_TA_1 :: TypeID where [TypeID_defs]: "M_EP_TA_1 = 17"
definition M_EP_TB_1 :: TypeID where [TypeID_defs]: "M_EP_TB_1 = 18"
definition M_EP_TC_1 :: TypeID where [TypeID_defs]: "M_EP_TC_1 = 19"
definition M_PS_NA_1 :: TypeID where [TypeID_defs]: "M_PS_NA_1 = 20"
definition M_ME_ND_1 :: TypeID where [TypeID_defs]: "M_ME_ND_1 = 21"
definition M_SP_TB_1 :: TypeID where [TypeID_defs]: "M_SP_TB_1 = 30"
definition M_DP_TB_1 :: TypeID where [TypeID_defs]: "M_DP_TB_1 = 31"
definition M_ST_TB_1 :: TypeID where [TypeID_defs]: "M_ST_TB_1 = 32"
definition M_BO_TB_1 :: TypeID where [TypeID_defs]: "M_BO_TB_1 = 33"
definition M_ME_TD_1 :: TypeID where [TypeID_defs]: "M_ME_TD_1 = 34"
definition M_ME_TE_1 :: TypeID where [TypeID_defs]: "M_ME_TE_1 = 35"
definition M_ME_TF_1 :: TypeID where [TypeID_defs]: "M_ME_TF_1 = 36"
definition M_IT_TB_1 :: TypeID where [TypeID_defs]: "M_IT_TB_1 = 37"
definition M_EP_TD_1 :: TypeID where [TypeID_defs]: "M_EP_TD_1 = 38"
definition M_EP_TE_1 :: TypeID where [TypeID_defs]: "M_EP_TE_1 = 39"
definition M_EP_TF_1 :: TypeID where [TypeID_defs]: "M_EP_TF_1 = 40"
definition S_IT_TC_1 :: TypeID where [TypeID_defs]: "S_IT_TC_1 = 41"
definition C_SC_NA_1 :: TypeID where [TypeID_defs]: "C_SC_NA_1 = 45"
definition C_DC_NA_1 :: TypeID where [TypeID_defs]: "C_DC_NA_1 = 46"
definition C_RC_NA_1 :: TypeID where [TypeID_defs]: "C_RC_NA_1 = 47"
definition C_SE_NA_1 :: TypeID where [TypeID_defs]: "C_SE_NA_1 = 48"
definition C_SE_NB_1 :: TypeID where [TypeID_defs]: "C_SE_NB_1 = 49"
definition C_SE_NC_1 :: TypeID where [TypeID_defs]: "C_SE_NC_1 = 50"
definition C_BO_NA_1 :: TypeID where [TypeID_defs]: "C_BO_NA_1 = 51"
definition C_SC_TA_1 :: TypeID where [TypeID_defs]: "C_SC_TA_1 = 58"
definition C_DC_TA_1 :: TypeID where [TypeID_defs]: "C_DC_TA_1 = 59"
definition C_RC_TA_1 :: TypeID where [TypeID_defs]: "C_RC_TA_1 = 60"
definition C_SE_TA_1 :: TypeID where [TypeID_defs]: "C_SE_TA_1 = 61"
definition C_SE_TB_1 :: TypeID where [TypeID_defs]: "C_SE_TB_1 = 62"
definition C_SE_TC_1 :: TypeID where [TypeID_defs]: "C_SE_TC_1 = 63"
definition C_BO_TA_1 :: TypeID where [TypeID_defs]: "C_BO_TA_1 = 64"
definition M_EI_NA_1 :: TypeID where [TypeID_defs]: "M_EI_NA_1 = 70"
definition C_IC_NA_1 :: TypeID where [TypeID_defs]: "C_IC_NA_1 = 100"
definition C_CI_NA_1 :: TypeID where [TypeID_defs]: "C_CI_NA_1 = 101"
definition C_RD_NA_1 :: TypeID where [TypeID_defs]: "C_RD_NA_1 = 102"
definition C_CS_NA_1 :: TypeID where [TypeID_defs]: "C_CS_NA_1 = 103"
definition C_TS_NA_1 :: TypeID where [TypeID_defs]: "C_TS_NA_1 = 104"
definition C_RP_NA_1 :: TypeID where [TypeID_defs]: "C_RP_NA_1 = 105"
definition C_CD_NA_1 :: TypeID where [TypeID_defs]: "C_CD_NA_1 = 106"
definition C_TS_TA_1 :: TypeID where [TypeID_defs]: "C_TS_TA_1 = 107"
definition P_ME_NA_1 :: TypeID where [TypeID_defs]: "P_ME_NA_1 = 110"
definition P_ME_NB_1 :: TypeID where [TypeID_defs]: "P_ME_NB_1 = 111"
definition P_ME_NC_1 :: TypeID where [TypeID_defs]: "P_ME_NC_1 = 112"
definition P_AC_NA_1 :: TypeID where [TypeID_defs]: "P_AC_NA_1 = 113"
definition F_FR_NA_1 :: TypeID where [TypeID_defs]: "F_FR_NA_1 = 120"
definition F_SR_NA_1 :: TypeID where [TypeID_defs]: "F_SR_NA_1 = 121"
definition F_SC_NA_1 :: TypeID where [TypeID_defs]: "F_SC_NA_1 = 122"
definition F_LS_NA_1 :: TypeID where [TypeID_defs]: "F_LS_NA_1 = 123"
definition F_AF_NA_1 :: TypeID where [TypeID_defs]: "F_AF_NA_1 = 124"
definition F_SG_NA_1 :: TypeID where [TypeID_defs]: "F_SG_NA_1 = 125"
definition F_DR_TA_1 :: TypeID where [TypeID_defs]: "F_DR_TA_1 = 126"
definition F_SC_NB_1 :: TypeID where [TypeID_defs]: "F_SC_NB_1 = 127"

text \<open>
  \<open>infoObjSize\<close>, the map from the type identification to the serial octet size, with the
  entries in the order of the source.
\<close>

definition infoObjSize :: "TypeID \<rightharpoonup> int" where
  "infoObjSize = map_of [
     (M_SP_NA_1, 1),
     (M_SP_TA_1, 4),
     (M_DP_NA_1, 1),
     (M_DP_TA_1, 4),
     (M_ST_NA_1, 2),
     (M_ST_TA_1, 5),
     (M_BO_NA_1, 5),
     (M_BO_TA_1, 8),
     (M_ME_NA_1, 3),
     (M_ME_TA_1, 6),
     (M_ME_NB_1, 3),
     (M_ME_TB_1, 6),
     (M_ME_NC_1, 5),
     (M_ME_TC_1, 8),
     (M_IT_NA_1, 5),
     (M_IT_TA_1, 8),
     (M_EP_TA_1, 6),
     (M_EP_TB_1, 7),
     (M_EP_TC_1, 7),
     (M_PS_NA_1, 5),
     (M_ME_ND_1, 2),
     (M_SP_TB_1, 8),
     (M_DP_TB_1, 8),
     (M_ST_TB_1, 9),
     (M_BO_TB_1, 12),
     (M_ME_TD_1, 10),
     (M_ME_TE_1, 10),
     (M_ME_TF_1, 12),
     (M_IT_TB_1, 12),
     (M_EP_TD_1, 11),
     (M_EP_TE_1, 11),
     (M_EP_TF_1, 11),
     (C_SC_NA_1, 1),
     (C_DC_NA_1, 1),
     (C_RC_NA_1, 1),
     (C_SE_NA_1, 3),
     (C_SE_NB_1, 3),
     (C_SE_TC_1, 3),
     (C_SE_NC_1, 5),
     (C_BO_NA_1, 4),
     (M_EI_NA_1, 1),
     (C_IC_NA_1, 1),
     (C_CI_NA_1, 1),
     (C_RD_NA_1, 0),
     (C_CS_NA_1, 7),
     (C_TS_NA_1, 2),
     (C_RP_NA_1, 1),
     (C_CD_NA_1, 2),
     (P_ME_NA_1, 3),
     (P_ME_NB_1, 3),
     (P_ME_NC_1, 5),
     (P_AC_NA_1, 1),
     (F_FR_NA_1, 6),
     (F_SR_NA_1, 7),
     (F_SC_NA_1, 4),
     (F_LS_NA_1, 5),
     (F_AF_NA_1, 4),
     (F_DR_TA_1, 13)]"

definition GetInfoObjSize :: "TypeID \<Rightarrow> error + int" where
  "GetInfoObjSize tid =
     (case infoObjSize tid of None \<Rightarrow> Inl ErrTypeIdentifier | Some objSize \<Rightarrow> Inr objSize)"

record VariableStruct =
  Number :: byte
  IsSequence :: bool

definition ParseVariableStruct :: "byte \<Rightarrow> VariableStruct" where
  "ParseVariableStruct b = \<lparr>Number = b AND 0x7f, IsSequence = ((b AND 0x80) = 0x80)\<rparr>"

definition VariableStruct_Value :: "VariableStruct \<Rightarrow> byte" where
  "VariableStruct_Value sf = (if IsSequence sf then Number sf OR 0x80 else Number sf)"

text \<open>\<^verbatim>\<open>type Cause byte\<close> and its constants.\<close>

type_synonym Cause = byte

named_theorems Cause_defs

definition Unused :: Cause where [Cause_defs]: "Unused = 0"
definition Periodic :: Cause where [Cause_defs]: "Periodic = 1"
definition Background :: Cause where [Cause_defs]: "Background = 2"
definition Spontaneous :: Cause where [Cause_defs]: "Spontaneous = 3"
definition Initialized :: Cause where [Cause_defs]: "Initialized = 4"
definition Request :: Cause where [Cause_defs]: "Request = 5"
definition Activation :: Cause where [Cause_defs]: "Activation = 6"
definition ActivationCon :: Cause where [Cause_defs]: "ActivationCon = 7"
definition Deactivation :: Cause where [Cause_defs]: "Deactivation = 8"
definition DeactivationCon :: Cause where [Cause_defs]: "DeactivationCon = 9"
definition ActivationTerm :: Cause where [Cause_defs]: "ActivationTerm = 10"
definition ReturnInfoRemote :: Cause where [Cause_defs]: "ReturnInfoRemote = 11"
definition ReturnInfoLocal :: Cause where [Cause_defs]: "ReturnInfoLocal = 12"
definition FileTransfer :: Cause where [Cause_defs]: "FileTransfer = 13"
definition Authentication :: Cause where [Cause_defs]: "Authentication = 14"
definition SessionKey :: Cause where [Cause_defs]: "SessionKey = 15"
definition UserRoleAndUpdateKey :: Cause where [Cause_defs]: "UserRoleAndUpdateKey = 16"
definition InterrogatedByStation :: Cause where [Cause_defs]: "InterrogatedByStation = 20"
definition InterrogatedByGroup1 :: Cause where [Cause_defs]: "InterrogatedByGroup1 = 21"
definition InterrogatedByGroup2 :: Cause where [Cause_defs]: "InterrogatedByGroup2 = 22"
definition InterrogatedByGroup3 :: Cause where [Cause_defs]: "InterrogatedByGroup3 = 23"
definition InterrogatedByGroup4 :: Cause where [Cause_defs]: "InterrogatedByGroup4 = 24"
definition InterrogatedByGroup5 :: Cause where [Cause_defs]: "InterrogatedByGroup5 = 25"
definition InterrogatedByGroup6 :: Cause where [Cause_defs]: "InterrogatedByGroup6 = 26"
definition InterrogatedByGroup7 :: Cause where [Cause_defs]: "InterrogatedByGroup7 = 27"
definition InterrogatedByGroup8 :: Cause where [Cause_defs]: "InterrogatedByGroup8 = 28"
definition InterrogatedByGroup9 :: Cause where [Cause_defs]: "InterrogatedByGroup9 = 29"
definition InterrogatedByGroup10 :: Cause where [Cause_defs]: "InterrogatedByGroup10 = 30"
definition InterrogatedByGroup11 :: Cause where [Cause_defs]: "InterrogatedByGroup11 = 31"
definition InterrogatedByGroup12 :: Cause where [Cause_defs]: "InterrogatedByGroup12 = 32"
definition InterrogatedByGroup13 :: Cause where [Cause_defs]: "InterrogatedByGroup13 = 33"
definition InterrogatedByGroup14 :: Cause where [Cause_defs]: "InterrogatedByGroup14 = 34"
definition InterrogatedByGroup15 :: Cause where [Cause_defs]: "InterrogatedByGroup15 = 35"
definition InterrogatedByGroup16 :: Cause where [Cause_defs]: "InterrogatedByGroup16 = 36"
definition RequestByGeneralCounter :: Cause where [Cause_defs]: "RequestByGeneralCounter = 37"
definition RequestByGroup1Counter :: Cause where [Cause_defs]: "RequestByGroup1Counter = 38"
definition RequestByGroup2Counter :: Cause where [Cause_defs]: "RequestByGroup2Counter = 39"
definition RequestByGroup3Counter :: Cause where [Cause_defs]: "RequestByGroup3Counter = 40"
definition RequestByGroup4Counter :: Cause where [Cause_defs]: "RequestByGroup4Counter = 41"
definition UnknownTypeID :: Cause where [Cause_defs]: "UnknownTypeID = 44"
definition UnknownCOT :: Cause where [Cause_defs]: "UnknownCOT = 45"
definition UnknownCA :: Cause where [Cause_defs]: "UnknownCA = 46"
definition UnknownIOA :: Cause where [Cause_defs]: "UnknownIOA = 47"

record CauseOfTransmission =
  IsTest :: bool
  IsNegative :: bool
  Cause :: Cause

definition ParseCauseOfTransmission :: "byte \<Rightarrow> CauseOfTransmission" where
  "ParseCauseOfTransmission b =
     \<lparr>IsTest = ((b AND 0x80) = 0x80), IsNegative = ((b AND 0x40) = 0x40),
      Cause = b AND 0x3f\<rparr>"

definition CauseOfTransmission_Value :: "CauseOfTransmission \<Rightarrow> byte" where
  "CauseOfTransmission_Value sf =
     (let v = Cause sf;
          v = (if IsNegative sf then v OR 0x40 else v);
          v = (if IsTest sf then v OR 0x80 else v)
      in v)"

type_synonym OriginAddr = byte
type_synonym CommonAddr = uint16

definition InvalidCommonAddr :: CommonAddr where "InvalidCommonAddr = 0"
definition GlobalCommonAddr :: CommonAddr where "GlobalCommonAddr = 65535"

text \<open>
  Modelled from the spec: the struct \<open>Identifier\<close> is declared in a file that is not
  among the sources. The builders fill it positionally with the type identification, the
  variable structure qualifier, the cause of transmission, the originator address and the
  common address, which are the five components the spec lists.
\<close>

record Identifier =
  Type :: TypeID
  Variable :: VariableStruct
  Coa :: CauseOfTransmission
  OrigAddr :: OriginAddr
  CommonAddr :: CommonAddr

section \<open>Time tags\<close>

text \<open>
  Modelled from the spec: the encoders \<open>CP56Time2a\<close> and \<open>CP24Time2a\<close>, the decoders
  \<open>ParseCP56Time2a\<close> and \<open>ParseCP24Time2a\<close> and the type \<open>time.Time\<close> they work on are
  not among the sources. The spec gives the layout of CP56Time2a as seven bytes,
  \<open>ms_lo, ms_hi, {min: 0..5, IV: 7}, {hour: 0..4, SU: 7}, {day: 0..4, dow: 5..7},
  {month: 0..3}, {year: 0..6}\<close>, with a 2000-based year, and CP24Time2a as CP56Time2a
  truncated to \<open>{ms, min}\<close>, three bytes. A time is taken here as the fields of that
  layout, already expressed in the session's time zone; the zone argument of the Go
  functions and the conversion it stands for have no counterpart in the model.
\<close>

record CivilTime =
  tm_ms :: uint16
  tm_min :: byte
  tm_iv :: bool
  tm_hour :: byte
  tm_su :: bool
  tm_day :: byte
  tm_dow :: byte
  tm_month :: byte
  tm_year :: byte

text \<open>The zero value \<open>time.Time{}\<close> of a field the caller leaves out.\<close>

definition zeroTime :: CivilTime where
  "zeroTime = \<lparr>tm_ms = 0, tm_min = 0, tm_iv = False, tm_hour = 0, tm_su = False,
                tm_day = 0, tm_dow = 0, tm_month = 0, tm_year = 0\<rparr>"

text \<open>Modelled from the spec: the seven bytes of the CP56Time2a layout.\<close>

definition CP56Time2a :: "CivilTime \<Rightarrow> byte list" where
  "CP56Time2a t =
     [ucast (tm_ms t),
      ucast (rsh (tm_ms t) 8),
      (tm_min t AND 0x3f) OR (if tm_iv t then 0x80 else 0),
      (tm_hour t AND 0x1f) OR (if tm_su t then 0x80 else 0),
      (tm_day t AND 0x1f) OR lsh (tm_dow t AND 0x07) 5,
      tm_month t AND 0x0f,
      tm_year t AND 0x7f]"

text \<open>Modelled from the spec: CP24Time2a is CP56Time2a truncated to \<open>{ms, min}\<close>.\<close>

definition CP24Time2a :: "CivilTime \<Rightarrow> byte list" where
  "CP24Time2a t =
     [ucast (tm_ms t),
      ucast (rsh (tm_ms t) 8),
      (tm_min t AND 0x3f) OR (if tm_iv t then 0x80 else 0)]"

text \<open>
  Modelled from the spec: decoding reads the fields of the layout back. The callers below
  slice off seven (three) bytes after the call and panic on a shorter payload, so the
  decoders are only ever asked about a payload of at least that length.
\<close>

definition ParseCP56Time2a :: "byte list \<Rightarrow> CivilTime" where
  "ParseCP56Time2a bytes =
     \<lparr>tm_ms = ucast (bytes ! 0) OR lsh (ucast (bytes ! 1)) 8,
      tm_min = bytes ! 2 AND 0x3f,
      tm_iv = (bytes ! 2 AND 0x80 = 0x80),
      tm_hour = bytes ! 3 AND 0x1f,
      tm_su = (bytes ! 3 AND 0x80 = 0x80),
      tm_day = bytes ! 4 AND 0x1f,
      tm_dow = rsh (bytes ! 4) 5,
      tm_month = bytes ! 5 AND 0x0f,
      tm_year = bytes ! 6 AND 0x7f\<rparr>"

definition ParseCP24Time2a :: "byte list \<Rightarrow> CivilTime" where
  "ParseCP24Time2a bytes =
     zeroTime\<lparr>tm_ms := ucast (bytes ! 0) OR lsh (ucast (bytes ! 1)) 8,
               tm_min := bytes ! 2 AND 0x3f,
               tm_iv := (bytes ! 2 AND 0x80 = 0x80)\<rparr>"

section \<open>The ASDU container and the connection\<close>

text \<open>
  Modelled from the spec: \<open>Params\<close>, its methods \<open>Valid\<close> and \<open>IdentifierSize\<close>, the
  struct \<open>ASDU\<close>, \<open>NewASDU\<close> and \<open>SetVariableNumber\<close> are in a file that is not among the
  sources. The spec gives the widths \<open>Params\<close> holds (cause of transmission 1 or 2,
  common address 1 or 2, information object address 1, 2 or 3), the error \<open>Param\<close> for
  invalid widths, and \<open>IdentifierSize = 2 + COTWidth + CAWidth\<close>. The field names are
  those the sources use (\<open>param.InfoObjAddrSize\<close>, \<open>this.InfoObjAddrSize\<close>).
\<close>

record Params =
  CauseSize :: int
  CommonAddrSize :: int
  InfoObjAddrSize :: int

definition Params_Valid :: "Params \<Rightarrow> error option" where
  "Params_Valid sf =
     (if (CauseSize sf < 1 \<or> CauseSize sf > 2)
         \<or> (CommonAddrSize sf < 1 \<or> CommonAddrSize sf > 2)
         \<or> (InfoObjAddrSize sf < 1 \<or> InfoObjAddrSize sf > 3)
      then Some ErrParam else None)"

definition IdentifierSize :: "Params \<Rightarrow> int" where
  "IdentifierSize sf = 2 + CauseSize sf + CommonAddrSize sf"

text \<open>
  Modelled from the spec: an ASDU is its parameters (the Go struct embeds \<open>*Params\<close>), its
  identifier (embedded too: the sources read \<open>sf.Type\<close> and \<open>sf.Variable\<close>) and the
  payload \<open>infoObj\<close>, which the sources append to and slice from.
\<close>

record ASDU =
  Params :: Params
  Identifier :: Identifier
  infoObj :: "byte list"

text \<open>Modelled from the spec: a fresh ASDU has the identifier given and an empty payload.\<close>

definition NewASDU :: "Params \<Rightarrow> Identifier \<Rightarrow> ASDU" where
  "NewASDU p identifier = \<lparr>Params = p, Identifier = identifier, infoObj = []\<rparr>"

text \<open>
  Modelled from the spec: \<open>SetVariableNumber(n)\<close> validates \<open>n \<le> 127\<close> and that the
  resulting length \<open>\<le> ASDUSizeMax\<close>, returning \<open>LengthOutOfRange\<close> otherwise. The
  resulting length is read as the encoded length of the ASDU the call leaves: the
  identifier and the payload appended so far.
\<close>

definition SetVariableNumber :: "ASDU \<Rightarrow> int \<Rightarrow> error option \<times> ASDU" where
  "SetVariableNumber sf n =
     (if n > 127
         \<or> IdentifierSize (ASDU.Params sf) + int (length (infoObj sf)) > ASDUSizeMax
      then (Some ErrLengthOutOfRange, sf)
      else (None,
            sf\<lparr>Identifier :=
                 (Identifier sf)\<lparr>Variable := (Variable (Identifier sf))\<lparr>Number := of_int n\<rparr>\<rparr>\<rparr>))"

subsection \<open>Appending to the payload\<close>

definition AppendBytes :: "ASDU \<Rightarrow> byte list \<Rightarrow> ASDU" where
  "AppendBytes this b = this\<lparr>infoObj := infoObj this @ b\<rparr>"

definition AppendInfoObjAddr :: "ASDU \<Rightarrow> InfoObjAddr \<Rightarrow> error + ASDU" where
  "AppendInfoObjAddr this addr =
     (if InfoObjAddrSize (ASDU.Params this) = 1 then
        (if addr > 255 then Inl ErrInfoObjAddrFit
         else Inr (this\<lparr>infoObj := infoObj this @ [ucast addr]\<rparr>))
      else if InfoObjAddrSize (ASDU.Params this) = 2 then
        (if addr > 65535 then Inl ErrInfoObjAddrFit
         else Inr (this\<lparr>infoObj := infoObj this @ [ucast addr, ucast (rsh addr 8)]\<rparr>))
      else if InfoObjAddrSize (ASDU.Params this) = 3 then
        (if addr > 16777215 then Inl ErrInfoObjAddrFit
         else Inr (this\<lparr>infoObj :=
                     infoObj this @ [ucast addr, ucast (rsh addr 8), ucast (rsh addr 16)]\<rparr>))
      else Inl ErrParam)"

definition AppendNormalize :: "ASDU \<Rightarrow> Normalize \<Rightarrow> ASDU" where
  "AppendNormalize this n = this\<lparr>infoObj := infoObj this @ [ucast n, ucast (srsh n 8)]\<rparr>"

definition AppendScaled :: "ASDU \<Rightarrow> int16 \<Rightarrow> ASDU" where
  "AppendScaled this i = this\<lparr>infoObj := infoObj this @ [ucast i, ucast (srsh i 8)]\<rparr>"

text \<open>
  A \<open>float32\<close> is carried as its IEEE-754 bit pattern, the value \<open>math.Float32bits\<close>
  returns; \<open>AppendFloat32\<close> only splits that pattern into bytes.
\<close>

type_synonym float32 = uint32

definition AppendFloat32 :: "ASDU \<Rightarrow> float32 \<Rightarrow> ASDU" where
  "AppendFloat32 this bits =
     this\<lparr>infoObj := infoObj this
        @ [ucast bits, ucast (rsh bits 8), ucast (rsh bits 16), ucast (rsh bits 24)]\<rparr>"

definition AppendBitsString32 :: "ASDU \<Rightarrow> uint32 \<Rightarrow> ASDU" where
  "AppendBitsString32 this v =
     this\<lparr>infoObj := infoObj this
        @ [ucast v, ucast (rsh v 8), ucast (rsh v 16), ucast (rsh v 24)]\<rparr>"

text \<open>
  Modelled from the spec: \<open>AppendUint16\<close>, \<open>AppendCP16Time2a\<close>, \<open>AppendCP24Time2a\<close>,
  \<open>AppendCP56Time2a\<close>, \<open>AppendBinaryCounterReading\<close> and
  \<open>AppendStatusAndStatusChangeDetection\<close> are not among the sources. The spec has
  16-bit and 32-bit values little-endian, CP16Time2a as two bytes of raw little-endian
  milliseconds, and a binary counter reading as the 32-bit counter followed by one byte
  \<open>{seq: 5 bits, carry: bit 5, adjusted: bit 6, invalid: bit 7}\<close>.
\<close>

definition AppendUint16 :: "ASDU \<Rightarrow> uint16 \<Rightarrow> ASDU" where
  "AppendUint16 this v = this\<lparr>infoObj := infoObj this @ [ucast v, ucast (rsh v 8)]\<rparr>"

definition AppendCP16Time2a :: "ASDU \<Rightarrow> uint16 \<Rightarrow> ASDU" where
  "AppendCP16Time2a this msec =
     this\<lparr>infoObj := infoObj this @ [ucast msec, ucast (rsh msec 8)]\<rparr>"

definition AppendCP24Time2a :: "ASDU \<Rightarrow> CivilTime \<Rightarrow> ASDU" where
  "AppendCP24Time2a this t = this\<lparr>infoObj := infoObj this @ CP24Time2a t\<rparr>"

definition AppendCP56Time2a :: "ASDU \<Rightarrow> CivilTime \<Rightarrow> ASDU" where
  "AppendCP56Time2a this t = this\<lparr>infoObj := infoObj this @ CP56Time2a t\<rparr>"

definition AppendBinaryCounterReading :: "ASDU \<Rightarrow> BinaryCounterReading \<Rightarrow> ASDU" where
  "AppendBinaryCounterReading this v =
     this\<lparr>infoObj := infoObj this
        @ [ucast (CounterReading v), ucast (rsh (CounterReading v) 8),
           ucast (rsh (CounterReading v) 16), ucast (rsh (CounterReading v) 24),
           (SeqNumber v AND 0x1f)
             OR (if HasCarry v then 0x20 else 0)
             OR (if IsAdjusted v then 0x40 else 0)
             OR (if IsInvalid v then 0x80 else 0)]\<rparr>"

definition AppendStatusAndStatusChangeDetection ::
    "ASDU \<Rightarrow> StatusAndStatusChangeDetection \<Rightarrow> ASDU" where
  "AppendStatusAndStatusChangeDetection this scd =
     this\<lparr>infoObj := infoObj this
        @ [ucast scd, ucast (rsh scd 8), ucast (rsh scd 16), ucast (rsh scd 24)]\<rparr>"

subsection \<open>Decoding from the payload\<close>

text \<open>
  The decoders index and slice \<open>infoObj\<close>; Go panics when the payload is too short, and
  the parsers panic with an error of the package on an unexpected type or width.
\<close>

datatype panic = IndexOutOfRange | PanicError error

definition DecodeByte :: "ASDU \<Rightarrow> panic + byte \<times> ASDU" where
  "DecodeByte this =
     (if length (infoObj this) < 1 then Inl IndexOutOfRange
      else Inr (infoObj this ! 0, this\<lparr>infoObj := drop 1 (infoObj this)\<rparr>))"

definition DecodeInfoObjAddr :: "ASDU \<Rightarrow> panic + InfoObjAddr \<times> ASDU" where
  "DecodeInfoObjAddr this =
     (if InfoObjAddrSize (ASDU.Params this) = 1 then
        (if length (infoObj this) < 1 then Inl IndexOutOfRange
         else Inr (ucast (infoObj this ! 0), this\<lparr>infoObj := drop 1 (infoObj this)\<rparr>))
      else if InfoObjAddrSize (ASDU.Params this) = 2 then
        (if length (infoObj this) < 2 then Inl IndexOutOfRange
         else Inr (ucast (infoObj this ! 0) OR lsh (ucast (infoObj this ! 1)) 8,
                   this\<lparr>infoObj := drop 2 (infoObj this)\<rparr>))
      else if InfoObjAddrSize (ASDU.Params this) = 3 then
        (if length (infoObj this) < 3 then Inl IndexOutOfRange
         else Inr (ucast (infoObj this ! 0) OR lsh (ucast (infoObj this ! 1)) 8
                     OR lsh (ucast (infoObj this ! 2)) 16,
                   this\<lparr>infoObj := drop 3 (infoObj this)\<rparr>))
      else Inl (PanicError ErrParam))"

definition DecodeCP56Time2a :: "ASDU \<Rightarrow> panic + CivilTime \<times> ASDU" where
  "DecodeCP56Time2a this =
     (if length (infoObj this) < 7 then Inl IndexOutOfRange
      else Inr (ParseCP56Time2a (infoObj this), this\<lparr>infoObj := drop 7 (infoObj this)\<rparr>))"

definition DecodeCP24Time2a :: "ASDU \<Rightarrow> panic + CivilTime \<times> ASDU" where
  "DecodeCP24Time2a this =
     (if length (infoObj this) < 3 then Inl IndexOutOfRange
      else Inr (ParseCP24Time2a (infoObj this), this\<lparr>infoObj := drop 3 (infoObj this)\<rparr>))"

subsection \<open>The connection\<close>

text \<open>
  Modelled from the spec: the interface \<open>Connect\<close> is declared in a file that is not among
  the sources; the spec gives \<open>params() \<rightarrow> Params\<close> and \<open>send(ASDU) \<rightarrow> Result\<close>, and
  \<open>SendBusy\<close> and \<open>ConnectionClosed\<close> as the errors a submission meets. A connection is
  its parameters, the answer its engine gives to a \<open>Send\<close> (which may depend on what was
  handed over before) and the list of the ASDUs handed to \<open>Send\<close> so far. The builders
  return their error together with the connection as they leave it.
\<close>

record Connect =
  cParams :: Params
  cAnswer :: "ASDU list \<Rightarrow> ASDU \<Rightarrow> send_error option"
  cSent :: "ASDU list"

definition Send :: "Connect \<Rightarrow> ASDU \<Rightarrow> error option \<times> Connect" where
  "Send c u = (map_option ErrSend (cAnswer c (cSent c) u), c\<lparr>cSent := cSent c @ [u]\<rparr>)"

subsection \<open>The common check of the builders (asdu/identifier.go)\<close>

definition checkValid :: "Connect \<Rightarrow> TypeID \<Rightarrow> bool \<Rightarrow> int \<Rightarrow> error option" where
  "checkValid c typeID isSequence infosLen =
     (if infosLen = 0 then Some ErrNotAnyObjInfo
      else case GetInfoObjSize typeID of
        Inl err \<Rightarrow> Some err
      | Inr objSize \<Rightarrow>
          (let param = cParams c in
           case Params_Valid param of
             Some err \<Rightarrow> Some err
           | None \<Rightarrow>
               (let asduLen =
                      (if isSequence
                       then IdentifierSize param + infosLen * objSize + InfoObjAddrSize param
                       else IdentifierSize param + infosLen * (objSize + InfoObjAddrSize param))
                in if asduLen > ASDUSizeMax then Some ErrLengthOutOfRange else None)))"

text \<open>
  The loop every list builder runs,
  \<^verbatim>\<open>once := false; for _, v := range infos { if !isSequence || !once { once = true;
  if err := u.AppendInfoObjAddr(v.Ioa); err != nil { return err } }; ... }\<close>,
  with the rest of the loop body as \<open>body\<close>: it appends the object and fails with
  \<open>ErrTypeIDNotMatch\<close> in the \<open>default\<close> case of the builder's \<open>switch\<close>.
\<close>

fun range_infos ::
    "bool \<Rightarrow> ('v \<Rightarrow> InfoObjAddr) \<Rightarrow> ('v \<Rightarrow> ASDU \<Rightarrow> error + ASDU)
       \<Rightarrow> bool \<Rightarrow> 'v list \<Rightarrow> ASDU \<Rightarrow> error + ASDU" where
  "range_infos isSequence ioa body once [] u = Inr u"
| "range_infos isSequence ioa body once (v # vs) u =
     (case (if \<not> isSequence \<or> \<not> once then AppendInfoObjAddr u (ioa v) else Inr u) of
        Inl err \<Rightarrow> Inl err
      | Inr u \<Rightarrow>
          (case body v u of
             Inl err \<Rightarrow> Inl err
           | Inr u \<Rightarrow> range_infos isSequence ioa body True vs u))"

section \<open>Process information in the monitoring direction (asdu/identifier.go)\<close>

record SinglePointInfo =
  Ioa :: InfoObjAddr
  Value :: bool
  Qds :: QualityDescriptor
  Time :: CivilTime

text \<open>\<open>single\<close> sends [M_SP_NA_1], [M_SP_TA_1] or [M_SP_TB_1].\<close>

definition single_body :: "TypeID \<Rightarrow> SinglePointInfo \<Rightarrow> ASDU \<Rightarrow> error + ASDU" where
  "single_body typeID v u =
     (let value = (if SinglePointInfo.Value v then 0x01 else 0x00);
          u = AppendBytes u [value OR (SinglePointInfo.Qds v AND 0xf0)]
      in if typeID = M_SP_NA_1 then Inr u
         else if typeID = M_SP_TA_1 then Inr (AppendBytes u (CP24Time2a (SinglePointInfo.Time v)))
         else if typeID = M_SP_TB_1 then Inr (AppendBytes u (CP56Time2a (SinglePointInfo.Time v)))
         else Inl ErrTypeIDNotMatch)"

definition single ::
    "Connect \<Rightarrow> TypeID \<Rightarrow> bool \<Rightarrow> CauseOfTransmission \<Rightarrow> CommonAddr \<Rightarrow> SinglePointInfo list
       \<Rightarrow> error option \<times> Connect" where
  "single c typeID isSequence coa ca infos =
     (case checkValid c typeID isSequence (int (length infos)) of
        Some err \<Rightarrow> (Some err, c)
      | None \<Rightarrow>
          (let u = NewASDU (cParams c)
                     \<lparr>Type = typeID,
                      Variable = \<lparr>Number = 0, IsSequence = isSequence\<rparr>,
                      Coa = coa, OrigAddr = 0, CommonAddr = ca\<rparr>
           in case SetVariableNumber u (int (length infos)) of
                (Some err, u) \<Rightarrow> (Some err, c)
              | (None, u) \<Rightarrow>
                  (case range_infos isSequence SinglePointInfo.Ioa (single_body typeID) False infos u of
                     Inl err \<Rightarrow> (Some err, c)
                   | Inr u \<Rightarrow> Send c u)))"

definition Single ::
    "Connect \<Rightarrow> bool \<Rightarrow> CauseOfTransmission \<Rightarrow> CommonAddr \<Rightarrow> SinglePointInfo list
       \<Rightarrow> error option \<times> Connect" where
  "Single c isSequence coa ca infos =
     (if \<not> (CauseOfTransmission.Cause coa = Background \<or> CauseOfTransmission.Cause coa = Spontaneous \<or> CauseOfTransmission.Cause coa = Request
          \<or> CauseOfTransmission.Cause coa = ReturnInfoRemote \<or> CauseOfTransmission.Cause coa = ReturnInfoLocal
          \<or> (InterrogatedByStation \<le> CauseOfTransmission.Cause coa \<and> CauseOfTransmission.Cause coa \<le> InterrogatedByGroup16))
      then (Some ErrCmdCause, c)
      else single c M_SP_NA_1 isSequence coa ca infos)"

definition SingleCP24Time2a ::
    "Connect \<Rightarrow> CauseOfTransmission \<Rightarrow> CommonAddr \<Rightarrow> SinglePointInfo list
       \<Rightarrow> error option \<times> Connect" where
  "SingleCP24Time2a c coa ca infos =
     (if \<not> (CauseOfTransmission.Cause coa = Spontaneous \<or> CauseOfTransmission.Cause coa = Request
          \<or> CauseOfTransmission.Cause coa = ReturnInfoRemote \<or> CauseOfTransmission.Cause coa = ReturnInfoLocal)
      then (Some ErrCmdCause, c)
      else single c M_SP_TA_1 False coa ca infos)"

definition SingleCP56Time2a ::
    "Connect \<Rightarrow> CauseOfTransmission \<Rightarrow> CommonAddr \<Rightarrow> SinglePointInfo list
       \<Rightarrow> error option \<times> Connect" where
  "SingleCP56Time2a c coa ca infos =
     (if \<not> (CauseOfTransmission.Cause coa = Spontaneous \<or> CauseOfTransmission.Cause coa = Request
          \<or> CauseOfTransmission.Cause coa = ReturnInfoRemote \<or> CauseOfTransmission.Cause coa = ReturnInfoLocal)
      then (Some ErrCmdCause, c)
      else single c M_SP_TB_1 False coa ca infos)"

record DoublePointInfo =
  Ioa :: InfoObjAddr
  Value :: DoublePoint
  Qds :: QualityDescriptor
  Time :: CivilTime

text \<open>\<open>double\<close> sends [M_DP_NA_1], [M_DP_TA_1] or [M_DP_TB_1].\<close>

definition double_body :: "TypeID \<Rightarrow> DoublePointInfo \<Rightarrow> ASDU \<Rightarrow> error + ASDU" where
  "double_body typeID v u =
     (let u = AppendBytes u [(DoublePointInfo.Value v AND 0x03) OR (DoublePointInfo.Qds v AND 0xf0)]
      in if typeID = M_DP_NA_1 then Inr u
         else if typeID = M_DP_TA_1 then Inr (AppendBytes u (CP24Time2a (DoublePointInfo.Time v)))
         else if typeID = M_DP_TB_1 then Inr (AppendBytes u (CP56Time2a (DoublePointInfo.Time v)))
         else Inl ErrTypeIDNotMatch)"

definition double ::
    "Connect \<Rightarrow> TypeID \<Rightarrow> bool \<Rightarrow> CauseOfTransmission \<Rightarrow> CommonAddr \<Rightarrow> DoublePointInfo list
       \<Rightarrow> error option \<times> Connect" where
  "double c typeID isSequence coa ca infos =
     (case checkValid c typeID isSequence (int (length infos)) of
        Some err \<Rightarrow> (Some err, c)
      | None \<Rightarrow>
          (let u = NewASDU (cParams c)
                     \<lparr>Type = typeID,
                      Variable = \<lparr>Number = 0, IsSequence = isSequence\<rparr>,
                      Coa = coa, OrigAddr = 0, CommonAddr = ca\<rparr>
           in case SetVariableNumber u (int (length infos)) of
                (Some err, u) \<Rightarrow> (Some err, c)
              | (None, u) \<Rightarrow>
                  (case range_infos isSequence DoublePointInfo.Ioa (double_body typeID) False infos u of
                     Inl err \<Rightarrow> (Some err, c)
                   | Inr u \<Rightarrow> Send c u)))"

definition Double ::
    "Connect \<Rightarrow> bool \<Rightarrow> CauseOfTransmission \<Rightarrow> CommonAddr \<Rightarrow> DoublePointInfo list
       \<Rightarrow> error option \<times> Connect" where
  "Double c isSequence coa ca infos =
     (if \<not> (CauseOfTransmission.Cause coa = Background \<or> CauseOfTransmission.Cause coa = Spontaneous \<or> CauseOfTransmission.Cause coa = Request
          \<or> CauseOfTransmission.Cause coa = ReturnInfoRemote \<or> CauseOfTransmission.Cause coa = ReturnInfoLocal
          \<or> (InterrogatedByStation \<le> CauseOfTransmission.Cause coa \<and> CauseOfTransmission.Cause coa \<le> InterrogatedByGroup16))
      then (Some ErrCmdCause, c)
      else double c M_DP_NA_1 isSequence coa ca infos)"

definition DoubleCP24Time2a ::
    "Connect \<Rightarrow> CauseOfTransmission \<Rightarrow> CommonAddr \<Rightarrow> DoublePointInfo list
       \<Rightarrow> error option \<times> Connect" where
  "DoubleCP24Time2a c coa ca infos =
     (if \<not> (CauseOfTransmission.Cause coa = Spontaneous \<or> CauseOfTransmission.Cause coa = Request
          \<or> CauseOfTransmission.Cause coa = ReturnInfoRemote \<or> CauseOfTransmission.Cause coa = ReturnInfoLocal)
      then (Some ErrCmdCause, c)
      else double c M_DP_TA_1 False coa ca infos)"

definition DoubleCP56Time2a ::
    "Connect \<Rightarrow> CauseOfTransmission \<Rightarrow> CommonAddr \<Rightarrow> DoublePointInfo list
       \<Rightarrow> error option \<times> Connect" where
  "DoubleCP56Time2a c coa ca infos =
     (if \<not> (CauseOfTransmission.Cause coa = Spontaneous \<or> CauseOfTransmission.Cause coa = Request
          \<or> CauseOfTransmission.Cause coa = ReturnInfoRemote \<or> CauseOfTransmission.Cause coa = ReturnInfoLocal)
      then (Some ErrCmdCause, c)
      else double c M_DP_TB_1 False coa ca infos)"

record StepPositionInfo =
  Ioa :: InfoObjAddr
  Value :: StepPosition
  Qds :: QualityDescriptor
  Time :: CivilTime

text \<open>\<open>step\<close>, documented as sending [M_ST_NA_1], [M_ST_TA_1] or [M_ST_TB_1]. The third
  case of its \<open>switch\<close> reads \<^verbatim>\<open>case M_SP_TB_1:\<close> in the source, and so it does here.\<close>

definition step_body :: "TypeID \<Rightarrow> StepPositionInfo \<Rightarrow> ASDU \<Rightarrow> error + ASDU" where
  "step_body typeID v u =
     (let u = AppendBytes u [StepPosition_Value (StepPositionInfo.Value v), StepPositionInfo.Qds v]
      in if typeID = M_ST_NA_1 then Inr u
         else if typeID = M_ST_TA_1 then Inr (AppendBytes u (CP24Time2a (StepPositionInfo.Time v)))
         else if typeID = M_SP_TB_1 then Inr (AppendBytes u (CP56Time2a (StepPositionInfo.Time v)))
         else Inl ErrTypeIDNotMatch)"

definition step ::
    "Connect \<Rightarrow> TypeID \<Rightarrow> bool \<Rightarrow> CauseOfTransmission \<Rightarrow> CommonAddr \<Rightarrow> StepPositionInfo list
       \<Rightarrow> error option \<times> Connect" where
  "step c typeID isSequence coa ca infos =
     (case checkValid c typeID isSequence (int (length infos)) of
        Some err \<Rightarrow> (Some err, c)
      | None \<Rightarrow>
          (let u = NewASDU (cParams c)
                     \<lparr>Type = typeID,
                      Variable = \<lparr>Number = 0, IsSequence = isSequence\<rparr>,
                      Coa = coa, OrigAddr = 0, CommonAddr = ca\<rparr>
           in case SetVariableNumber u (int (length infos)) of
                (Some err, u) \<Rightarrow> (Some err, c)
              | (None, u) \<Rightarrow>
                  (case range_infos isSequence StepPositionInfo.Ioa (step_body typeID) False infos u of
                     Inl err \<Rightarrow> (Some err, c)
                   | Inr u \<Rightarrow> Send c u)))"

definition Step ::
    "Connect \<Rightarrow> bool \<Rightarrow> CauseOfTransmission \<Rightarrow> CommonAddr \<Rightarrow> StepPositionInfo list
       \<Rightarrow> error option \<times> Connect" where
  "Step c isSequence coa ca infos =
     (if \<not> (CauseOfTransmission.Cause coa = Background \<or> CauseOfTransmission.Cause coa = Spontaneous \<or> CauseOfTransmission.Cause coa = Request
          \<or> CauseOfTransmission.Cause coa = ReturnInfoRemote \<or> CauseOfTransmission.Cause coa = ReturnInfoLocal
          \<or> (InterrogatedByStation \<le> CauseOfTransmission.Cause coa \<and> CauseOfTransmission.Cause coa \<le> InterrogatedByGroup16))
      then (Some ErrCmdCause, c)
      else step c M_ST_NA_1 isSequence coa ca infos)"

definition StepCP24Time2a ::
    "Connect \<Rightarrow> CauseOfTransmission \<Rightarrow> CommonAddr \<Rightarrow> StepPositionInfo list
       \<Rightarrow> error option \<times> Connect" where
  "StepCP24Time2a c coa ca infos =
     (if \<not> (CauseOfTransmission.Cause coa = Spontaneous \<or> CauseOfTransmission.Cause coa = Request
          \<or> CauseOfTransmission.Cause coa = ReturnInfoRemote \<or> CauseOfTransmission.Cause coa = ReturnInfoLocal)
      then (Some ErrCmdCause, c)
      else step c M_ST_TA_1 False coa ca infos)"

text \<open>
  \<open>StepCP56Time2a\<close>, documented as sending [M_ST_TB_1]; the source calls
  \<^verbatim>\<open>step(c, M_SP_TB_1, false, coa, ca, infos...)\<close>.
\<close>

definition StepCP56Time2a ::
    "Connect \<Rightarrow> CauseOfTransmission \<Rightarrow> CommonAddr \<Rightarrow> StepPositionInfo list
       \<Rightarrow> error option \<times> Connect" where
  "StepCP56Time2a c coa ca infos =
     (if \<not> (CauseOfTransmission.Cause coa = Spontaneous \<or> CauseOfTransmission.Cause coa = Request
          \<or> CauseOfTransmission.Cause coa = ReturnInfoRemote \<or> CauseOfTransmission.Cause coa = ReturnInfoLocal)
      then (Some ErrCmdCause, c)
      else step c M_SP_TB_1 False coa ca infos)"

record BitString32Info =
  Ioa :: InfoObjAddr
  Value :: uint32
  Qds :: QualityDescriptor
  Time :: CivilTime

text \<open>\<open>bitString32\<close> sends [M_BO_NA_1], [M_BO_TA_1] or [M_BO_TB_1].\<close>

definition bitString32_body :: "TypeID \<Rightarrow> BitString32Info \<Rightarrow> ASDU \<Rightarrow> error + ASDU" where
  "bitString32_body typeID v u =
     (let u = AppendBytes (AppendBitsString32 u (BitString32Info.Value v)) [BitString32Info.Qds v]
      in if typeID = M_BO_NA_1 then Inr u
         else if typeID = M_BO_TA_1 then Inr (AppendBytes u (CP24Time2a (BitString32Info.Time v)))
         else if typeID = M_BO_TB_1 then Inr (AppendBytes u (CP56Time2a (BitString32Info.Time v)))
         else Inl ErrTypeIDNotMatch)"

definition bitString32 ::
    "Connect \<Rightarrow> TypeID \<Rightarrow> bool \<Rightarrow> CauseOfTransmission \<Rightarrow> CommonAddr \<Rightarrow> BitString32Info list
       \<Rightarrow> error option \<times> Connect" where
  "bitString32 c typeID isSequence coa ca infos =
     (case checkValid c typeID isSequence (int (length infos)) of
        Some err \<Rightarrow> (Some err, c)
      | None \<Rightarrow>
          (let u = NewASDU (cParams c)
                     \<lparr>Type = typeID,
                      Variable = \<lparr>Number = 0, IsSequence = isSequence\<rparr>,
                      Coa = coa, OrigAddr = 0, CommonAddr = ca\<rparr>
           in case SetVariableNumber u (int (length infos)) of
                (Some err, u) \<Rightarrow> (Some err, c)
              | (None, u) \<Rightarrow>
                  (case range_infos isSequence BitString32Info.Ioa (bitString32_body typeID) False infos u of
                     Inl err \<Rightarrow> (Some err, c)
                   | Inr u \<Rightarrow> Send c u)))"

definition BitString32 ::
    "Connect \<Rightarrow> bool \<Rightarrow> CauseOfTransmission \<Rightarrow> CommonAddr \<Rightarrow> BitString32Info list
       \<Rightarrow> error option \<times> Connect" where
  "BitString32 c isSequence coa ca infos =
     (if \<not> (CauseOfTransmission.Cause coa = Background \<or> CauseOfTransmission.Cause coa = Spontaneous \<or> CauseOfTransmission.Cause coa = Request
          \<or> (InterrogatedByStation \<le> CauseOfTransmission.Cause coa \<and> CauseOfTransmission.Cause coa \<le> InterrogatedByGroup16))
      then (Some ErrCmdCause, c)
      else bitString32 c M_BO_NA_1 isSequence coa ca infos)"

definition BitString32CP24Time2a ::
    "Connect \<Rightarrow> CauseOfTransmission \<Rightarrow> CommonAddr \<Rightarrow> BitString32Info list
       \<Rightarrow> error option \<times> Connect" where
  "BitString32CP24Time2a c coa ca infos =
     (if \<not> (CauseOfTransmission.Cause coa = Spontaneous \<or> CauseOfTransmission.Cause coa = Request)
      then (Some ErrCmdCause, c)
      else bitString32 c M_BO_TA_1 False coa ca infos)"

definition BitString32CP56Time2a ::
    "Connect \<Rightarrow> CauseOfTransmission \<Rightarrow> CommonAddr \<Rightarrow> BitString32Info list
       \<Rightarrow> error option \<times> Connect" where
  "BitString32CP56Time2a c coa ca infos =
     (if \<not> (CauseOfTransmission.Cause coa = Spontaneous \<or> CauseOfTransmission.Cause coa = Request)
      then (Some ErrCmdCause, c)
      else bitString32 c M_BO_TB_1 False coa ca infos)"

record MeasuredValueNormalInfo =
  Ioa :: InfoObjAddr
  Value :: Normalize
  Qds :: QualityDescriptor
  Time :: CivilTime

text \<open>\<open>measuredValueNormal\<close> sends [M_ME_NA_1], [M_ME_TA_1], [M_ME_TD_1] or [M_ME_ND_1].\<close>

definition measuredValueNormal_body :: "TypeID \<Rightarrow> MeasuredValueNormalInfo \<Rightarrow> ASDU \<Rightarrow> error + ASDU" where
  "measuredValueNormal_body typeID v u =
     (let u = AppendNormalize u (MeasuredValueNormalInfo.Value v)
      in if typeID = M_ME_NA_1 then Inr (AppendBytes u [MeasuredValueNormalInfo.Qds v])
         else if typeID = M_ME_TA_1
           then Inr (AppendBytes (AppendBytes u [MeasuredValueNormalInfo.Qds v])
                       (CP24Time2a (MeasuredValueNormalInfo.Time v)))
         else if typeID = M_ME_TD_1
           then Inr (AppendBytes (AppendBytes u [MeasuredValueNormalInfo.Qds v])
                       (CP56Time2a (MeasuredValueNormalInfo.Time v)))
         else if typeID = M_ME_ND_1 then Inr u
         else Inl ErrTypeIDNotMatch)"

definition measuredValueNormal ::
    "Connect \<Rightarrow> TypeID \<Rightarrow> bool \<Rightarrow> CauseOfTransmission \<Rightarrow> CommonAddr \<Rightarrow> MeasuredValueNormalInfo list
       \<Rightarrow> error option \<times> Connect" where
  "measuredValueNormal c typeID isSequence coa ca infos =
     (case checkValid c typeID isSequence (int (length infos)) of
        Some err \<Rightarrow> (Some err, c)
      | None \<Rightarrow>
          (let u = NewASDU (cParams c)
                     \<lparr>Type = typeID,
                      Variable = \<lparr>Number = 0, IsSequence = isSequence\<rparr>,
                      Coa = coa, OrigAddr = 0, CommonAddr = ca\<rparr>
           in case SetVariableNumber u (int (length infos)) of
                (Some err, u) \<Rightarrow> (Some err, c)
              | (None, u) \<Rightarrow>
                  (case range_infos isSequence MeasuredValueNormalInfo.Ioa (measuredValueNormal_body typeID) False infos u of
                     Inl err \<Rightarrow> (Some err, c)
                   | Inr u \<Rightarrow> Send c u)))"

definition MeasuredValueNormal ::
    "Connect \<Rightarrow> bool \<Rightarrow> CauseOfTransmission \<Rightarrow> CommonAddr \<Rightarrow> MeasuredValueNormalInfo list
       \<Rightarrow> error option \<times> Connect" where
  "MeasuredValueNormal c isSequence coa ca infos =
     (if \<not> (CauseOfTransmission.Cause coa = Periodic \<or> CauseOfTransmission.Cause coa = Background
          \<or> CauseOfTransmission.Cause coa = Spontaneous \<or> CauseOfTransmission.Cause coa = Request
          \<or> (InterrogatedByStation \<le> CauseOfTransmission.Cause coa \<and> CauseOfTransmission.Cause coa \<le> InterrogatedByGroup16))
      then (Some ErrCmdCause, c)
      else measuredValueNormal c M_ME_NA_1 isSequence coa ca infos)"

definition MeasuredValueNormalCP24Time2a ::
    "Connect \<Rightarrow> CauseOfTransmission \<Rightarrow> CommonAddr \<Rightarrow> MeasuredValueNormalInfo list
       \<Rightarrow> error option \<times> Connect" where
  "MeasuredValueNormalCP24Time2a c coa ca infos =
     (if \<not> (CauseOfTransmission.Cause coa = Spontaneous \<or> CauseOfTransmission.Cause coa = Request)
      then (Some ErrCmdCause, c)
      else measuredValueNormal c M_ME_TA_1 False coa ca infos)"

definition MeasuredValueNormalCP56Time2a ::
    "Connect \<Rightarrow> CauseOfTransmission \<Rightarrow> CommonAddr \<Rightarrow> MeasuredValueNormalInfo list
       \<Rightarrow> error option \<times> Connect" where
  "MeasuredValueNormalCP56Time2a c coa ca infos =
     (if \<not> (CauseOfTransmission.Cause coa = Spontaneous \<or> CauseOfTransmission.Cause coa = Request)
      then (Some ErrCmdCause, c)
      else measuredValueNormal c M_ME_TD_1 False coa ca infos)"

definition MeasuredValueNormalNoQuality ::
    "Connect \<Rightarrow> bool \<Rightarrow> CauseOfTransmission \<Rightarrow> CommonAddr \<Rightarrow> MeasuredValueNormalInfo list
       \<Rightarrow> error option \<times> Connect" where
  "MeasuredValueNormalNoQuality c isSequence coa ca infos =
     (if \<not> (CauseOfTransmission.Cause coa = Periodic \<or> CauseOfTransmission.Cause coa = Background
          \<or> CauseOfTransmission.Cause coa = Spontaneous \<or> CauseOfTransmission.Cause coa = Request
          \<or> (InterrogatedByStation \<le> CauseOfTransmission.Cause coa \<and> CauseOfTransmission.Cause coa \<le> InterrogatedByGroup16))
      then (Some ErrCmdCause, c)
      else measuredValueNormal c M_ME_ND_1 isSequence coa ca infos)"

record MeasuredValueScaledInfo =
  Ioa :: InfoObjAddr
  Value :: int16
  Qds :: QualityDescriptor
  Time :: CivilTime

text \<open>\<open>measuredValueScaled\<close> sends [M_ME_NB_1], [M_ME_TB_1] or [M_ME_TE_1].\<close>

definition measuredValueScaled_body :: "TypeID \<Rightarrow> MeasuredValueScaledInfo \<Rightarrow> ASDU \<Rightarrow> error + ASDU" where
  "measuredValueScaled_body typeID v u =
     (let u = AppendBytes (AppendScaled u (MeasuredValueScaledInfo.Value v)) [MeasuredValueScaledInfo.Qds v]
      in if typeID = M_ME_NB_1 then Inr u
         else if typeID = M_ME_TB_1 then Inr (AppendBytes u (CP24Time2a (MeasuredValueScaledInfo.Time v)))
         else if typeID = M_ME_TE_1 then Inr (AppendBytes u (CP56Time2a (MeasuredValueScaledInfo.Time v)))
         else Inl ErrTypeIDNotMatch)"

definition measuredValueScaled ::
    "Connect \<Rightarrow> TypeID \<Rightarrow> bool \<Rightarrow> CauseOfTransmission \<Rightarrow> CommonAddr \<Rightarrow> MeasuredValueScaledInfo list
       \<Rightarrow> error option \<times> Connect" where
  "measuredValueScaled c typeID isSequence coa ca infos =
     (case checkValid c typeID isSequence (int (length infos)) of
        Some err \<Rightarrow> (Some err, c)
      | None \<Rightarrow>
          (let u = NewASDU (cParams c)
                     \<lparr>Type = typeID,
                      Variable = \<lparr>Number = 0, IsSequence = isSequence\<rparr>,
                      Coa = coa, OrigAddr = 0, CommonAddr = ca\<rparr>
           in case SetVariableNumber u (int (length infos)) of
                (Some err, u) \<Rightarrow> (Some err, c)
              | (None, u) \<Rightarrow>
                  (case range_infos isSequence MeasuredValueScaledInfo.Ioa (measuredValueScaled_body typeID) False infos u of
                     Inl err \<Rightarrow> (Some err, c)
                   | Inr u \<Rightarrow> Send c u)))"

definition MeasuredValueScaled ::
    "Connect \<Rightarrow> bool \<Rightarrow> CauseOfTransmission \<Rightarrow> CommonAddr \<Rightarrow> MeasuredValueScaledInfo list
       \<Rightarrow> error option \<times> Connect" where
  "MeasuredValueScaled c isSequence coa ca infos =
     (if \<not> (CauseOfTransmission.Cause coa = Periodic \<or> CauseOfTransmission.Cause coa = Background
          \<or> CauseOfTransmission.Cause coa = Spontaneous \<or> CauseOfTransmission.Cause coa = Request
          \<or> (InterrogatedByStation \<le> CauseOfTransmission.Cause coa \<and> CauseOfTransmission.Cause coa \<le> InterrogatedByGroup16))
      then (Some ErrCmdCause, c)
      else measuredValueScaled c M_ME_NB_1 isSequence coa ca infos)"

definition MeasuredValueScaledCP24Time2a ::
    "Connect \<Rightarrow> CauseOfTransmission \<Rightarrow> CommonAddr \<Rightarrow> MeasuredValueScaledInfo list
       \<Rightarrow> error option \<times> Connect" where
  "MeasuredValueScaledCP24Time2a c coa ca infos =
     (if \<not> (CauseOfTransmission.Cause coa = Spontaneous \<or> CauseOfTransmission.Cause coa = Request)
      then (Some ErrCmdCause, c)
      else measuredValueScaled c M_ME_TB_1 False coa ca infos)"

definition MeasuredValueScaledCP56Time2a ::
    "Connect \<Rightarrow> CauseOfTransmission \<Rightarrow> CommonAddr \<Rightarrow> MeasuredValueScaledInfo list
       \<Rightarrow> error option \<times> Connect" where
  "MeasuredValueScaledCP56Time2a c coa ca infos =
     (if \<not> (CauseOfTransmission.Cause coa = Spontaneous \<or> CauseOfTransmission.Cause coa = Request)
      then (Some ErrCmdCause, c)
      else measuredValueScaled c M_ME_TE_1 False coa ca infos)"

record MeasuredValueFloatInfo =
  Ioa :: InfoObjAddr
  Value :: float32
  Qds :: QualityDescriptor
  Time :: CivilTime

text \<open>\<open>measuredValueFloat\<close> sends [M_ME_NC_1], [M_ME_TC_1] or [M_ME_TF_1].\<close>

definition measuredValueFloat_body :: "TypeID \<Rightarrow> MeasuredValueFloatInfo \<Rightarrow> ASDU \<Rightarrow> error + ASDU" where
  "measuredValueFloat_body typeID v u =
     (let u = AppendBytes (AppendFloat32 u (MeasuredValueFloatInfo.Value v)) [MeasuredValueFloatInfo.Qds v AND 0xf1]
      in if typeID = M_ME_NC_1 then Inr u
         else if typeID = M_ME_TC_1 then Inr (AppendBytes u (CP24Time2a (MeasuredValueFloatInfo.Time v)))
         else if typeID = M_ME_TF_1 then Inr (AppendBytes u (CP56Time2a (MeasuredValueFloatInfo.Time v)))
         else Inl ErrTypeIDNotMatch)"

definition measuredValueFloat ::
    "Connect \<Rightarrow> TypeID \<Rightarrow> bool \<Rightarrow> CauseOfTransmission \<Rightarrow> CommonAddr \<Rightarrow> MeasuredValueFloatInfo list
       \<Rightarrow> error option \<times> Connect" where
  "measuredValueFloat c typeID isSequence coa ca infos =
     (case checkValid c typeID isSequence (int (length infos)) of
        Some err \<Rightarrow> (Some err, c)
      | None \<Rightarrow>
          (let u = NewASDU (cParams c)
                     \<lparr>Type = typeID,
                      Variable = \<lparr>Number = 0, IsSequence = isSequence\<rparr>,
                      Coa = coa, OrigAddr = 0, CommonAddr = ca\<rparr>
           in case SetVariableNumber u (int (length infos)) of
                (Some err, u) \<Rightarrow> (Some err, c)
              | (None, u) \<Rightarrow>
                  (case range_infos isSequence MeasuredValueFloatInfo.Ioa (measuredValueFloat_body typeID) False infos u of
                     Inl err \<Rightarrow> (Some err, c)
                   | Inr u \<Rightarrow> Send c u)))"

definition MeasuredValueFloat ::
    "Connect \<Rightarrow> bool \<Rightarrow> CauseOfTransmission \<Rightarrow> CommonAddr \<Rightarrow> MeasuredValueFloatInfo list
       \<Rightarrow> error option \<times> Connect" where
  "MeasuredValueFloat c isSequence coa ca infos =
     (if \<not> (CauseOfTransmission.Cause coa = Periodic \<or> CauseOfTransmission.Cause coa = Background
          \<or> CauseOfTransmission.Cause coa = Spontaneous \<or> CauseOfTransmission.Cause coa = Request
          \<or> (InterrogatedByStation \<le> CauseOfTransmission.Cause coa \<and> CauseOfTransmission.Cause coa \<le> InterrogatedByGroup16))
      then (Some ErrCmdCause, c)
      else measuredValueFloat c M_ME_NC_1 isSequence coa ca infos)"

definition MeasuredValueFloatCP24Time2a ::
    "Connect \<Rightarrow> CauseOfTransmission \<Rightarrow> CommonAddr \<Rightarrow> MeasuredValueFloatInfo list
       \<Rightarrow> error option \<times> Connect" where
  "MeasuredValueFloatCP24Time2a c coa ca infos =
     (if \<not> (CauseOfTransmission.Cause coa = Spontaneous \<or> CauseOfTransmission.Cause coa = Request)
      then (Some ErrCmdCause, c)
      else measuredValueFloat c M_ME_TC_1 False coa ca infos)"

definition MeasuredValueFloatCP56Time2a ::
    "Connect \<Rightarrow> CauseOfTransmission \<Rightarrow> CommonAddr \<Rightarrow> MeasuredValueFloatInfo list
       \<Rightarrow> error option \<times> Connect" where
  "MeasuredValueFloatCP56Time2a c coa ca infos =
     (if \<not> (CauseOfTransmission.Cause coa = Spontaneous \<or> CauseOfTransmission.Cause coa = Request)
      then (Some ErrCmdCause, c)
      else measuredValueFloat c M_ME_TF_1 False coa ca infos)"

record BinaryCounterReadingInfo =
  Ioa :: InfoObjAddr
  Value :: BinaryCounterReading
  Time :: CivilTime

text \<open>\<open>integratedTotals\<close> sends [M_IT_NA_1], [M_IT_TA_1] or [M_IT_TB_1].\<close>

definition integratedTotals_body :: "TypeID \<Rightarrow> BinaryCounterReadingInfo \<Rightarrow> ASDU \<Rightarrow> error + ASDU" where
  "integratedTotals_body typeID v u =
     (let u = AppendBinaryCounterReading u (BinaryCounterReadingInfo.Value v)
      in if typeID = M_IT_NA_1 then Inr u
         else if typeID = M_IT_TA_1 then Inr (AppendBytes u (CP24Time2a (BinaryCounterReadingInfo.Time v)))
         else if typeID = M_IT_TB_1 then Inr (AppendBytes u (CP56Time2a (BinaryCounterReadingInfo.Time v)))
         else Inl ErrTypeIDNotMatch)"

definition integratedTotals ::
    "Connect \<Rightarrow> TypeID \<Rightarrow> bool \<Rightarrow> CauseOfTransmission \<Rightarrow> CommonAddr \<Rightarrow> BinaryCounterReadingInfo list
       \<Rightarrow> error option \<times> Connect" where
  "integratedTotals c typeID isSequence coa ca infos =
     (case checkValid c typeID isSequence (int (length infos)) of
        Some err \<Rightarrow> (Some err, c)
      | None \<Rightarrow>
          (let u = NewASDU (cParams c)
                     \<lparr>Type = typeID,
                      Variable = \<lparr>Number = 0, IsSequence = isSequence\<rparr>,
                      Coa = coa, OrigAddr = 0, CommonAddr = ca\<rparr>
           in case SetVariableNumber u (int (length infos)) of
                (Some err, u) \<Rightarrow> (Some err, c)
              | (None, u) \<Rightarrow>
                  (case range_infos isSequence BinaryCounterReadingInfo.Ioa (integratedTotals_body typeID) False infos u of
                     Inl err \<Rightarrow> (Some err, c)
                   | Inr u \<Rightarrow> Send c u)))"

definition IntegratedTotals ::
    "Connect \<Rightarrow> bool \<Rightarrow> CauseOfTransmission \<Rightarrow> CommonAddr \<Rightarrow> BinaryCounterReadingInfo list
       \<Rightarrow> error option \<times> Connect" where
  "IntegratedTotals c isSequence coa ca infos =
     (if \<not> (CauseOfTransmission.Cause coa = Spontaneous
          \<or> (RequestByGeneralCounter \<le> CauseOfTransmission.Cause coa \<and> CauseOfTransmission.Cause coa \<le> RequestByGroup4Counter))
      then (Some ErrCmdCause, c)
      else integratedTotals c M_IT_NA_1 isSequence coa ca infos)"

definition IntegratedTotalsCP24Time2a ::
    "Connect \<Rightarrow> CauseOfTransmission \<Rightarrow> CommonAddr \<Rightarrow> BinaryCounterReadingInfo list
       \<Rightarrow> error option \<times> Connect" where
  "IntegratedTotalsCP24Time2a c coa ca infos =
     (if \<not> (CauseOfTransmission.Cause coa = Spontaneous
          \<or> (RequestByGeneralCounter \<le> CauseOfTransmission.Cause coa \<and> CauseOfTransmission.Cause coa \<le> RequestByGroup4Counter))
      then (Some ErrCmdCause, c)
      else integratedTotals c M_IT_TA_1 False coa ca infos)"

definition IntegratedTotalsCP56Time2a ::
    "Connect \<Rightarrow> CauseOfTransmission \<Rightarrow> CommonAddr \<Rightarrow> BinaryCounterReadingInfo list
       \<Rightarrow> error option \<times> Connect" where
  "IntegratedTotalsCP56Time2a c coa ca infos =
     (if \<not> (CauseOfTransmission.Cause coa = Spontaneous
          \<or> (RequestByGeneralCounter \<le> CauseOfTransmission.Cause coa \<and> CauseOfTransmission.Cause coa \<le> RequestByGroup4Counter))
      then (Some ErrCmdCause, c)
      else integratedTotals c M_IT_TB_1 False coa ca infos)"

record EventOfProtectionEquipmentInfo =
  Ioa :: InfoObjAddr
  Event :: SingleEvent
  Qdp :: QualityDescriptorProtection
  Msec :: uint16
  Time :: CivilTime

text \<open>
  \<open>eventOfProtectionEquipment\<close> sends [M_EP_TA_1] or [M_EP_TD_1]. Its loop appends the
  address of every object.
\<close>

fun eventOfProtectionEquipment_loop ::
    "TypeID \<Rightarrow> EventOfProtectionEquipmentInfo list \<Rightarrow> ASDU \<Rightarrow> error + ASDU" where
  "eventOfProtectionEquipment_loop typeID [] u = Inr u"
| "eventOfProtectionEquipment_loop typeID (v # vs) u =
     (case AppendInfoObjAddr u (EventOfProtectionEquipmentInfo.Ioa v) of
        Inl err \<Rightarrow> Inl err
      | Inr u \<Rightarrow>
          (let u = AppendBytes u [(EventOfProtectionEquipmentInfo.Event v AND 0x03)
                                   OR (EventOfProtectionEquipmentInfo.Qdp v AND 0xf8)];
               u = AppendCP16Time2a u (EventOfProtectionEquipmentInfo.Msec v)
           in if typeID = M_EP_TA_1
                then eventOfProtectionEquipment_loop typeID vs
                       (AppendCP24Time2a u (EventOfProtectionEquipmentInfo.Time v))
              else if typeID = M_EP_TD_1
                then eventOfProtectionEquipment_loop typeID vs
                       (AppendCP56Time2a u (EventOfProtectionEquipmentInfo.Time v))
              else Inl ErrTypeIDNotMatch))"

definition eventOfProtectionEquipment ::
    "Connect \<Rightarrow> TypeID \<Rightarrow> CauseOfTransmission \<Rightarrow> CommonAddr
       \<Rightarrow> EventOfProtectionEquipmentInfo list \<Rightarrow> error option \<times> Connect" where
  "eventOfProtectionEquipment c typeID coa ca infos =
     (if CauseOfTransmission.Cause coa \<noteq> Spontaneous then (Some ErrCmdCause, c)
      else case checkValid c typeID False (int (length infos)) of
        Some err \<Rightarrow> (Some err, c)
      | None \<Rightarrow>
          (let u = NewASDU (cParams c)
                     \<lparr>Type = typeID,
                      Variable = \<lparr>Number = 0, IsSequence = False\<rparr>,
                      Coa = coa, OrigAddr = 0, CommonAddr = ca\<rparr>
           in case SetVariableNumber u (int (length infos)) of
                (Some err, u) \<Rightarrow> (Some err, c)
              | (None, u) \<Rightarrow>
                  (case eventOfProtectionEquipment_loop typeID infos u of
                     Inl err \<Rightarrow> (Some err, c)
                   | Inr u \<Rightarrow> Send c u)))"

definition EventOfProtectionEquipmentCP24Time2a ::
    "Connect \<Rightarrow> CauseOfTransmission \<Rightarrow> CommonAddr \<Rightarrow> EventOfProtectionEquipmentInfo list
       \<Rightarrow> error option \<times> Connect" where
  "EventOfProtectionEquipmentCP24Time2a c coa ca infos =
     eventOfProtectionEquipment c M_EP_TA_1 coa ca infos"

definition EventOfProtectionEquipmentCP56Time2a ::
    "Connect \<Rightarrow> CauseOfTransmission \<Rightarrow> CommonAddr \<Rightarrow> EventOfProtectionEquipmentInfo list
       \<Rightarrow> error option \<times> Connect" where
  "EventOfProtectionEquipmentCP56Time2a c coa ca infos =
     eventOfProtectionEquipment c M_EP_TD_1 coa ca infos"

record PackedStartEventsOfProtectionEquipmentInfo =
  Ioa :: InfoObjAddr
  Event :: StartEvent
  Qdp :: QualityDescriptorProtection
  Msec :: uint16
  Time :: CivilTime

text \<open>\<open>packedStartEventsOfProtectionEquipment\<close> sends [M_EP_TB_1] or [M_EP_TE_1], a single object.\<close>

definition packedStartEventsOfProtectionEquipment ::
    "Connect \<Rightarrow> TypeID \<Rightarrow> CauseOfTransmission \<Rightarrow> CommonAddr
       \<Rightarrow> PackedStartEventsOfProtectionEquipmentInfo \<Rightarrow> error option \<times> Connect" where
  "packedStartEventsOfProtectionEquipment c typeID coa ca info =
     (if CauseOfTransmission.Cause coa \<noteq> Spontaneous then (Some ErrCmdCause, c)
      else case checkValid c typeID False 1 of
        Some err \<Rightarrow> (Some err, c)
      | None \<Rightarrow>
          (let u = NewASDU (cParams c)
                     \<lparr>Type = typeID,
                      Variable = \<lparr>Number = 1, IsSequence = False\<rparr>,
                      Coa = coa, OrigAddr = 0, CommonAddr = ca\<rparr>
           in case AppendInfoObjAddr u (PackedStartEventsOfProtectionEquipmentInfo.Ioa info) of
                Inl err \<Rightarrow> (Some err, c)
              | Inr u \<Rightarrow>
                  (let u = AppendBytes u [PackedStartEventsOfProtectionEquipmentInfo.Event info, PackedStartEventsOfProtectionEquipmentInfo.Qdp info AND 0xf1];
                       u = AppendCP16Time2a u (PackedStartEventsOfProtectionEquipmentInfo.Msec info)
                   in if typeID = M_EP_TB_1
                        then Send c (AppendCP24Time2a u (PackedStartEventsOfProtectionEquipmentInfo.Time info))
                      else if typeID = M_EP_TE_1
                        then Send c (AppendCP56Time2a u (PackedStartEventsOfProtectionEquipmentInfo.Time info))
                      else (Some ErrTypeIDNotMatch, c))))"

definition PackedStartEventsOfProtectionEquipmentCP24Time2a ::
    "Connect \<Rightarrow> CauseOfTransmission \<Rightarrow> CommonAddr \<Rightarrow> PackedStartEventsOfProtectionEquipmentInfo
       \<Rightarrow> error option \<times> Connect" where
  "PackedStartEventsOfProtectionEquipmentCP24Time2a c coa ca info = packedStartEventsOfProtectionEquipment c M_EP_TB_1 coa ca info"

definition PackedStartEventsOfProtectionEquipmentCP56Time2a ::
    "Connect \<Rightarrow> CauseOfTransmission \<Rightarrow> CommonAddr \<Rightarrow> PackedStartEventsOfProtectionEquipmentInfo
       \<Rightarrow> error option \<times> Connect" where
  "PackedStartEventsOfProtectionEquipmentCP56Time2a c coa ca info = packedStartEventsOfProtectionEquipment c M_EP_TE_1 coa ca info"

record PackedOutputCircuitInfoInfo =
  Ioa :: InfoObjAddr
  Oci :: OutputCircuitInfo
  Qdp :: QualityDescriptorProtection
  Msec :: uint16
  Time :: CivilTime

text \<open>\<open>packedOutputCircuitInfo\<close> sends [M_EP_TC_1] or [M_EP_TF_1], a single object.\<close>

definition packedOutputCircuitInfo ::
    "Connect \<Rightarrow> TypeID \<Rightarrow> CauseOfTransmission \<Rightarrow> CommonAddr
       \<Rightarrow> PackedOutputCircuitInfoInfo \<Rightarrow> error option \<times> Connect" where
  "packedOutputCircuitInfo c typeID coa ca info =
     (if CauseOfTransmission.Cause coa \<noteq> Spontaneous then (Some ErrCmdCause, c)
      else case checkValid c typeID False 1 of
        Some err \<Rightarrow> (Some err, c)
      | None \<Rightarrow>
          (let u = NewASDU (cParams c)
                     \<lparr>Type = typeID,
                      Variable = \<lparr>Number = 1, IsSequence = False\<rparr>,
                      Coa = coa, OrigAddr = 0, CommonAddr = ca\<rparr>
           in case AppendInfoObjAddr u (PackedOutputCircuitInfoInfo.Ioa info) of
                Inl err \<Rightarrow> (Some err, c)
              | Inr u \<Rightarrow>
                  (let u = AppendBytes u [PackedOutputCircuitInfoInfo.Oci info, PackedOutputCircuitInfoInfo.Qdp info AND 0xf1];
                       u = AppendCP16Time2a u (PackedOutputCircuitInfoInfo.Msec info)
                   in if typeID = M_EP_TC_1
                        then Send c (AppendCP24Time2a u (PackedOutputCircuitInfoInfo.Time info))
                      else if typeID = M_EP_TF_1
                        then Send c (AppendCP56Time2a u (PackedOutputCircuitInfoInfo.Time info))
                      else (Some ErrTypeIDNotMatch, c))))"

definition PackedOutputCircuitInfoCP24Time2a ::
    "Connect \<Rightarrow> CauseOfTransmission \<Rightarrow> CommonAddr \<Rightarrow> PackedOutputCircuitInfoInfo
       \<Rightarrow> error option \<times> Connect" where
  "PackedOutputCircuitInfoCP24Time2a c coa ca info = packedOutputCircuitInfo c M_EP_TC_1 coa ca info"

definition PackedOutputCircuitInfoCP56Time2a ::
    "Connect \<Rightarrow> CauseOfTransmission \<Rightarrow> CommonAddr \<Rightarrow> PackedOutputCircuitInfoInfo
       \<Rightarrow> error option \<times> Connect" where
  "PackedOutputCircuitInfoCP56Time2a c coa ca info = packedOutputCircuitInfo c M_EP_TF_1 coa ca info"

record PackedSinglePointWithSCDInfo =
  Ioa :: InfoObjAddr
  Scd :: StatusAndStatusChangeDetection
  Qds :: QualityDescriptor

definition PackedSinglePointWithSCD_body ::
    "PackedSinglePointWithSCDInfo \<Rightarrow> ASDU \<Rightarrow> error + ASDU" where
  "PackedSinglePointWithSCD_body v u =
     Inr (AppendBytes
            (AppendStatusAndStatusChangeDetection u (PackedSinglePointWithSCDInfo.Scd v))
            [PackedSinglePointWithSCDInfo.Qds v])"

definition PackedSinglePointWithSCD ::
    "Connect \<Rightarrow> bool \<Rightarrow> CauseOfTransmission \<Rightarrow> CommonAddr
       \<Rightarrow> PackedSinglePointWithSCDInfo list \<Rightarrow> error option \<times> Connect" where
  "PackedSinglePointWithSCD c isSequence coa ca infos =
     (if \<not> (CauseOfTransmission.Cause coa = Background \<or> CauseOfTransmission.Cause coa = Spontaneous \<or> CauseOfTransmission.Cause coa = Request
          \<or> CauseOfTransmission.Cause coa = ReturnInfoRemote \<or> CauseOfTransmission.Cause coa = ReturnInfoLocal
          \<or> (InterrogatedByStation \<le> CauseOfTransmission.Cause coa \<and> CauseOfTransmission.Cause coa \<le> InterrogatedByGroup16))
      then (Some ErrCmdCause, c)
      else case checkValid c M_PS_NA_1 isSequence (int (length infos)) of
        Some err \<Rightarrow> (Some err, c)
      | None \<Rightarrow>
          (let u = NewASDU (cParams c)
                     \<lparr>Type = M_PS_NA_1,
                      Variable = \<lparr>Number = 0, IsSequence = isSequence\<rparr>,
                      Coa = coa, OrigAddr = 0, CommonAddr = ca\<rparr>
           in case SetVariableNumber u (int (length infos)) of
                (Some err, u) \<Rightarrow> (Some err, c)
              | (None, u) \<Rightarrow>
                  (case range_infos isSequence PackedSinglePointWithSCDInfo.Ioa
                          PackedSinglePointWithSCD_body False infos u of
                     Inl err \<Rightarrow> (Some err, c)
                   | Inr u \<Rightarrow> Send c u)))"

text \<open>
  \<open>GetSinglePoint\<close> reads [M_SP_NA_1], [M_SP_TA_1] or [M_SP_TB_1]. The loop
  \<^verbatim>\<open>for i, once := 0, false; i < int(sf.Variable.Number); i++\<close> runs over the count that
  is left; \<open>infoObjAddr\<close> is the address of the previous object. The receiver's payload is
  consumed, so the ASDU is returned with the list.
\<close>

fun GetSinglePoint_loop ::
    "nat \<Rightarrow> bool \<Rightarrow> InfoObjAddr \<Rightarrow> SinglePointInfo list \<Rightarrow> ASDU
       \<Rightarrow> panic + SinglePointInfo list \<times> ASDU" where
  "GetSinglePoint_loop 0 once infoObjAddr info sf = Inr (info, sf)"
| "GetSinglePoint_loop (Suc n) once infoObjAddr info sf =
     (case (if \<not> IsSequence (Variable (Identifier sf)) \<or> \<not> once
            then DecodeInfoObjAddr sf
            else Inr (infoObjAddr + 1, sf)) of
        Inl p \<Rightarrow> Inl p
      | Inr (infoObjAddr, sf) \<Rightarrow>
          (case DecodeByte sf of
             Inl p \<Rightarrow> Inl p
           | Inr (value, sf) \<Rightarrow>
               (case (if Type (Identifier sf) = M_SP_NA_1 then Inr (zeroTime, sf)
                      else if Type (Identifier sf) = M_SP_TA_1 then DecodeCP24Time2a sf
                      else if Type (Identifier sf) = M_SP_TB_1 then DecodeCP56Time2a sf
                      else Inl (PanicError ErrTypeIDNotMatch)) of
                  Inl p \<Rightarrow> Inl p
                | Inr (t, sf) \<Rightarrow>
                    GetSinglePoint_loop n True infoObjAddr
                      (info @ [\<lparr>SinglePointInfo.Ioa = infoObjAddr,
                                SinglePointInfo.Value = (value AND 0x01 = 0x01),
                                SinglePointInfo.Qds = value AND 0xf0,
                                SinglePointInfo.Time = t\<rparr>])
                      sf)))"

definition GetSinglePoint :: "ASDU \<Rightarrow> panic + SinglePointInfo list \<times> ASDU" where
  "GetSinglePoint sf =
     GetSinglePoint_loop (unat (Number (Variable (Identifier sf)))) False 0 [] sf"

section \<open>Process information in the control direction\<close>

record SingleCommandInfo =
  Ioa :: InfoObjAddr
  Value :: bool
  Qoc :: QualifierOfCommand
  Time :: CivilTime

definition SingleCmd ::
    "Connect \<Rightarrow> TypeID \<Rightarrow> CauseOfTransmission \<Rightarrow> CommonAddr \<Rightarrow> SingleCommandInfo
       \<Rightarrow> error option \<times> Connect" where
  "SingleCmd c typeID coa ca cmd =
     (if \<not> (CauseOfTransmission.Cause coa = Activation \<or> CauseOfTransmission.Cause coa = Deactivation)
      then (Some ErrCmdCause, c)
      else case Params_Valid (cParams c) of
        Some err \<Rightarrow> (Some err, c)
      | None \<Rightarrow>
          (let u = NewASDU (cParams c)
                     \<lparr>Type = typeID,
                      Variable = \<lparr>Number = 1, IsSequence = False\<rparr>,
                      Coa = coa, OrigAddr = 0, CommonAddr = ca\<rparr>
           in case AppendInfoObjAddr u (SingleCommandInfo.Ioa cmd) of
                Inl err \<Rightarrow> (Some err, c)
              | Inr u \<Rightarrow>
                  (let value = QualifierOfCommand_Value (SingleCommandInfo.Qoc cmd);
                       value = (if SingleCommandInfo.Value cmd then value OR 0x01 else value);
                       u = AppendBytes u [value]
                   in if typeID = C_SC_NA_1 then Send c u
                      else if typeID = C_SC_TA_1
                        then Send c (AppendBytes u (CP56Time2a (SingleCommandInfo.Time cmd)))
                      else (Some ErrTypeIDNotMatch, c))))"

record DoubleCommandInfo =
  Ioa :: InfoObjAddr
  Value :: DoubleCommand
  Qoc :: QualifierOfCommand
  Time :: CivilTime

definition DoubleCmd ::
    "Connect \<Rightarrow> TypeID \<Rightarrow> CauseOfTransmission \<Rightarrow> CommonAddr \<Rightarrow> DoubleCommandInfo
       \<Rightarrow> error option \<times> Connect" where
  "DoubleCmd c typeID coa ca cmd =
     (if \<not> (CauseOfTransmission.Cause coa = Activation \<or> CauseOfTransmission.Cause coa = Deactivation)
      then (Some ErrCmdCause, c)
      else case Params_Valid (cParams c) of
        Some err \<Rightarrow> (Some err, c)
      | None \<Rightarrow>
          (let u = NewASDU (cParams c)
                     \<lparr>Type = typeID,
                      Variable = \<lparr>Number = 1, IsSequence = False\<rparr>,
                      Coa = coa, OrigAddr = 0, CommonAddr = ca\<rparr>
           in case AppendInfoObjAddr u (DoubleCommandInfo.Ioa cmd) of
                Inl err \<Rightarrow> (Some err, c)
              | Inr u \<Rightarrow>
                  (let u = AppendBytes u [QualifierOfCommand_Value (DoubleCommandInfo.Qoc cmd)
                                         OR (DoubleCommandInfo.Value cmd AND 0x03)]
                   in if typeID = C_DC_NA_1 then Send c u
                      else if typeID = C_DC_TA_1
                        then Send c (AppendBytes u (CP56Time2a (DoubleCommandInfo.Time cmd)))
                      else (Some ErrTypeIDNotMatch, c))))"

record StepCommandInfo =
  Ioa :: InfoObjAddr
  Value :: StepCommand
  Qoc :: QualifierOfCommand
  Time :: CivilTime

definition StepCmd ::
    "Connect \<Rightarrow> TypeID \<Rightarrow> CauseOfTransmission \<Rightarrow> CommonAddr \<Rightarrow> StepCommandInfo
       \<Rightarrow> error option \<times> Connect" where
  "StepCmd c typeID coa ca cmd =
     (if \<not> (CauseOfTransmission.Cause coa = Activation \<or> CauseOfTransmission.Cause coa = Deactivation)
      then (Some ErrCmdCause, c)
      else case Params_Valid (cParams c) of
        Some err \<Rightarrow> (Some err, c)
      | None \<Rightarrow>
          (let u = NewASDU (cParams c)
                     \<lparr>Type = typeID,
                      Variable = \<lparr>Number = 1, IsSequence = False\<rparr>,
                      Coa = coa, OrigAddr = 0, CommonAddr = ca\<rparr>
           in case AppendInfoObjAddr u (StepCommandInfo.Ioa cmd) of
                Inl err \<Rightarrow> (Some err, c)
              | Inr u \<Rightarrow>
                  (let u = AppendBytes u [QualifierOfCommand_Value (StepCommandInfo.Qoc cmd)
                                         OR (StepCommandInfo.Value cmd AND 0x03)]
                   in if typeID = C_RC_NA_1 then Send c u
                      else if typeID = C_RC_TA_1
                        then Send c (AppendBytes u (CP56Time2a (StepCommandInfo.Time cmd)))
                      else (Some ErrTypeIDNotMatch, c))))"

record SetpointCommandNormalInfo =
  Ioa :: InfoObjAddr
  Value :: Normalize
  Qos :: QualifierOfSetpointCmd
  Time :: CivilTime

definition SetpointCmdNormal ::
    "Connect \<Rightarrow> TypeID \<Rightarrow> CauseOfTransmission \<Rightarrow> CommonAddr \<Rightarrow> SetpointCommandNormalInfo
       \<Rightarrow> error option \<times> Connect" where
  "SetpointCmdNormal c typeID coa ca cmd =
     (if \<not> (CauseOfTransmission.Cause coa = Activation \<or> CauseOfTransmission.Cause coa = Deactivation)
      then (Some ErrCmdCause, c)
      else case Params_Valid (cParams c) of
        Some err \<Rightarrow> (Some err, c)
      | None \<Rightarrow>
          (let u = NewASDU (cParams c)
                     \<lparr>Type = typeID,
                      Variable = \<lparr>Number = 1, IsSequence = False\<rparr>,
                      Coa = coa, OrigAddr = 0, CommonAddr = ca\<rparr>
           in case AppendInfoObjAddr u (SetpointCommandNormalInfo.Ioa cmd) of
                Inl err \<Rightarrow> (Some err, c)
              | Inr u \<Rightarrow>
                  (let u = AppendBytes (AppendNormalize u (SetpointCommandNormalInfo.Value cmd))
                             [QualifierOfSetpointCmd_Value (SetpointCommandNormalInfo.Qos cmd)]
                   in if typeID = C_SE_NA_1 then Send c u
                      else if typeID = C_SE_TA_1
                        then Send c (AppendBytes u (CP56Time2a (SetpointCommandNormalInfo.Time cmd)))
                      else (Some ErrTypeIDNotMatch, c))))"

record SetpointCommandScaledInfo =
  Ioa :: InfoObjAddr
  Value :: int16
  Qos :: QualifierOfSetpointCmd
  Time :: CivilTime

definition SetpointCmdScaled ::
    "Connect \<Rightarrow> TypeID \<Rightarrow> CauseOfTransmission \<Rightarrow> CommonAddr \<Rightarrow> SetpointCommandScaledInfo
       \<Rightarrow> error option \<times> Connect" where
  "SetpointCmdScaled c typeID coa ca cmd =
     (if \<not> (CauseOfTransmission.Cause coa = Activation \<or> CauseOfTransmission.Cause coa = Deactivation)
      then (Some ErrCmdCause, c)
      else case Params_Valid (cParams c) of
        Some err \<Rightarrow> (Some err, c)
      | None \<Rightarrow>
          (let u = NewASDU (cParams c)
                     \<lparr>Type = typeID,
                      Variable = \<lparr>Number = 1, IsSequence = False\<rparr>,
                      Coa = coa, OrigAddr = 0, CommonAddr = ca\<rparr>
           in case AppendInfoObjAddr u (SetpointCommandScaledInfo.Ioa cmd) of
                Inl err \<Rightarrow> (Some err, c)
              | Inr u \<Rightarrow>
                  (let u = AppendBytes (AppendScaled u (SetpointCommandScaledInfo.Value cmd))
                             [QualifierOfSetpointCmd_Value (SetpointCommandScaledInfo.Qos cmd)]
                   in if typeID = C_SE_NB_1 then Send c u
                      else if typeID = C_SE_TB_1
                        then Send c (AppendBytes u (CP56Time2a (SetpointCommandScaledInfo.Time cmd)))
                      else (Some ErrTypeIDNotMatch, c))))"

record SetpointCommandFloatInfo =
  Ioa :: InfoObjAddr
  Value :: float32
  Qos :: QualifierOfSetpointCmd
  Time :: CivilTime

definition SetpointCmdFloat ::
    "Connect \<Rightarrow> TypeID \<Rightarrow> CauseOfTransmission \<Rightarrow> CommonAddr \<Rightarrow> SetpointCommandFloatInfo
       \<Rightarrow> error option \<times> Connect" where
  "SetpointCmdFloat c typeID coa ca cmd =
     (if \<not> (CauseOfTransmission.Cause coa = Activation \<or> CauseOfTransmission.Cause coa = Deactivation)
      then (Some ErrCmdCause, c)
      else case Params_Valid (cParams c) of
        Some err \<Rightarrow> (Some err, c)
      | None \<Rightarrow>
          (let u = NewASDU (cParams c)
                     \<lparr>Type = typeID,
                      Variable = \<lparr>Number = 1, IsSequence = False\<rparr>,
                      Coa = coa, OrigAddr = 0, CommonAddr = ca\<rparr>
           in case AppendInfoObjAddr u (SetpointCommandFloatInfo.Ioa cmd) of
                Inl err \<Rightarrow> (Some err, c)
              | Inr u \<Rightarrow>
                  (let u = AppendBytes (AppendFloat32 u (SetpointCommandFloatInfo.Value cmd))
                             [QualifierOfSetpointCmd_Value (SetpointCommandFloatInfo.Qos cmd)]
                   in if typeID = C_SE_NC_1 then Send c u
                      else if typeID = C_SE_TC_1
                        then Send c (AppendBytes u (CP56Time2a (SetpointCommandFloatInfo.Time cmd)))
                      else (Some ErrTypeIDNotMatch, c))))"

record BitsString32CommandInfo =
  Ioa :: InfoObjAddr
  Value :: uint32
  Time :: CivilTime

definition BitsString32Cmd ::
    "Connect \<Rightarrow> TypeID \<Rightarrow> CauseOfTransmission \<Rightarrow> CommonAddr \<Rightarrow> BitsString32CommandInfo
       \<Rightarrow> error option \<times> Connect" where
  "BitsString32Cmd c typeID coa ca cmd =
     (if \<not> (CauseOfTransmission.Cause coa = Activation \<or> CauseOfTransmission.Cause coa = Deactivation)
      then (Some ErrCmdCause, c)
      else case Params_Valid (cParams c) of
        Some err \<Rightarrow> (Some err, c)
      | None \<Rightarrow>
          (let u = NewASDU (cParams c)
                     \<lparr>Type = typeID,
                      Variable = \<lparr>Number = 1, IsSequence = False\<rparr>,
                      Coa = coa, OrigAddr = 0, CommonAddr = ca\<rparr>
           in case AppendInfoObjAddr u (BitsString32CommandInfo.Ioa cmd) of
                Inl err \<Rightarrow> (Some err, c)
              | Inr u \<Rightarrow>
                  (let u = AppendBitsString32 u (BitsString32CommandInfo.Value cmd)
                   in if typeID = C_BO_NA_1 then Send c u
                      else if typeID = C_BO_TA_1
                        then Send c (AppendBytes u (CP56Time2a (BitsString32CommandInfo.Time cmd)))
                      else (Some ErrTypeIDNotMatch, c))))"

section \<open>Parameters in the control direction (asdu/cpara.go)\<close>

record ParameterNormalInfo =
  Ioa :: InfoObjAddr
  Value :: Normalize
  Qpm :: QualifierOfParameterMV

definition ParameterNormal ::
    "Connect \<Rightarrow> CauseOfTransmission \<Rightarrow> CommonAddr \<Rightarrow> ParameterNormalInfo \<Rightarrow> error option \<times> Connect" where
  "ParameterNormal c coa ca p =
     (if CauseOfTransmission.Cause coa \<noteq> Activation then (Some ErrCmdCause, c)
      else case Params_Valid (cParams c) of
        Some err \<Rightarrow> (Some err, c)
      | None \<Rightarrow>
          (let u = NewASDU (cParams c)
                     \<lparr>Type = P_ME_NA_1,
                      Variable = \<lparr>Number = 1, IsSequence = False\<rparr>,
                      Coa = coa, OrigAddr = 0, CommonAddr = ca\<rparr>
           in case AppendInfoObjAddr u (ParameterNormalInfo.Ioa p) of
                Inl err \<Rightarrow> (Some err, c)
              | Inr u \<Rightarrow> Send c (AppendBytes (AppendNormalize u (ParameterNormalInfo.Value p))
                                   [QualifierOfParameterMV_Value (ParameterNormalInfo.Qpm p)])))"

record ParameterScaledInfo =
  Ioa :: InfoObjAddr
  Value :: int16
  Qpm :: QualifierOfParameterMV

definition ParameterScaled ::
    "Connect \<Rightarrow> CauseOfTransmission \<Rightarrow> CommonAddr \<Rightarrow> ParameterScaledInfo \<Rightarrow> error option \<times> Connect" where
  "ParameterScaled c coa ca p =
     (if CauseOfTransmission.Cause coa \<noteq> Activation then (Some ErrCmdCause, c)
      else case Params_Valid (cParams c) of
        Some err \<Rightarrow> (Some err, c)
      | None \<Rightarrow>
          (let u = NewASDU (cParams c)
                     \<lparr>Type = P_ME_NB_1,
                      Variable = \<lparr>Number = 1, IsSequence = False\<rparr>,
                      Coa = coa, OrigAddr = 0, CommonAddr = ca\<rparr>
           in case AppendInfoObjAddr u (ParameterScaledInfo.Ioa p) of
                Inl err \<Rightarrow> (Some err, c)
              | Inr u \<Rightarrow> Send c (AppendBytes (AppendScaled u (ParameterScaledInfo.Value p))
                                   [QualifierOfParameterMV_Value (ParameterScaledInfo.Qpm p)])))"

record ParameterFloatInfo =
  Ioa :: InfoObjAddr
  Value :: float32
  Qpm :: QualifierOfParameterMV

definition ParameterFloat ::
    "Connect \<Rightarrow> CauseOfTransmission \<Rightarrow> CommonAddr \<Rightarrow> ParameterFloatInfo \<Rightarrow> error option \<times> Connect" where
  "ParameterFloat c coa ca p =
     (if CauseOfTransmission.Cause coa \<noteq> Activation then (Some ErrCmdCause, c)
      else case Params_Valid (cParams c) of
        Some err \<Rightarrow> (Some err, c)
      | None \<Rightarrow>
          (let u = NewASDU (cParams c)
                     \<lparr>Type = P_ME_NC_1,
                      Variable = \<lparr>Number = 1, IsSequence = False\<rparr>,
                      Coa = coa, OrigAddr = 0, CommonAddr = ca\<rparr>
           in case AppendInfoObjAddr u (ParameterFloatInfo.Ioa p) of
                Inl err \<Rightarrow> (Some err, c)
              | Inr u \<Rightarrow> Send c (AppendBytes (AppendFloat32 u (ParameterFloatInfo.Value p))
                                   [QualifierOfParameterMV_Value (ParameterFloatInfo.Qpm p)])))"

record ParameterActivationInfo =
  Ioa :: InfoObjAddr
  Qpa :: QualifierOfParameterAct

definition ParameterActivation ::
    "Connect \<Rightarrow> CauseOfTransmission \<Rightarrow> CommonAddr \<Rightarrow> ParameterActivationInfo \<Rightarrow> error option \<times> Connect" where
  "ParameterActivation c coa ca p =
     (if \<not> (CauseOfTransmission.Cause coa = Activation \<or> CauseOfTransmission.Cause coa = Deactivation) then (Some ErrCmdCause, c)
      else case Params_Valid (cParams c) of
        Some err \<Rightarrow> (Some err, c)
      | None \<Rightarrow>
          (let u = NewASDU (cParams c)
                     \<lparr>Type = P_AC_NA_1,
                      Variable = \<lparr>Number = 1, IsSequence = False\<rparr>,
                      Coa = coa, OrigAddr = 0, CommonAddr = ca\<rparr>
           in case AppendInfoObjAddr u (ParameterActivationInfo.Ioa p) of
                Inl err \<Rightarrow> (Some err, c)
              | Inr u \<Rightarrow> Send c (AppendBytes u [ParameterActivationInfo.Qpa p])))"

section \<open>System information in the control direction (asdu/csys.go)\<close>

definition InterrogationCmd ::
    "Connect \<Rightarrow> CauseOfTransmission \<Rightarrow> CommonAddr \<Rightarrow> QualifierOfInterrogation \<Rightarrow> error option \<times> Connect" where
  "InterrogationCmd c coa ca qoi =
     (if \<not> (CauseOfTransmission.Cause coa = Activation \<or> CauseOfTransmission.Cause coa = Deactivation) then (Some ErrCmdCause, c)
      else case Params_Valid (cParams c) of
        Some err \<Rightarrow> (Some err, c)
      | None \<Rightarrow>
          (let u = NewASDU (cParams c)
                     \<lparr>Type = C_IC_NA_1,
                      Variable = \<lparr>Number = 1, IsSequence = False\<rparr>,
                      Coa = coa, OrigAddr = 0, CommonAddr = ca\<rparr>
           in case AppendInfoObjAddr u InfoObjAddrIrrelevant of
                Inl err \<Rightarrow> (Some err, c)
              | Inr u \<Rightarrow> Send c (AppendBytes u [qoi])))"

text \<open>\<open>CounterInterrogationCmd\<close> and the four builders after it set \<^verbatim>\<open>coa.Cause\<close> on
  their copy of the cause of transmission before they build the identifier.\<close>

definition CounterInterrogationCmd ::
    "Connect \<Rightarrow> CauseOfTransmission \<Rightarrow> CommonAddr \<Rightarrow> QualifierCountCall \<Rightarrow> error option \<times> Connect" where
  "CounterInterrogationCmd c coa ca qcc =
     (case Params_Valid (cParams c) of
        Some err \<Rightarrow> (Some err, c)
      | None \<Rightarrow>
          (let coa = coa\<lparr>CauseOfTransmission.Cause := Activation\<rparr>;
               u = NewASDU (cParams c)
                     \<lparr>Type = C_CI_NA_1,
                      Variable = \<lparr>Number = 1, IsSequence = False\<rparr>,
                      Coa = coa, OrigAddr = 0, CommonAddr = ca\<rparr>
           in case AppendInfoObjAddr u InfoObjAddrIrrelevant of
                Inl err \<Rightarrow> (Some err, c)
              | Inr u \<Rightarrow> Send c (AppendBytes u [QualifierCountCall_Value qcc])))"

definition ReadCmd ::
    "Connect \<Rightarrow> CauseOfTransmission \<Rightarrow> CommonAddr \<Rightarrow> InfoObjAddr \<Rightarrow> error option \<times> Connect" where
  "ReadCmd c coa ca ioa =
     (case Params_Valid (cParams c) of
        Some err \<Rightarrow> (Some err, c)
      | None \<Rightarrow>
          (let coa = coa\<lparr>CauseOfTransmission.Cause := Request\<rparr>;
               u = NewASDU (cParams c)
                     \<lparr>Type = C_RD_NA_1,
                      Variable = \<lparr>Number = 1, IsSequence = False\<rparr>,
                      Coa = coa, OrigAddr = 0, CommonAddr = ca\<rparr>
           in case AppendInfoObjAddr u ioa of
                Inl err \<Rightarrow> (Some err, c)
              | Inr u \<Rightarrow> Send c u))"

definition ClockSynchronizationCmd ::
    "Connect \<Rightarrow> CauseOfTransmission \<Rightarrow> CommonAddr \<Rightarrow> CivilTime \<Rightarrow> error option \<times> Connect" where
  "ClockSynchronizationCmd c coa ca t =
     (case Params_Valid (cParams c) of
        Some err \<Rightarrow> (Some err, c)
      | None \<Rightarrow>
          (let coa = coa\<lparr>CauseOfTransmission.Cause := Activation\<rparr>;
               u = NewASDU (cParams c)
                     \<lparr>Type = C_CS_NA_1,
                      Variable = \<lparr>Number = 1, IsSequence = False\<rparr>,
                      Coa = coa, OrigAddr = 0, CommonAddr = ca\<rparr>
           in case AppendInfoObjAddr u InfoObjAddrIrrelevant of
                Inl err \<Rightarrow> (Some err, c)
              | Inr u \<Rightarrow> Send c (AppendBytes u (CP56Time2a t))))"

definition TestCommand ::
    "Connect \<Rightarrow> CauseOfTransmission \<Rightarrow> CommonAddr \<Rightarrow> error option \<times> Connect" where
  "TestCommand c coa ca =
     (case Params_Valid (cParams c) of
        Some err \<Rightarrow> (Some err, c)
      | None \<Rightarrow>
          (let coa = coa\<lparr>CauseOfTransmission.Cause := Activation\<rparr>;
               u = NewASDU (cParams c)
                     \<lparr>Type = C_TS_NA_1,
                      Variable = \<lparr>Number = 1, IsSequence = False\<rparr>,
                      Coa = coa, OrigAddr = 0, CommonAddr = ca\<rparr>
           in case AppendInfoObjAddr u InfoObjAddrIrrelevant of
                Inl err \<Rightarrow> (Some err, c)
              | Inr u \<Rightarrow> Send c (AppendBytes u [ucast (FBPTestWord AND 0xff), ucast (rsh FBPTestWord 8)])))"

definition ResetProcessCmd ::
    "Connect \<Rightarrow> CauseOfTransmission \<Rightarrow> CommonAddr \<Rightarrow> QualifierOfResetProcessCmd \<Rightarrow> error option \<times> Connect" where
  "ResetProcessCmd c coa ca qrp =
     (case Params_Valid (cParams c) of
        Some err \<Rightarrow> (Some err, c)
      | None \<Rightarrow>
          (let coa = coa\<lparr>CauseOfTransmission.Cause := Activation\<rparr>;
               u = NewASDU (cParams c)
                     \<lparr>Type = C_RP_NA_1,
                      Variable = \<lparr>Number = 1, IsSequence = False\<rparr>,
                      Coa = coa, OrigAddr = 0, CommonAddr = ca\<rparr>
           in case AppendInfoObjAddr u InfoObjAddrIrrelevant of
                Inl err \<Rightarrow> (Some err, c)
              | Inr u \<Rightarrow> Send c (AppendBytes u [qrp])))"

text \<open>\<open>DelayAcquireCommand\<close> checks the cause and leaves it as the caller gave it.\<close>

definition DelayAcquireCommand ::
    "Connect \<Rightarrow> CauseOfTransmission \<Rightarrow> CommonAddr \<Rightarrow> uint16 \<Rightarrow> error option \<times> Connect" where
  "DelayAcquireCommand c coa ca msec =
     (if \<not> (CauseOfTransmission.Cause coa = Spontaneous \<or> CauseOfTransmission.Cause coa = Activation) then (Some ErrCmdCause, c)
      else case Params_Valid (cParams c) of
        Some err \<Rightarrow> (Some err, c)
      | None \<Rightarrow>
          (let u = NewASDU (cParams c)
                     \<lparr>Type = C_CD_NA_1,
                      Variable = \<lparr>Number = 1, IsSequence = False\<rparr>,
                      Coa = coa, OrigAddr = 0, CommonAddr = ca\<rparr>
           in case AppendInfoObjAddr u InfoObjAddrIrrelevant of
                Inl err \<Rightarrow> (Some err, c)
              | Inr u \<Rightarrow> Send c (AppendCP16Time2a u msec)))"

text \<open>\<open>TestCommandCP56Time2a\<close> neither checks nor sets the cause.\<close>

definition TestCommandCP56Time2a ::
    "Connect \<Rightarrow> CauseOfTransmission \<Rightarrow> CommonAddr \<Rightarrow> CivilTime \<Rightarrow> error option \<times> Connect" where
  "TestCommandCP56Time2a c coa ca t =
     (case Params_Valid (cParams c) of
        Some err \<Rightarrow> (Some err, c)
      | None \<Rightarrow>
          (let u = NewASDU (cParams c)
                     \<lparr>Type = C_TS_TA_1,
                      Variable = \<lparr>Number = 1, IsSequence = False\<rparr>,
                      Coa = coa, OrigAddr = 0, CommonAddr = ca\<rparr>
           in case AppendInfoObjAddr u InfoObjAddrIrrelevant of
                Inl err \<Rightarrow> (Some err, c)
              | Inr u \<Rightarrow> Send c (AppendCP56Time2a (AppendUint16 u FBPTestWord) t)))"

section \<open>System information in the monitoring direction\<close>

definition EndOfInitialization ::
    "Connect \<Rightarrow> CauseOfTransmission \<Rightarrow> CommonAddr \<Rightarrow> InfoObjAddr \<Rightarrow> CauseOfInitial \<Rightarrow> error option \<times> Connect" where
  "EndOfInitialization c coa ca ioa coi =
     (case Params_Valid (cParams c) of
        Some err \<Rightarrow> (Some err, c)
      | None \<Rightarrow>
          (let coa = coa\<lparr>CauseOfTransmission.Cause := Initialized\<rparr>;
               u = NewASDU (cParams c)
                     \<lparr>Type = M_EI_NA_1,
                      Variable = \<lparr>Number = 1, IsSequence = False\<rparr>,
                      Coa = coa, OrigAddr = 0, CommonAddr = ca\<rparr>
           in case AppendInfoObjAddr u ioa of
                Inl err \<Rightarrow> (Some err, c)
              | Inr u \<Rightarrow> Send c (AppendBytes u [CauseOfInitial_Value coi])))"

section \<open>The build operations and the causes they admit\<close>

text \<open>
  One constructor for each exported build operation of the package, with the arguments
  that operation takes besides the connection, the cause of transmission and the common
  address; \<open>build\<close> runs the operation.
\<close>

datatype build_op =
    Op_Single bool "SinglePointInfo list"
  | Op_SingleCP24Time2a "SinglePointInfo list"
  | Op_SingleCP56Time2a "SinglePointInfo list"
  | Op_Double bool "DoublePointInfo list"
  | Op_DoubleCP24Time2a "DoublePointInfo list"
  | Op_DoubleCP56Time2a "DoublePointInfo list"
  | Op_Step bool "StepPositionInfo list"
  | Op_StepCP24Time2a "StepPositionInfo list"
  | Op_StepCP56Time2a "StepPositionInfo list"
  | Op_BitString32 bool "BitString32Info list"
  | Op_BitString32CP24Time2a "BitString32Info list"
  | Op_BitString32CP56Time2a "BitString32Info list"
  | Op_MeasuredValueNormal bool "MeasuredValueNormalInfo list"
  | Op_MeasuredValueNormalCP24Time2a "MeasuredValueNormalInfo list"
  | Op_MeasuredValueNormalCP56Time2a "MeasuredValueNormalInfo list"
  | Op_MeasuredValueNormalNoQuality bool "MeasuredValueNormalInfo list"
  | Op_MeasuredValueScaled bool "MeasuredValueScaledInfo list"
  | Op_MeasuredValueScaledCP24Time2a "MeasuredValueScaledInfo list"
  | Op_MeasuredValueScaledCP56Time2a "MeasuredValueScaledInfo list"
  | Op_MeasuredValueFloat bool "MeasuredValueFloatInfo list"
  | Op_MeasuredValueFloatCP24Time2a "MeasuredValueFloatInfo list"
  | Op_MeasuredValueFloatCP56Time2a "MeasuredValueFloatInfo list"
  | Op_IntegratedTotals bool "BinaryCounterReadingInfo list"
  | Op_IntegratedTotalsCP24Time2a "BinaryCounterReadingInfo list"
  | Op_IntegratedTotalsCP56Time2a "BinaryCounterReadingInfo list"
  | Op_EventOfProtectionEquipmentCP24Time2a "EventOfProtectionEquipmentInfo list"
  | Op_EventOfProtectionEquipmentCP56Time2a "EventOfProtectionEquipmentInfo list"
  | Op_PackedStartEventsOfProtectionEquipmentCP24Time2a PackedStartEventsOfProtectionEquipmentInfo
  | Op_PackedStartEventsOfProtectionEquipmentCP56Time2a PackedStartEventsOfProtectionEquipmentInfo
  | Op_PackedOutputCircuitInfoCP24Time2a PackedOutputCircuitInfoInfo
  | Op_PackedOutputCircuitInfoCP56Time2a PackedOutputCircuitInfoInfo
  | Op_PackedSinglePointWithSCD bool "PackedSinglePointWithSCDInfo list"
  | Op_SingleCmd TypeID SingleCommandInfo
  | Op_DoubleCmd TypeID DoubleCommandInfo
  | Op_StepCmd TypeID StepCommandInfo
  | Op_SetpointCmdNormal TypeID SetpointCommandNormalInfo
  | Op_SetpointCmdScaled TypeID SetpointCommandScaledInfo
  | Op_SetpointCmdFloat TypeID SetpointCommandFloatInfo
  | Op_BitsString32Cmd TypeID BitsString32CommandInfo
  | Op_ParameterNormal ParameterNormalInfo
  | Op_ParameterScaled ParameterScaledInfo
  | Op_ParameterFloat ParameterFloatInfo
  | Op_ParameterActivation ParameterActivationInfo
  | Op_InterrogationCmd QualifierOfInterrogation
  | Op_CounterInterrogationCmd QualifierCountCall
  | Op_ReadCmd InfoObjAddr
  | Op_ClockSynchronizationCmd CivilTime
  | Op_TestCommand
  | Op_ResetProcessCmd QualifierOfResetProcessCmd
  | Op_DelayAcquireCommand uint16
  | Op_TestCommandCP56Time2a CivilTime
  | Op_EndOfInitialization InfoObjAddr CauseOfInitial

fun build ::
    "Connect \<Rightarrow> CauseOfTransmission \<Rightarrow> CommonAddr \<Rightarrow> build_op \<Rightarrow> error option \<times> Connect" where
    "build c coa ca (Op_Single b xs) = Single c b coa ca xs"
  | "build c coa ca (Op_SingleCP24Time2a xs) = SingleCP24Time2a c coa ca xs"
  | "build c coa ca (Op_SingleCP56Time2a xs) = SingleCP56Time2a c coa ca xs"
  | "build c coa ca (Op_Double b xs) = Double c b coa ca xs"
  | "build c coa ca (Op_DoubleCP24Time2a xs) = DoubleCP24Time2a c coa ca xs"
  | "build c coa ca (Op_DoubleCP56Time2a xs) = DoubleCP56Time2a c coa ca xs"
  | "build c coa ca (Op_Step b xs) = Step c b coa ca xs"
  | "build c coa ca (Op_StepCP24Time2a xs) = StepCP24Time2a c coa ca xs"
  | "build c coa ca (Op_StepCP56Time2a xs) = StepCP56Time2a c coa ca xs"
  | "build c coa ca (Op_BitString32 b xs) = BitString32 c b coa ca xs"
  | "build c coa ca (Op_BitString32CP24Time2a xs) = BitString32CP24Time2a c coa ca xs"
  | "build c coa ca (Op_BitString32CP56Time2a xs) = BitString32CP56Time2a c coa ca xs"
  | "build c coa ca (Op_MeasuredValueNormal b xs) = MeasuredValueNormal c b coa ca xs"
  | "build c coa ca (Op_MeasuredValueNormalCP24Time2a xs) = MeasuredValueNormalCP24Time2a c coa ca xs"
  | "build c coa ca (Op_MeasuredValueNormalCP56Time2a xs) = MeasuredValueNormalCP56Time2a c coa ca xs"
  | "build c coa ca (Op_MeasuredValueNormalNoQuality b xs) = MeasuredValueNormalNoQuality c b coa ca xs"
  | "build c coa ca (Op_MeasuredValueScaled b xs) = MeasuredValueScaled c b coa ca xs"
  | "build c coa ca (Op_MeasuredValueScaledCP24Time2a xs) = MeasuredValueScaledCP24Time2a c coa ca xs"
  | "build c coa ca (Op_MeasuredValueScaledCP56Time2a xs) = MeasuredValueScaledCP56Time2a c coa ca xs"
  | "build c coa ca (Op_MeasuredValueFloat b xs) = MeasuredValueFloat c b coa ca xs"
  | "build c coa ca (Op_MeasuredValueFloatCP24Time2a xs) = MeasuredValueFloatCP24Time2a c coa ca xs"
  | "build c coa ca (Op_MeasuredValueFloatCP56Time2a xs) = MeasuredValueFloatCP56Time2a c coa ca xs"
  | "build c coa ca (Op_IntegratedTotals b xs) = IntegratedTotals c b coa ca xs"
  | "build c coa ca (Op_IntegratedTotalsCP24Time2a xs) = IntegratedTotalsCP24Time2a c coa ca xs"
  | "build c coa ca (Op_IntegratedTotalsCP56Time2a xs) = IntegratedTotalsCP56Time2a c coa ca xs"
  | "build c coa ca (Op_EventOfProtectionEquipmentCP24Time2a xs) = EventOfProtectionEquipmentCP24Time2a c coa ca xs"
  | "build c coa ca (Op_EventOfProtectionEquipmentCP56Time2a xs) = EventOfProtectionEquipmentCP56Time2a c coa ca xs"
  | "build c coa ca (Op_PackedStartEventsOfProtectionEquipmentCP24Time2a x) = PackedStartEventsOfProtectionEquipmentCP24Time2a c coa ca x"
  | "build c coa ca (Op_PackedStartEventsOfProtectionEquipmentCP56Time2a x) = PackedStartEventsOfProtectionEquipmentCP56Time2a c coa ca x"
  | "build c coa ca (Op_PackedOutputCircuitInfoCP24Time2a x) = PackedOutputCircuitInfoCP24Time2a c coa ca x"
  | "build c coa ca (Op_PackedOutputCircuitInfoCP56Time2a x) = PackedOutputCircuitInfoCP56Time2a c coa ca x"
  | "build c coa ca (Op_PackedSinglePointWithSCD b xs) = PackedSinglePointWithSCD c b coa ca xs"
  | "build c coa ca (Op_SingleCmd t x) = SingleCmd c t coa ca x"
  | "build c coa ca (Op_DoubleCmd t x) = DoubleCmd c t coa ca x"
  | "build c coa ca (Op_StepCmd t x) = StepCmd c t coa ca x"
  | "build c coa ca (Op_SetpointCmdNormal t x) = SetpointCmdNormal c t coa ca x"
  | "build c coa ca (Op_SetpointCmdScaled t x) = SetpointCmdScaled c t coa ca x"
  | "build c coa ca (Op_SetpointCmdFloat t x) = SetpointCmdFloat c t coa ca x"
  | "build c coa ca (Op_BitsString32Cmd t x) = BitsString32Cmd c t coa ca x"
  | "build c coa ca (Op_ParameterNormal x) = ParameterNormal c coa ca x"
  | "build c coa ca (Op_ParameterScaled x) = ParameterScaled c coa ca x"
  | "build c coa ca (Op_ParameterFloat x) = ParameterFloat c coa ca x"
  | "build c coa ca (Op_ParameterActivation x) = ParameterActivation c coa ca x"
  | "build c coa ca (Op_InterrogationCmd x) = InterrogationCmd c coa ca x"
  | "build c coa ca (Op_CounterInterrogationCmd x) = CounterInterrogationCmd c coa ca x"
  | "build c coa ca (Op_ReadCmd x) = ReadCmd c coa ca x"
  | "build c coa ca (Op_ClockSynchronizationCmd x) = ClockSynchronizationCmd c coa ca x"
  | "build c coa ca (Op_TestCommand) = TestCommand c coa ca"
  | "build c coa ca (Op_ResetProcessCmd x) = ResetProcessCmd c coa ca x"
  | "build c coa ca (Op_DelayAcquireCommand x) = DelayAcquireCommand c coa ca x"
  | "build c coa ca (Op_TestCommandCP56Time2a x) = TestCommandCP56Time2a c coa ca x"
  | "build c coa ca (Op_EndOfInitialization x y) = EndOfInitialization c coa ca x y"

text \<open>
  The causes each operation admits are the causes its doc comment lists for the direction
  it sends in (the control direction for the commands, the monitoring direction for the
  rest). The operations that set the cause themselves (\<open>CounterInterrogationCmd\<close>,
  \<open>ReadCmd\<close>, \<open>ClockSynchronizationCmd\<close>, \<open>TestCommand\<close>, \<open>ResetProcessCmd\<close>,
  \<open>EndOfInitialization\<close>) take any cause from the caller, who cannot get it wrong. The
  doc comment of \<open>TestCommandCP56Time2a\<close> lists \<^verbatim>\<open><6> := activation\<close> alone for the
  control direction, as that of \<open>TestCommand\<close> does.
\<close>

fun admitted :: "build_op \<Rightarrow> Cause set" where
    "admitted (Op_Single _ _) =
       {Background, Spontaneous, Request, ReturnInfoRemote, ReturnInfoLocal}
       \<union> {InterrogatedByStation .. InterrogatedByGroup16}"
  | "admitted (Op_SingleCP24Time2a _) =
       {Spontaneous, Request, ReturnInfoRemote, ReturnInfoLocal}"
  | "admitted (Op_SingleCP56Time2a _) =
       {Spontaneous, Request, ReturnInfoRemote, ReturnInfoLocal}"
  | "admitted (Op_Double _ _) =
       {Background, Spontaneous, Request, ReturnInfoRemote, ReturnInfoLocal}
       \<union> {InterrogatedByStation .. InterrogatedByGroup16}"
  | "admitted (Op_DoubleCP24Time2a _) =
       {Spontaneous, Request, ReturnInfoRemote, ReturnInfoLocal}"
  | "admitted (Op_DoubleCP56Time2a _) =
       {Spontaneous, Request, ReturnInfoRemote, ReturnInfoLocal}"
  | "admitted (Op_Step _ _) =
       {Background, Spontaneous, Request, ReturnInfoRemote, ReturnInfoLocal}
       \<union> {InterrogatedByStation .. InterrogatedByGroup16}"
  | "admitted (Op_StepCP24Time2a _) =
       {Spontaneous, Request, ReturnInfoRemote, ReturnInfoLocal}"
  | "admitted (Op_StepCP56Time2a _) =
       {Spontaneous, Request, ReturnInfoRemote, ReturnInfoLocal}"
  | "admitted (Op_BitString32 _ _) =
       {Background, Spontaneous, Request} \<union> {InterrogatedByStation .. InterrogatedByGroup16}"
  | "admitted (Op_BitString32CP24Time2a _) =
       {Spontaneous, Request}"
  | "admitted (Op_BitString32CP56Time2a _) =
       {Spontaneous, Request}"
  | "admitted (Op_MeasuredValueNormal _ _) =
       {Periodic, Background, Spontaneous, Request}
       \<union> {InterrogatedByStation .. InterrogatedByGroup16}"
  | "admitted (Op_MeasuredValueNormalCP24Time2a _) =
       {Spontaneous, Request}"
  | "admitted (Op_MeasuredValueNormalCP56Time2a _) =
       {Spontaneous, Request}"
  | "admitted (Op_MeasuredValueNormalNoQuality _ _) =
       {Periodic, Background, Spontaneous, Request}
       \<union> {InterrogatedByStation .. InterrogatedByGroup16}"
  | "admitted (Op_MeasuredValueScaled _ _) =
       {Periodic, Background, Spontaneous, Request}
       \<union> {InterrogatedByStation .. InterrogatedByGroup16}"
  | "admitted (Op_MeasuredValueScaledCP24Time2a _) =
       {Spontaneous, Request}"
  | "admitted (Op_MeasuredValueScaledCP56Time2a _) =
       {Spontaneous, Request}"
  | "admitted (Op_MeasuredValueFloat _ _) =
       {Periodic, Background, Spontaneous, Request}
       \<union> {InterrogatedByStation .. InterrogatedByGroup16}"
  | "admitted (Op_MeasuredValueFloatCP24Time2a _) =
       {Spontaneous, Request}"
  | "admitted (Op_MeasuredValueFloatCP56Time2a _) =
       {Spontaneous, Request}"
  | "admitted (Op_IntegratedTotals _ _) =
       {Spontaneous} \<union> {RequestByGeneralCounter .. RequestByGroup4Counter}"
  | "admitted (Op_IntegratedTotalsCP24Time2a _) =
       {Spontaneous} \<union> {RequestByGeneralCounter .. RequestByGroup4Counter}"
  | "admitted (Op_IntegratedTotalsCP56Time2a _) =
       {Spontaneous} \<union> {RequestByGeneralCounter .. RequestByGroup4Counter}"
  | "admitted (Op_EventOfProtectionEquipmentCP24Time2a _) =
       {Spontaneous}"
  | "admitted (Op_EventOfProtectionEquipmentCP56Time2a _) =
       {Spontaneous}"
  | "admitted (Op_PackedStartEventsOfProtectionEquipmentCP24Time2a _) =
       {Spontaneous}"
  | "admitted (Op_PackedStartEventsOfProtectionEquipmentCP56Time2a _) =
       {Spontaneous}"
  | "admitted (Op_PackedOutputCircuitInfoCP24Time2a _) =
       {Spontaneous}"
  | "admitted (Op_PackedOutputCircuitInfoCP56Time2a _) =
       {Spontaneous}"
  | "admitted (Op_PackedSinglePointWithSCD _ _) =
       {Background, Spontaneous, Request, ReturnInfoRemote, ReturnInfoLocal}
       \<union> {InterrogatedByStation .. InterrogatedByGroup16}"
  | "admitted (Op_SingleCmd _ _) =
       {Activation, Deactivation}"
  | "admitted (Op_DoubleCmd _ _) =
       {Activation, Deactivation}"
  | "admitted (Op_StepCmd _ _) =
       {Activation, Deactivation}"
  | "admitted (Op_SetpointCmdNormal _ _) =
       {Activation, Deactivation}"
  | "admitted (Op_SetpointCmdScaled _ _) =
       {Activation, Deactivation}"
  | "admitted (Op_SetpointCmdFloat _ _) =
       {Activation, Deactivation}"
  | "admitted (Op_BitsString32Cmd _ _) =
       {Activation, Deactivation}"
  | "admitted (Op_ParameterNormal _) =
       {Activation}"
  | "admitted (Op_ParameterScaled _) =
       {Activation}"
  | "admitted (Op_ParameterFloat _) =
       {Activation}"
  | "admitted (Op_ParameterActivation _) =
       {Activation, Deactivation}"
  | "admitted (Op_InterrogationCmd _) =
       {Activation, Deactivation}"
  | "admitted (Op_CounterInterrogationCmd _) =
       UNIV"
  | "admitted (Op_ReadCmd _) =
       UNIV"
  | "admitted (Op_ClockSynchronizationCmd _) =
       UNIV"
  | "admitted (Op_TestCommand) =
       UNIV"
  | "admitted (Op_ResetProcessCmd _) =
       UNIV"
  | "admitted (Op_DelayAcquireCommand _) =
       {Spontaneous, Activation}"
  | "admitted (Op_TestCommandCP56Time2a _) =
       {Activation}"
  | "admitted (Op_EndOfInitialization _ _) =
       UNIV"

text \<open>
  The ASDUs a build operation handed to \<open>Send\<close>: those its result has beyond the ones the
  connection had before.
\<close>

definition handed :: "Connect \<Rightarrow> error option \<times> Connect \<Rightarrow> ASDU list" where
  "handed c r = drop (length (cSent c)) (cSent (snd r))"

section \<open>Properties of the step position codec\<close>

lemma byte_and_64_iff: "(b :: byte) AND 0x40 = 0 \<longleftrightarrow> \<not> bit b 6"
  using and_exp_eq_0_iff_not_bit [of b 6] by simp

lemma byte_and_128_iff: "(b :: byte) AND 0x80 = 0 \<longleftrightarrow> \<not> bit b 7"
  using and_exp_eq_0_iff_not_bit [of b 7] by simp

lemma bit_128_word_iff: "bit (0x80 :: 'a::len word) n \<longleftrightarrow> n = 7 \<and> 7 < LENGTH('a)"
  using bit_exp_iff [where ?'a = "'a word", of 7 n] by auto

lemma bit_128_int_iff: "bit (0x80 :: int) n \<longleftrightarrow> n = 7"
  using bit_exp_iff [where ?'a = int, of 7 n] by auto

lemma ParseStepPosition_sign_extends:
  "Val (ParseStepPosition b) = signed_take_bit 6 (ucast b)"
proof (cases "bit b 6")
  case True
  have "ucast b OR (- 1 AND NOT 0x3f) = (signed_take_bit 6 (ucast b) :: 64 word)"
  proof (rule bit_word_eqI)
    fix n assume n: "n < LENGTH(64)"
    have m: "(- 1 AND NOT 0x3f :: 64 word) = NOT (mask 6)"
      by (simp add: mask_eq_exp_minus_1)
    show "bit (ucast b OR (- 1 AND NOT 0x3f) :: 64 word) n
            = bit (signed_take_bit 6 (ucast b) :: 64 word) n"
      unfolding m using True n
      by (auto simp add: bit_simps min_def dest: bit_imp_le_length)
  qed
  then show ?thesis using True by (simp add: ParseStepPosition_def byte_and_64_iff)
next
  case False
  have "ucast (b AND 0x3f) = (signed_take_bit 6 (ucast b) :: 64 word)"
  proof (rule bit_word_eqI)
    fix n assume n: "n < LENGTH(64)"
    have m: "(0x3f :: byte) = mask 6" by (simp add: mask_eq_exp_minus_1)
    show "bit (ucast (b AND 0x3f) :: 64 word) n
            = bit (signed_take_bit 6 (ucast b) :: 64 word) n"
      unfolding m using False n
      by (auto simp add: bit_simps min_def)
  qed
  then show ?thesis using False by (simp add: ParseStepPosition_def byte_and_64_iff)
qed

lemma signed_take_bit_6_in_range:
  fixes v :: "64 word"
  assumes "- 64 \<le> sint v" "sint v \<le> 63"
  shows "signed_take_bit 6 v = v"
proof -
  have "signed_take_bit 6 (sint v) = sint v"
    using assms by (simp add: signed_take_bit_int_eq_self_iff)
  then have "word_of_int (signed_take_bit 6 (sint v)) = (word_of_int (sint v) :: 64 word)"
    by simp
  moreover have "word_of_int (signed_take_bit 6 (sint v)) = signed_take_bit 6 v"
    by (rule bit_word_eqI) (auto simp add: bit_simps min_def)
  ultimately show ?thesis by simp
qed

lemma bit_StepPosition_Value:
  "bit (StepPosition_Value sp) n
     \<longleftrightarrow> (n < 7 \<and> bit (Val sp) n) \<or> (n = 7 \<and> HasTransient sp)"
proof -
  have m: "(0x7f :: 64 word) = mask 7" by (simp add: mask_eq_exp_minus_1)
  show ?thesis
    unfolding StepPosition_Value_def Let_def m
    by (auto simp add: bit_simps bit_128_word_iff bit_128_int_iff)
qed

lemma StepPosition_Value_formula:
  "StepPosition_Value sp
     = ucast (Val sp AND 0x7F) OR (if HasTransient sp then 0x80 else 0)"
  by (simp add: StepPosition_Value_def Let_def unsigned_or_eq)

lemma ParseStepPosition_Value_Val:
  assumes "- 64 \<le> sint (Val sp)" "sint (Val sp) \<le> 63"
  shows "Val (ParseStepPosition (StepPosition_Value sp)) = Val sp"
proof -
  have "Val (ParseStepPosition (StepPosition_Value sp))
          = signed_take_bit 6 (ucast (StepPosition_Value sp))"
    by (rule ParseStepPosition_sign_extends)
  also have "\<dots> = signed_take_bit 6 (Val sp)"
    by (rule bit_word_eqI) (auto simp add: bit_simps bit_StepPosition_Value min_def)
  also have "\<dots> = Val sp" using assms by (rule signed_take_bit_6_in_range)
  finally show ?thesis .
qed

lemma ParseStepPosition_Value_HasTransient:
  "HasTransient (ParseStepPosition (StepPosition_Value sp)) = HasTransient sp"
  by (simp add: ParseStepPosition_def Let_def byte_and_128_iff bit_StepPosition_Value)

text \<open>
  Claim C7. For every step position whose value lies in \<open>[-64, 63]\<close>, with the transient
  flag set or not, parsing the encoded byte gives the step position back. The encoded byte
  is \<open>(val & 0x7F) | (transient ? 0x80 : 0)\<close>, and the parsed value is the sign extension
  of the byte from bit 6.
\<close>

theorem StepPosition_roundtrip:
  assumes "- 64 \<le> sint (Val sp)" and "sint (Val sp) \<le> 63"
  shows "ParseStepPosition (StepPosition_Value sp) = sp
       \<and> StepPosition_Value sp
           = ucast (Val sp AND 0x7F) OR (if HasTransient sp then 0x80 else 0)
       \<and> Val (ParseStepPosition b) = signed_take_bit 6 (ucast b)"
proof -
  have "ParseStepPosition (StepPosition_Value sp) = sp"
    using ParseStepPosition_Value_Val [OF assms]
      ParseStepPosition_Value_HasTransient [of sp]
    by (simp add: StepPosition.equality)
  then show ?thesis
    using StepPosition_Value_formula [of sp] ParseStepPosition_sign_extends [of b]
    by simp
qed

theorem StepPosition_roundtrip_witness:
  "- 64 \<le> sint (- 3 :: 64 word) \<and> sint (- 3 :: 64 word) \<le> 63
   \<and> ParseStepPosition (StepPosition_Value \<lparr>Val = - 3, HasTransient = True\<rparr>)
       = \<lparr>Val = - 3, HasTransient = True\<rparr>"
proof -
  have lo: "- 64 \<le> sint (Val \<lparr>Val = - 3, HasTransient = True\<rparr>)" by simp
  have hi: "sint (Val \<lparr>Val = - 3, HasTransient = True\<rparr>) \<le> 63" by simp
  from StepPosition_roundtrip [OF lo hi]
  have "ParseStepPosition (StepPosition_Value \<lparr>Val = - 3, HasTransient = True\<rparr>)
          = \<lparr>Val = - 3, HasTransient = True\<rparr>"
    by (rule conjunct1)
  with lo hi show ?thesis by simp
qed

section \<open>Properties of the configuration check\<close>

lemma Valid_ConnectTimeout0_eq:
  "Valid_ConnectTimeout0 sf =
     (if ConnectTimeout0 sf \<noteq> 0
         \<and> (ConnectTimeout0 sf <s ConnectTimeout0Min \<or> ConnectTimeout0Max <s ConnectTimeout0 sf)
      then (Some ErrConnectTimeout0, sf)
      else (None, sf\<lparr>ConnectTimeout0 :=
                     if ConnectTimeout0 sf = 0 then 30 * Second else ConnectTimeout0 sf\<rparr>))"
  by (simp add: Valid_ConnectTimeout0_def)

lemma Valid_SendUnAckLimitK_eq:
  "Valid_SendUnAckLimitK sf =
     (if SendUnAckLimitK sf \<noteq> 0
         \<and> (SendUnAckLimitK sf < SendUnAckLimitKMin \<or> SendUnAckLimitKMax < SendUnAckLimitK sf)
      then (Some ErrSendUnAckLimitK, sf)
      else (None, sf\<lparr>SendUnAckLimitK :=
                     if SendUnAckLimitK sf = 0 then 12 else SendUnAckLimitK sf\<rparr>))"
  by (simp add: Valid_SendUnAckLimitK_def)

lemma Valid_SendUnAckTimeout1_eq:
  "Valid_SendUnAckTimeout1 sf =
     (if SendUnAckTimeout1 sf \<noteq> 0
         \<and> (SendUnAckTimeout1 sf <s SendUnAckTimeout1Min
             \<or> SendUnAckTimeout1Max <s SendUnAckTimeout1 sf)
      then (Some ErrSendUnAckTimeout1, sf)
      else (None, sf\<lparr>SendUnAckTimeout1 :=
                     if SendUnAckTimeout1 sf = 0 then 15 * Second else SendUnAckTimeout1 sf\<rparr>))"
  by (simp add: Valid_SendUnAckTimeout1_def)

lemma Valid_RecvUnAckLimitW_eq:
  "Valid_RecvUnAckLimitW sf =
     (if RecvUnAckLimitW sf \<noteq> 0
         \<and> (RecvUnAckLimitW sf < RecvUnAckLimitWMin \<or> RecvUnAckLimitWMax < RecvUnAckLimitW sf)
      then (Some ErrRecvUnAckLimitW, sf)
      else (None, sf\<lparr>RecvUnAckLimitW :=
                     if RecvUnAckLimitW sf = 0 then 8 else RecvUnAckLimitW sf\<rparr>))"
  by (simp add: Valid_RecvUnAckLimitW_def)

lemma Valid_RecvUnAckTimeout2_eq:
  "Valid_RecvUnAckTimeout2 sf =
     (if RecvUnAckTimeout2 sf \<noteq> 0
         \<and> (RecvUnAckTimeout2 sf <s RecvUnAckTimeout2Min
             \<or> RecvUnAckTimeout2Max <s RecvUnAckTimeout2 sf)
      then (Some ErrRecvUnAckTimeout2, sf)
      else (None, sf\<lparr>RecvUnAckTimeout2 :=
                     if RecvUnAckTimeout2 sf = 0 then 10 * Second else RecvUnAckTimeout2 sf\<rparr>))"
  by (simp add: Valid_RecvUnAckTimeout2_def)

lemma Valid_IdleTimeout3_eq:
  "Valid_IdleTimeout3 sf =
     (if IdleTimeout3 sf \<noteq> 0
         \<and> (IdleTimeout3 sf <s IdleTimeout3Min \<or> IdleTimeout3Max <s IdleTimeout3 sf)
      then (Some ErrIdleTimeout3, sf)
      else (None, sf\<lparr>IdleTimeout3 :=
                     if IdleTimeout3 sf = 0 then 20 * Second else IdleTimeout3 sf\<rparr>))"
  by (simp add: Valid_IdleTimeout3_def)

lemmas Valid_step_eqs =
  Valid_ConnectTimeout0_eq Valid_SendUnAckLimitK_eq Valid_SendUnAckTimeout1_eq
  Valid_RecvUnAckLimitW_eq Valid_RecvUnAckTimeout2_eq Valid_IdleTimeout3_eq

lemma Valid_error_iff:
  "fst (Valid (Some c)) \<noteq> None \<longleftrightarrow>
     (ConnectTimeout0 c \<noteq> 0
        \<and> (ConnectTimeout0 c <s ConnectTimeout0Min \<or> ConnectTimeout0Max <s ConnectTimeout0 c))
   \<or> (SendUnAckLimitK c \<noteq> 0
        \<and> (SendUnAckLimitK c < SendUnAckLimitKMin \<or> SendUnAckLimitKMax < SendUnAckLimitK c))
   \<or> (SendUnAckTimeout1 c \<noteq> 0
        \<and> (SendUnAckTimeout1 c <s SendUnAckTimeout1Min
            \<or> SendUnAckTimeout1Max <s SendUnAckTimeout1 c))
   \<or> (RecvUnAckLimitW c \<noteq> 0
        \<and> (RecvUnAckLimitW c < RecvUnAckLimitWMin \<or> RecvUnAckLimitWMax < RecvUnAckLimitW c))
   \<or> (RecvUnAckTimeout2 c \<noteq> 0
        \<and> (RecvUnAckTimeout2 c <s RecvUnAckTimeout2Min
            \<or> RecvUnAckTimeout2Max <s RecvUnAckTimeout2 c))
   \<or> (IdleTimeout3 c \<noteq> 0
        \<and> (IdleTimeout3 c <s IdleTimeout3Min \<or> IdleTimeout3Max <s IdleTimeout3 c))"
proof -
  define b0 where "b0 = (ConnectTimeout0 c \<noteq> 0
        \<and> (ConnectTimeout0 c <s ConnectTimeout0Min \<or> ConnectTimeout0Max <s ConnectTimeout0 c))"
  define b1 where "b1 = (SendUnAckLimitK c \<noteq> 0
        \<and> (SendUnAckLimitK c < SendUnAckLimitKMin \<or> SendUnAckLimitKMax < SendUnAckLimitK c))"
  define b2 where "b2 = (SendUnAckTimeout1 c \<noteq> 0
        \<and> (SendUnAckTimeout1 c <s SendUnAckTimeout1Min
            \<or> SendUnAckTimeout1Max <s SendUnAckTimeout1 c))"
  define b3 where "b3 = (RecvUnAckLimitW c \<noteq> 0
        \<and> (RecvUnAckLimitW c < RecvUnAckLimitWMin \<or> RecvUnAckLimitWMax < RecvUnAckLimitW c))"
  define b4 where "b4 = (RecvUnAckTimeout2 c \<noteq> 0
        \<and> (RecvUnAckTimeout2 c <s RecvUnAckTimeout2Min
            \<or> RecvUnAckTimeout2Max <s RecvUnAckTimeout2 c))"
  define b5 where "b5 = (IdleTimeout3 c \<noteq> 0
        \<and> (IdleTimeout3 c <s IdleTimeout3Min \<or> IdleTimeout3Max <s IdleTimeout3 c))"
  have "fst (Valid (Some c)) =
          (if b0 then Some ErrConnectTimeout0 else if b1 then Some ErrSendUnAckLimitK
           else if b2 then Some ErrSendUnAckTimeout1 else if b3 then Some ErrRecvUnAckLimitW
           else if b4 then Some ErrRecvUnAckTimeout2 else if b5 then Some ErrIdleTimeout3
           else None)"
    unfolding Valid_def Valid_step_eqs option.case
    by (simp flip: b0_def b1_def b2_def b3_def b4_def b5_def)
  then show ?thesis
    unfolding b0_def [symmetric] b1_def [symmetric] b2_def [symmetric] b3_def [symmetric]
      b4_def [symmetric] b5_def [symmetric]
    by simp
qed

lemma Valid_ConnectTimeout0_ok:
  assumes "ConnectTimeout0 sf = v" and "\<not> (v \<noteq> 0 \<and> (v <s ConnectTimeout0Min \<or> ConnectTimeout0Max <s v))"
  shows "Valid_ConnectTimeout0 sf = (None, sf\<lparr>ConnectTimeout0 := if v = 0 then 30 * Second else v\<rparr>)"
  using assms by (auto simp add: Valid_ConnectTimeout0_def)

lemma Valid_SendUnAckLimitK_ok:
  assumes "SendUnAckLimitK sf = v" and "\<not> (v \<noteq> 0 \<and> (v < SendUnAckLimitKMin \<or> SendUnAckLimitKMax < v))"
  shows "Valid_SendUnAckLimitK sf = (None, sf\<lparr>SendUnAckLimitK := if v = 0 then 12 else v\<rparr>)"
  using assms by (auto simp add: Valid_SendUnAckLimitK_def)

lemma Valid_SendUnAckTimeout1_ok:
  assumes "SendUnAckTimeout1 sf = v" and "\<not> (v \<noteq> 0 \<and> (v <s SendUnAckTimeout1Min \<or> SendUnAckTimeout1Max <s v))"
  shows "Valid_SendUnAckTimeout1 sf = (None, sf\<lparr>SendUnAckTimeout1 := if v = 0 then 15 * Second else v\<rparr>)"
  using assms by (auto simp add: Valid_SendUnAckTimeout1_def)

lemma Valid_RecvUnAckLimitW_ok:
  assumes "RecvUnAckLimitW sf = v" and "\<not> (v \<noteq> 0 \<and> (v < RecvUnAckLimitWMin \<or> RecvUnAckLimitWMax < v))"
  shows "Valid_RecvUnAckLimitW sf = (None, sf\<lparr>RecvUnAckLimitW := if v = 0 then 8 else v\<rparr>)"
  using assms by (auto simp add: Valid_RecvUnAckLimitW_def)

lemma Valid_RecvUnAckTimeout2_ok:
  assumes "RecvUnAckTimeout2 sf = v" and "\<not> (v \<noteq> 0 \<and> (v <s RecvUnAckTimeout2Min \<or> RecvUnAckTimeout2Max <s v))"
  shows "Valid_RecvUnAckTimeout2 sf = (None, sf\<lparr>RecvUnAckTimeout2 := if v = 0 then 10 * Second else v\<rparr>)"
  using assms by (auto simp add: Valid_RecvUnAckTimeout2_def)

lemma Valid_IdleTimeout3_ok:
  assumes "IdleTimeout3 sf = v" and "\<not> (v \<noteq> 0 \<and> (v <s IdleTimeout3Min \<or> IdleTimeout3Max <s v))"
  shows "Valid_IdleTimeout3 sf = (None, sf\<lparr>IdleTimeout3 := if v = 0 then 20 * Second else v\<rparr>)"
  using assms by (auto simp add: Valid_IdleTimeout3_def)

lemma Valid_success:
  assumes "fst (Valid (Some c)) = None"
  shows "snd (Valid (Some c)) = Some
           \<lparr>ConnectTimeout0 = (if ConnectTimeout0 c = 0 then 30 * Second else ConnectTimeout0 c),
            SendUnAckLimitK = (if SendUnAckLimitK c = 0 then 12 else SendUnAckLimitK c),
            SendUnAckTimeout1 =
              (if SendUnAckTimeout1 c = 0 then 15 * Second else SendUnAckTimeout1 c),
            RecvUnAckLimitW = (if RecvUnAckLimitW c = 0 then 8 else RecvUnAckLimitW c),
            RecvUnAckTimeout2 =
              (if RecvUnAckTimeout2 c = 0 then 10 * Second else RecvUnAckTimeout2 c),
            IdleTimeout3 = (if IdleTimeout3 c = 0 then 20 * Second else IdleTimeout3 c)\<rparr>"
proof -
  have nb:
    "\<not> (ConnectTimeout0 c \<noteq> 0 \<and> (ConnectTimeout0 c <s ConnectTimeout0Min \<or> ConnectTimeout0Max <s ConnectTimeout0 c))"
    "\<not> (SendUnAckLimitK c \<noteq> 0 \<and> (SendUnAckLimitK c < SendUnAckLimitKMin \<or> SendUnAckLimitKMax < SendUnAckLimitK c))"
    "\<not> (SendUnAckTimeout1 c \<noteq> 0 \<and> (SendUnAckTimeout1 c <s SendUnAckTimeout1Min \<or> SendUnAckTimeout1Max <s SendUnAckTimeout1 c))"
    "\<not> (RecvUnAckLimitW c \<noteq> 0 \<and> (RecvUnAckLimitW c < RecvUnAckLimitWMin \<or> RecvUnAckLimitWMax < RecvUnAckLimitW c))"
    "\<not> (RecvUnAckTimeout2 c \<noteq> 0 \<and> (RecvUnAckTimeout2 c <s RecvUnAckTimeout2Min \<or> RecvUnAckTimeout2Max <s RecvUnAckTimeout2 c))"
    "\<not> (IdleTimeout3 c \<noteq> 0 \<and> (IdleTimeout3 c <s IdleTimeout3Min \<or> IdleTimeout3Max <s IdleTimeout3 c))"
    using assms Valid_error_iff [of c] by blast+
  define d0 where "d0 = (if ConnectTimeout0 c = 0 then 30 * Second else ConnectTimeout0 c)"
  define c0 where "c0 = c\<lparr>ConnectTimeout0 := d0\<rparr>"
  have s0: "Valid_ConnectTimeout0 c = (None, c0)"
    unfolding c0_def d0_def
    by (rule Valid_ConnectTimeout0_ok [OF _ nb(1)]) (simp add: refl)
  define d1 where "d1 = (if SendUnAckLimitK c = 0 then 12 else SendUnAckLimitK c)"
  define c1 where "c1 = c0\<lparr>SendUnAckLimitK := d1\<rparr>"
  have s1: "Valid_SendUnAckLimitK c0 = (None, c1)"
    unfolding c1_def d1_def
    by (rule Valid_SendUnAckLimitK_ok [OF _ nb(2)]) (simp add: c0_def)
  define d2 where "d2 = (if SendUnAckTimeout1 c = 0 then 15 * Second else SendUnAckTimeout1 c)"
  define c2 where "c2 = c1\<lparr>SendUnAckTimeout1 := d2\<rparr>"
  have s2: "Valid_SendUnAckTimeout1 c1 = (None, c2)"
    unfolding c2_def d2_def
    by (rule Valid_SendUnAckTimeout1_ok [OF _ nb(3)]) (simp add: c0_def c1_def)
  define d3 where "d3 = (if RecvUnAckLimitW c = 0 then 8 else RecvUnAckLimitW c)"
  define c3 where "c3 = c2\<lparr>RecvUnAckLimitW := d3\<rparr>"
  have s3: "Valid_RecvUnAckLimitW c2 = (None, c3)"
    unfolding c3_def d3_def
    by (rule Valid_RecvUnAckLimitW_ok [OF _ nb(4)]) (simp add: c0_def c1_def c2_def)
  define d4 where "d4 = (if RecvUnAckTimeout2 c = 0 then 10 * Second else RecvUnAckTimeout2 c)"
  define c4 where "c4 = c3\<lparr>RecvUnAckTimeout2 := d4\<rparr>"
  have s4: "Valid_RecvUnAckTimeout2 c3 = (None, c4)"
    unfolding c4_def d4_def
    by (rule Valid_RecvUnAckTimeout2_ok [OF _ nb(5)]) (simp add: c0_def c1_def c2_def c3_def)
  define d5 where "d5 = (if IdleTimeout3 c = 0 then 20 * Second else IdleTimeout3 c)"
  define c5 where "c5 = c4\<lparr>IdleTimeout3 := d5\<rparr>"
  have s5: "Valid_IdleTimeout3 c4 = (None, c5)"
    unfolding c5_def d5_def
    by (rule Valid_IdleTimeout3_ok [OF _ nb(6)]) (simp add: c0_def c1_def c2_def c3_def c4_def)
  have "Valid (Some c) = (None, Some c5)"
    by (simp add: Valid_def s0 s1 s2 s3 s4 s5)
  moreover have "c5 =
           \<lparr>ConnectTimeout0 = d0, SendUnAckLimitK = d1, SendUnAckTimeout1 = d2,
            RecvUnAckLimitW = d3, RecvUnAckTimeout2 = d4, IdleTimeout3 = d5\<rparr>"
    by (cases c) (simp add: c5_def c4_def c3_def c2_def c1_def c0_def)
  ultimately show ?thesis
    unfolding d0_def d1_def d2_def d3_def d4_def d5_def by simp
qed

lemma duration_default_in_range:
  "ConnectTimeout0Min \<le>s 30 * Second" "30 * Second \<le>s ConnectTimeout0Max"
  "SendUnAckTimeout1Min \<le>s 15 * Second" "15 * Second \<le>s SendUnAckTimeout1Max"
  "RecvUnAckTimeout2Min \<le>s 10 * Second" "10 * Second \<le>s RecvUnAckTimeout2Max"
  "IdleTimeout3Min \<le>s 20 * Second" "20 * Second \<le>s IdleTimeout3Max"
  by (simp_all add: word_sle_eq ConnectTimeout0Min_def ConnectTimeout0Max_def
      SendUnAckTimeout1Min_def SendUnAckTimeout1Max_def RecvUnAckTimeout2Min_def
      RecvUnAckTimeout2Max_def IdleTimeout3Min_def IdleTimeout3Max_def Second_def Hour_def)

lemma limit_default_in_range:
  "SendUnAckLimitKMin \<le> 12" "12 \<le> SendUnAckLimitKMax"
  "RecvUnAckLimitWMin \<le> 8" "8 \<le> RecvUnAckLimitWMax"
  by (simp_all add: SendUnAckLimitKMin_def SendUnAckLimitKMax_def RecvUnAckLimitWMin_def
      RecvUnAckLimitWMax_def)

lemma duration_ok_in_range:
  assumes "\<not> (d \<noteq> 0 \<and> (d <s lo \<or> hi <s d))" "lo \<le>s dflt" "dflt \<le>s hi"
  shows "lo \<le>s (if d = 0 then dflt else d) \<and> (if d = 0 then dflt else d) \<le>s hi"
  using assms by (auto simp add: signed.not_less)

lemma limit_ok_in_range:
  fixes n :: uint16
  assumes "\<not> (n \<noteq> 0 \<and> (n < lo \<or> hi < n))" "lo \<le> dflt" "dflt \<le> hi"
  shows "lo \<le> (if n = 0 then dflt else n) \<and> (if n = 0 then dflt else n) \<le> hi"
  using assms by (auto simp add: not_less)

lemma Valid_outcome:
  "Valid (Some c) =
     (if (ConnectTimeout0 c \<noteq> 0
        \<and> (ConnectTimeout0 c <s ConnectTimeout0Min \<or> ConnectTimeout0Max <s ConnectTimeout0 c))
       then (Some ErrConnectTimeout0,
             Some (c))
      else if (SendUnAckLimitK c \<noteq> 0
        \<and> (SendUnAckLimitK c < SendUnAckLimitKMin \<or> SendUnAckLimitKMax < SendUnAckLimitK c))
       then (Some ErrSendUnAckLimitK,
             Some (c\<lparr>ConnectTimeout0 := (if ConnectTimeout0 c = 0 then 30 * Second else ConnectTimeout0 c)\<rparr>))
      else if (SendUnAckTimeout1 c \<noteq> 0
        \<and> (SendUnAckTimeout1 c <s SendUnAckTimeout1Min
            \<or> SendUnAckTimeout1Max <s SendUnAckTimeout1 c))
       then (Some ErrSendUnAckTimeout1,
             Some (c\<lparr>ConnectTimeout0 := (if ConnectTimeout0 c = 0 then 30 * Second else ConnectTimeout0 c),
                 SendUnAckLimitK := (if SendUnAckLimitK c = 0 then 12 else SendUnAckLimitK c)\<rparr>))
      else if (RecvUnAckLimitW c \<noteq> 0
        \<and> (RecvUnAckLimitW c < RecvUnAckLimitWMin \<or> RecvUnAckLimitWMax < RecvUnAckLimitW c))
       then (Some ErrRecvUnAckLimitW,
             Some (c\<lparr>ConnectTimeout0 := (if ConnectTimeout0 c = 0 then 30 * Second else ConnectTimeout0 c),
                 SendUnAckLimitK := (if SendUnAckLimitK c = 0 then 12 else SendUnAckLimitK c),
                 SendUnAckTimeout1 := (if SendUnAckTimeout1 c = 0 then 15 * Second else SendUnAckTimeout1 c)\<rparr>))
      else if (RecvUnAckTimeout2 c \<noteq> 0
        \<and> (RecvUnAckTimeout2 c <s RecvUnAckTimeout2Min
            \<or> RecvUnAckTimeout2Max <s RecvUnAckTimeout2 c))
       then (Some ErrRecvUnAckTimeout2,
             Some (c\<lparr>ConnectTimeout0 := (if ConnectTimeout0 c = 0 then 30 * Second else ConnectTimeout0 c),
                 SendUnAckLimitK := (if SendUnAckLimitK c = 0 then 12 else SendUnAckLimitK c),
                 SendUnAckTimeout1 := (if SendUnAckTimeout1 c = 0 then 15 * Second else SendUnAckTimeout1 c),
                 RecvUnAckLimitW := (if RecvUnAckLimitW c = 0 then 8 else RecvUnAckLimitW c)\<rparr>))
      else if (IdleTimeout3 c \<noteq> 0
        \<and> (IdleTimeout3 c <s IdleTimeout3Min \<or> IdleTimeout3Max <s IdleTimeout3 c))
       then (Some ErrIdleTimeout3,
             Some (c\<lparr>ConnectTimeout0 := (if ConnectTimeout0 c = 0 then 30 * Second else ConnectTimeout0 c),
                 SendUnAckLimitK := (if SendUnAckLimitK c = 0 then 12 else SendUnAckLimitK c),
                 SendUnAckTimeout1 := (if SendUnAckTimeout1 c = 0 then 15 * Second else SendUnAckTimeout1 c),
                 RecvUnAckLimitW := (if RecvUnAckLimitW c = 0 then 8 else RecvUnAckLimitW c),
                 RecvUnAckTimeout2 := (if RecvUnAckTimeout2 c = 0 then 10 * Second else RecvUnAckTimeout2 c)\<rparr>))
      else (None,
             Some (c\<lparr>ConnectTimeout0 := (if ConnectTimeout0 c = 0 then 30 * Second else ConnectTimeout0 c),
                 SendUnAckLimitK := (if SendUnAckLimitK c = 0 then 12 else SendUnAckLimitK c),
                 SendUnAckTimeout1 := (if SendUnAckTimeout1 c = 0 then 15 * Second else SendUnAckTimeout1 c),
                 RecvUnAckLimitW := (if RecvUnAckLimitW c = 0 then 8 else RecvUnAckLimitW c),
                 RecvUnAckTimeout2 := (if RecvUnAckTimeout2 c = 0 then 10 * Second else RecvUnAckTimeout2 c),
                 IdleTimeout3 := (if IdleTimeout3 c = 0 then 20 * Second else IdleTimeout3 c)\<rparr>)))"
proof -
  define b0 where "b0 = (ConnectTimeout0 c \<noteq> 0
        \<and> (ConnectTimeout0 c <s ConnectTimeout0Min \<or> ConnectTimeout0Max <s ConnectTimeout0 c))"
  define b1 where "b1 = (SendUnAckLimitK c \<noteq> 0
        \<and> (SendUnAckLimitK c < SendUnAckLimitKMin \<or> SendUnAckLimitKMax < SendUnAckLimitK c))"
  define b2 where "b2 = (SendUnAckTimeout1 c \<noteq> 0
        \<and> (SendUnAckTimeout1 c <s SendUnAckTimeout1Min
            \<or> SendUnAckTimeout1Max <s SendUnAckTimeout1 c))"
  define b3 where "b3 = (RecvUnAckLimitW c \<noteq> 0
        \<and> (RecvUnAckLimitW c < RecvUnAckLimitWMin \<or> RecvUnAckLimitWMax < RecvUnAckLimitW c))"
  define b4 where "b4 = (RecvUnAckTimeout2 c \<noteq> 0
        \<and> (RecvUnAckTimeout2 c <s RecvUnAckTimeout2Min
            \<or> RecvUnAckTimeout2Max <s RecvUnAckTimeout2 c))"
  define b5 where "b5 = (IdleTimeout3 c \<noteq> 0
        \<and> (IdleTimeout3 c <s IdleTimeout3Min \<or> IdleTimeout3Max <s IdleTimeout3 c))"
  define d0 where "d0 = (if ConnectTimeout0 c = 0 then 30 * Second else ConnectTimeout0 c)"
  define d1 where "d1 = (if SendUnAckLimitK c = 0 then 12 else SendUnAckLimitK c)"
  define d2 where "d2 = (if SendUnAckTimeout1 c = 0 then 15 * Second else SendUnAckTimeout1 c)"
  define d3 where "d3 = (if RecvUnAckLimitW c = 0 then 8 else RecvUnAckLimitW c)"
  define d4 where "d4 = (if RecvUnAckTimeout2 c = 0 then 10 * Second else RecvUnAckTimeout2 c)"
  define d5 where "d5 = (if IdleTimeout3 c = 0 then 20 * Second else IdleTimeout3 c)"
  define c0 where "c0 = c\<lparr>ConnectTimeout0 := d0\<rparr>"
  have s0: "Valid_ConnectTimeout0 c = (if b0 then (Some ErrConnectTimeout0, c) else (None, c0))"
    unfolding Valid_ConnectTimeout0_eq c0_def b0_def d0_def by simp
  define c1 where "c1 = c0\<lparr>SendUnAckLimitK := d1\<rparr>"
  have s1: "Valid_SendUnAckLimitK c0 = (if b1 then (Some ErrSendUnAckLimitK, c0) else (None, c1))"
    unfolding Valid_SendUnAckLimitK_eq c1_def b1_def d1_def by (simp add: c0_def)
  define c2 where "c2 = c1\<lparr>SendUnAckTimeout1 := d2\<rparr>"
  have s2: "Valid_SendUnAckTimeout1 c1 = (if b2 then (Some ErrSendUnAckTimeout1, c1) else (None, c2))"
    unfolding Valid_SendUnAckTimeout1_eq c2_def b2_def d2_def by (simp add: c0_def c1_def)
  define c3 where "c3 = c2\<lparr>RecvUnAckLimitW := d3\<rparr>"
  have s3: "Valid_RecvUnAckLimitW c2 = (if b3 then (Some ErrRecvUnAckLimitW, c2) else (None, c3))"
    unfolding Valid_RecvUnAckLimitW_eq c3_def b3_def d3_def by (simp add: c0_def c1_def c2_def)
  define c4 where "c4 = c3\<lparr>RecvUnAckTimeout2 := d4\<rparr>"
  have s4: "Valid_RecvUnAckTimeout2 c3 = (if b4 then (Some ErrRecvUnAckTimeout2, c3) else (None, c4))"
    unfolding Valid_RecvUnAckTimeout2_eq c4_def b4_def d4_def by (simp add: c0_def c1_def c2_def c3_def)
  define c5 where "c5 = c4\<lparr>IdleTimeout3 := d5\<rparr>"
  have s5: "Valid_IdleTimeout3 c4 = (if b5 then (Some ErrIdleTimeout3, c4) else (None, c5))"
    unfolding Valid_IdleTimeout3_eq c5_def b5_def d5_def by (simp add: c0_def c1_def c2_def c3_def c4_def)
  have "Valid (Some c) =
     (if b0 then (Some ErrConnectTimeout0, Some c)
      else if b1 then (Some ErrSendUnAckLimitK, Some c0)
      else if b2 then (Some ErrSendUnAckTimeout1, Some c1)
      else if b3 then (Some ErrRecvUnAckLimitW, Some c2)
      else if b4 then (Some ErrRecvUnAckTimeout2, Some c3)
      else if b5 then (Some ErrIdleTimeout3, Some c4)
      else (None, Some c5))"
    by (simp add: Valid_def s0 s1 s2 s3 s4 s5)
  then show ?thesis
    unfolding c5_def c4_def c3_def c2_def c1_def c0_def
      b0_def b1_def b2_def b3_def b4_def b5_def d0_def d1_def d2_def d3_def d4_def d5_def
    by (rule trans) (rule refl)
qed

text \<open>
  Claim C8, as amended. \<open>Config.Valid\<close> returns an error if and only if some nonzero
  field lies outside its range (t0, t1, t2 in [1, 255] seconds; k, w in [1, 32767]; t3 in
  [1 second, 48 hours]). When it returns no error, it has replaced each zero field with its
  default (t0 = 30 s, k = 12, t1 = 15 s, w = 8, t2 = 10 s, t3 = 20 s), has left the nonzero
  fields as they were, and every field holds a value in its range. When it returns an
  error, the error is that of the first field out of range in the order t0, k, t1, w, t2,
  t3; the zero fields before that field have been replaced with their defaults, and that
  field and every field after it are as they were, so a zero field after it is still zero.
\<close>

theorem Config_Valid_defaults_and_ranges:
  "(fst (Valid (Some c)) \<noteq> None \<longleftrightarrow>
       (ConnectTimeout0 c \<noteq> 0
          \<and> (ConnectTimeout0 c <s ConnectTimeout0Min \<or> ConnectTimeout0Max <s ConnectTimeout0 c))
     \<or> (SendUnAckLimitK c \<noteq> 0
          \<and> (SendUnAckLimitK c < SendUnAckLimitKMin \<or> SendUnAckLimitKMax < SendUnAckLimitK c))
     \<or> (SendUnAckTimeout1 c \<noteq> 0
          \<and> (SendUnAckTimeout1 c <s SendUnAckTimeout1Min
              \<or> SendUnAckTimeout1Max <s SendUnAckTimeout1 c))
     \<or> (RecvUnAckLimitW c \<noteq> 0
          \<and> (RecvUnAckLimitW c < RecvUnAckLimitWMin \<or> RecvUnAckLimitWMax < RecvUnAckLimitW c))
     \<or> (RecvUnAckTimeout2 c \<noteq> 0
          \<and> (RecvUnAckTimeout2 c <s RecvUnAckTimeout2Min
              \<or> RecvUnAckTimeout2Max <s RecvUnAckTimeout2 c))
     \<or> (IdleTimeout3 c \<noteq> 0
          \<and> (IdleTimeout3 c <s IdleTimeout3Min \<or> IdleTimeout3Max <s IdleTimeout3 c)))
   \<and> (fst (Valid (Some c)) = None \<longrightarrow>
        (\<exists>c'. snd (Valid (Some c)) = Some c'
           \<and> ConnectTimeout0 c' = (if ConnectTimeout0 c = 0 then 30 * Second else ConnectTimeout0 c)
           \<and> SendUnAckLimitK c' = (if SendUnAckLimitK c = 0 then 12 else SendUnAckLimitK c)
           \<and> SendUnAckTimeout1 c'
               = (if SendUnAckTimeout1 c = 0 then 15 * Second else SendUnAckTimeout1 c)
           \<and> RecvUnAckLimitW c' = (if RecvUnAckLimitW c = 0 then 8 else RecvUnAckLimitW c)
           \<and> RecvUnAckTimeout2 c'
               = (if RecvUnAckTimeout2 c = 0 then 10 * Second else RecvUnAckTimeout2 c)
           \<and> IdleTimeout3 c' = (if IdleTimeout3 c = 0 then 20 * Second else IdleTimeout3 c)
           \<and> ConnectTimeout0Min \<le>s ConnectTimeout0 c' \<and> ConnectTimeout0 c' \<le>s ConnectTimeout0Max
           \<and> SendUnAckLimitKMin \<le> SendUnAckLimitK c' \<and> SendUnAckLimitK c' \<le> SendUnAckLimitKMax
           \<and> SendUnAckTimeout1Min \<le>s SendUnAckTimeout1 c'
           \<and> SendUnAckTimeout1 c' \<le>s SendUnAckTimeout1Max
           \<and> RecvUnAckLimitWMin \<le> RecvUnAckLimitW c' \<and> RecvUnAckLimitW c' \<le> RecvUnAckLimitWMax
           \<and> RecvUnAckTimeout2Min \<le>s RecvUnAckTimeout2 c'
           \<and> RecvUnAckTimeout2 c' \<le>s RecvUnAckTimeout2Max
           \<and> IdleTimeout3Min \<le>s IdleTimeout3 c' \<and> IdleTimeout3 c' \<le>s IdleTimeout3Max))
   \<and> Valid (Some c) =
        (if (ConnectTimeout0 c \<noteq> 0
           \<and> (ConnectTimeout0 c <s ConnectTimeout0Min \<or> ConnectTimeout0Max <s ConnectTimeout0 c))
          then (Some ErrConnectTimeout0,
                Some (c))
         else if (SendUnAckLimitK c \<noteq> 0
           \<and> (SendUnAckLimitK c < SendUnAckLimitKMin \<or> SendUnAckLimitKMax < SendUnAckLimitK c))
          then (Some ErrSendUnAckLimitK,
                Some (c\<lparr>ConnectTimeout0 := (if ConnectTimeout0 c = 0 then 30 * Second else ConnectTimeout0 c)\<rparr>))
         else if (SendUnAckTimeout1 c \<noteq> 0
           \<and> (SendUnAckTimeout1 c <s SendUnAckTimeout1Min
               \<or> SendUnAckTimeout1Max <s SendUnAckTimeout1 c))
          then (Some ErrSendUnAckTimeout1,
                Some (c\<lparr>ConnectTimeout0 := (if ConnectTimeout0 c = 0 then 30 * Second else ConnectTimeout0 c),
                    SendUnAckLimitK := (if SendUnAckLimitK c = 0 then 12 else SendUnAckLimitK c)\<rparr>))
         else if (RecvUnAckLimitW c \<noteq> 0
           \<and> (RecvUnAckLimitW c < RecvUnAckLimitWMin \<or> RecvUnAckLimitWMax < RecvUnAckLimitW c))
          then (Some ErrRecvUnAckLimitW,
                Some (c\<lparr>ConnectTimeout0 := (if ConnectTimeout0 c = 0 then 30 * Second else ConnectTimeout0 c),
                    SendUnAckLimitK := (if SendUnAckLimitK c = 0 then 12 else SendUnAckLimitK c),
                    SendUnAckTimeout1 := (if SendUnAckTimeout1 c = 0 then 15 * Second else SendUnAckTimeout1 c)\<rparr>))
         else if (RecvUnAckTimeout2 c \<noteq> 0
           \<and> (RecvUnAckTimeout2 c <s RecvUnAckTimeout2Min
               \<or> RecvUnAckTimeout2Max <s RecvUnAckTimeout2 c))
          then (Some ErrRecvUnAckTimeout2,
                Some (c\<lparr>ConnectTimeout0 := (if ConnectTimeout0 c = 0 then 30 * Second else ConnectTimeout0 c),
                    SendUnAckLimitK := (if SendUnAckLimitK c = 0 then 12 else SendUnAckLimitK c),
                    SendUnAckTimeout1 := (if SendUnAckTimeout1 c = 0 then 15 * Second else SendUnAckTimeout1 c),
                    RecvUnAckLimitW := (if RecvUnAckLimitW c = 0 then 8 else RecvUnAckLimitW c)\<rparr>))
         else if (IdleTimeout3 c \<noteq> 0
           \<and> (IdleTimeout3 c <s IdleTimeout3Min \<or> IdleTimeout3Max <s IdleTimeout3 c))
          then (Some ErrIdleTimeout3,
                Some (c\<lparr>ConnectTimeout0 := (if ConnectTimeout0 c = 0 then 30 * Second else ConnectTimeout0 c),
                    SendUnAckLimitK := (if SendUnAckLimitK c = 0 then 12 else SendUnAckLimitK c),
                    SendUnAckTimeout1 := (if SendUnAckTimeout1 c = 0 then 15 * Second else SendUnAckTimeout1 c),
                    RecvUnAckLimitW := (if RecvUnAckLimitW c = 0 then 8 else RecvUnAckLimitW c),
                    RecvUnAckTimeout2 := (if RecvUnAckTimeout2 c = 0 then 10 * Second else RecvUnAckTimeout2 c)\<rparr>))
         else (None,
                Some (c\<lparr>ConnectTimeout0 := (if ConnectTimeout0 c = 0 then 30 * Second else ConnectTimeout0 c),
                    SendUnAckLimitK := (if SendUnAckLimitK c = 0 then 12 else SendUnAckLimitK c),
                    SendUnAckTimeout1 := (if SendUnAckTimeout1 c = 0 then 15 * Second else SendUnAckTimeout1 c),
                    RecvUnAckLimitW := (if RecvUnAckLimitW c = 0 then 8 else RecvUnAckLimitW c),
                    RecvUnAckTimeout2 := (if RecvUnAckTimeout2 c = 0 then 10 * Second else RecvUnAckTimeout2 c),
                    IdleTimeout3 := (if IdleTimeout3 c = 0 then 20 * Second else IdleTimeout3 c)\<rparr>)))"
proof (intro conjI impI)
  show "fst (Valid (Some c)) \<noteq> None \<longleftrightarrow>
       (ConnectTimeout0 c \<noteq> 0
          \<and> (ConnectTimeout0 c <s ConnectTimeout0Min \<or> ConnectTimeout0Max <s ConnectTimeout0 c))
     \<or> (SendUnAckLimitK c \<noteq> 0
          \<and> (SendUnAckLimitK c < SendUnAckLimitKMin \<or> SendUnAckLimitKMax < SendUnAckLimitK c))
     \<or> (SendUnAckTimeout1 c \<noteq> 0
          \<and> (SendUnAckTimeout1 c <s SendUnAckTimeout1Min
              \<or> SendUnAckTimeout1Max <s SendUnAckTimeout1 c))
     \<or> (RecvUnAckLimitW c \<noteq> 0
          \<and> (RecvUnAckLimitW c < RecvUnAckLimitWMin \<or> RecvUnAckLimitWMax < RecvUnAckLimitW c))
     \<or> (RecvUnAckTimeout2 c \<noteq> 0
          \<and> (RecvUnAckTimeout2 c <s RecvUnAckTimeout2Min
              \<or> RecvUnAckTimeout2Max <s RecvUnAckTimeout2 c))
     \<or> (IdleTimeout3 c \<noteq> 0
          \<and> (IdleTimeout3 c <s IdleTimeout3Min \<or> IdleTimeout3Max <s IdleTimeout3 c))"
    by (rule Valid_error_iff)
next
  assume ok: "fst (Valid (Some c)) = None"
  then have nb: "\<not> (ConnectTimeout0 c \<noteq> 0
        \<and> (ConnectTimeout0 c <s ConnectTimeout0Min \<or> ConnectTimeout0Max <s ConnectTimeout0 c))"
   "\<not> (SendUnAckLimitK c \<noteq> 0
        \<and> (SendUnAckLimitK c < SendUnAckLimitKMin \<or> SendUnAckLimitKMax < SendUnAckLimitK c))"
   "\<not> (SendUnAckTimeout1 c \<noteq> 0
        \<and> (SendUnAckTimeout1 c <s SendUnAckTimeout1Min
            \<or> SendUnAckTimeout1Max <s SendUnAckTimeout1 c))"
   "\<not> (RecvUnAckLimitW c \<noteq> 0
        \<and> (RecvUnAckLimitW c < RecvUnAckLimitWMin \<or> RecvUnAckLimitWMax < RecvUnAckLimitW c))"
   "\<not> (RecvUnAckTimeout2 c \<noteq> 0
        \<and> (RecvUnAckTimeout2 c <s RecvUnAckTimeout2Min
            \<or> RecvUnAckTimeout2Max <s RecvUnAckTimeout2 c))"
   "\<not> (IdleTimeout3 c \<noteq> 0
        \<and> (IdleTimeout3 c <s IdleTimeout3Min \<or> IdleTimeout3Max <s IdleTimeout3 c))"
    using Valid_error_iff [of c] by blast+
  note r = duration_ok_in_range [OF nb(1) duration_default_in_range(1,2)]
    limit_ok_in_range [OF nb(2) limit_default_in_range(1,2)]
    duration_ok_in_range [OF nb(3) duration_default_in_range(3,4)]
    limit_ok_in_range [OF nb(4) limit_default_in_range(3,4)]
    duration_ok_in_range [OF nb(5) duration_default_in_range(5,6)]
    duration_ok_in_range [OF nb(6) duration_default_in_range(7,8)]
  show "\<exists>c'. snd (Valid (Some c)) = Some c'
           \<and> ConnectTimeout0 c' = (if ConnectTimeout0 c = 0 then 30 * Second else ConnectTimeout0 c)
           \<and> SendUnAckLimitK c' = (if SendUnAckLimitK c = 0 then 12 else SendUnAckLimitK c)
           \<and> SendUnAckTimeout1 c'
               = (if SendUnAckTimeout1 c = 0 then 15 * Second else SendUnAckTimeout1 c)
           \<and> RecvUnAckLimitW c' = (if RecvUnAckLimitW c = 0 then 8 else RecvUnAckLimitW c)
           \<and> RecvUnAckTimeout2 c'
               = (if RecvUnAckTimeout2 c = 0 then 10 * Second else RecvUnAckTimeout2 c)
           \<and> IdleTimeout3 c' = (if IdleTimeout3 c = 0 then 20 * Second else IdleTimeout3 c)
           \<and> ConnectTimeout0Min \<le>s ConnectTimeout0 c' \<and> ConnectTimeout0 c' \<le>s ConnectTimeout0Max
           \<and> SendUnAckLimitKMin \<le> SendUnAckLimitK c' \<and> SendUnAckLimitK c' \<le> SendUnAckLimitKMax
           \<and> SendUnAckTimeout1Min \<le>s SendUnAckTimeout1 c'
           \<and> SendUnAckTimeout1 c' \<le>s SendUnAckTimeout1Max
           \<and> RecvUnAckLimitWMin \<le> RecvUnAckLimitW c' \<and> RecvUnAckLimitW c' \<le> RecvUnAckLimitWMax
           \<and> RecvUnAckTimeout2Min \<le>s RecvUnAckTimeout2 c'
           \<and> RecvUnAckTimeout2 c' \<le>s RecvUnAckTimeout2Max
           \<and> IdleTimeout3Min \<le>s IdleTimeout3 c' \<and> IdleTimeout3 c' \<le>s IdleTimeout3Max"
    unfolding Valid_success [OF ok]
    apply (rule exI, rule conjI, rule refl)
    unfolding Config.simps
    using r by blast
next
  show "Valid (Some c) =
       (if (ConnectTimeout0 c \<noteq> 0
          \<and> (ConnectTimeout0 c <s ConnectTimeout0Min \<or> ConnectTimeout0Max <s ConnectTimeout0 c))
         then (Some ErrConnectTimeout0,
               Some (c))
        else if (SendUnAckLimitK c \<noteq> 0
          \<and> (SendUnAckLimitK c < SendUnAckLimitKMin \<or> SendUnAckLimitKMax < SendUnAckLimitK c))
         then (Some ErrSendUnAckLimitK,
               Some (c\<lparr>ConnectTimeout0 := (if ConnectTimeout0 c = 0 then 30 * Second else ConnectTimeout0 c)\<rparr>))
        else if (SendUnAckTimeout1 c \<noteq> 0
          \<and> (SendUnAckTimeout1 c <s SendUnAckTimeout1Min
              \<or> SendUnAckTimeout1Max <s SendUnAckTimeout1 c))
         then (Some ErrSendUnAckTimeout1,
               Some (c\<lparr>ConnectTimeout0 := (if ConnectTimeout0 c = 0 then 30 * Second else ConnectTimeout0 c),
                   SendUnAckLimitK := (if SendUnAckLimitK c = 0 then 12 else SendUnAckLimitK c)\<rparr>))
        else if (RecvUnAckLimitW c \<noteq> 0
          \<and> (RecvUnAckLimitW c < RecvUnAckLimitWMin \<or> RecvUnAckLimitWMax < RecvUnAckLimitW c))
         then (Some ErrRecvUnAckLimitW,
               Some (c\<lparr>ConnectTimeout0 := (if ConnectTimeout0 c = 0 then 30 * Second else ConnectTimeout0 c),
                   SendUnAckLimitK := (if SendUnAckLimitK c = 0 then 12 else SendUnAckLimitK c),
                   SendUnAckTimeout1 := (if SendUnAckTimeout1 c = 0 then 15 * Second else SendUnAckTimeout1 c)\<rparr>))
        else if (RecvUnAckTimeout2 c \<noteq> 0
          \<and> (RecvUnAckTimeout2 c <s RecvUnAckTimeout2Min
              \<or> RecvUnAckTimeout2Max <s RecvUnAckTimeout2 c))
         then (Some ErrRecvUnAckTimeout2,
               Some (c\<lparr>ConnectTimeout0 := (if ConnectTimeout0 c = 0 then 30 * Second else ConnectTimeout0 c),
                   SendUnAckLimitK := (if SendUnAckLimitK c = 0 then 12 else SendUnAckLimitK c),
                   SendUnAckTimeout1 := (if SendUnAckTimeout1 c = 0 then 15 * Second else SendUnAckTimeout1 c),
                   RecvUnAckLimitW := (if RecvUnAckLimitW c = 0 then 8 else RecvUnAckLimitW c)\<rparr>))
        else if (IdleTimeout3 c \<noteq> 0
          \<and> (IdleTimeout3 c <s IdleTimeout3Min \<or> IdleTimeout3Max <s IdleTimeout3 c))
         then (Some ErrIdleTimeout3,
               Some (c\<lparr>ConnectTimeout0 := (if ConnectTimeout0 c = 0 then 30 * Second else ConnectTimeout0 c),
                   SendUnAckLimitK := (if SendUnAckLimitK c = 0 then 12 else SendUnAckLimitK c),
                   SendUnAckTimeout1 := (if SendUnAckTimeout1 c = 0 then 15 * Second else SendUnAckTimeout1 c),
                   RecvUnAckLimitW := (if RecvUnAckLimitW c = 0 then 8 else RecvUnAckLimitW c),
                   RecvUnAckTimeout2 := (if RecvUnAckTimeout2 c = 0 then 10 * Second else RecvUnAckTimeout2 c)\<rparr>))
        else (None,
               Some (c\<lparr>ConnectTimeout0 := (if ConnectTimeout0 c = 0 then 30 * Second else ConnectTimeout0 c),
                   SendUnAckLimitK := (if SendUnAckLimitK c = 0 then 12 else SendUnAckLimitK c),
                   SendUnAckTimeout1 := (if SendUnAckTimeout1 c = 0 then 15 * Second else SendUnAckTimeout1 c),
                   RecvUnAckLimitW := (if RecvUnAckLimitW c = 0 then 8 else RecvUnAckLimitW c),
                   RecvUnAckTimeout2 := (if RecvUnAckTimeout2 c = 0 then 10 * Second else RecvUnAckTimeout2 c),
                   IdleTimeout3 := (if IdleTimeout3 c = 0 then 20 * Second else IdleTimeout3 c)\<rparr>)))"
    by (rule Valid_outcome)
qed

theorem Config_Valid_defaults_and_ranges_witness:
  "fst (Valid (Some \<lparr>ConnectTimeout0 = 0, SendUnAckLimitK = 0, SendUnAckTimeout1 = 5 * Second,
                       RecvUnAckLimitW = 0, RecvUnAckTimeout2 = 0, IdleTimeout3 = 0\<rparr>)) = None
   \<and> snd (Valid (Some \<lparr>ConnectTimeout0 = 0, SendUnAckLimitK = 0, SendUnAckTimeout1 = 5 * Second,
                       RecvUnAckLimitW = 0, RecvUnAckTimeout2 = 0, IdleTimeout3 = 0\<rparr>))
       = Some \<lparr>ConnectTimeout0 = 30 * Second, SendUnAckLimitK = 12,
               SendUnAckTimeout1 = 5 * Second, RecvUnAckLimitW = 8,
               RecvUnAckTimeout2 = 10 * Second, IdleTimeout3 = 20 * Second\<rparr>
   \<and> Valid (Some \<lparr>ConnectTimeout0 = 0, SendUnAckLimitK = 40000, SendUnAckTimeout1 = 0,
                     RecvUnAckLimitW = 0, RecvUnAckTimeout2 = 0, IdleTimeout3 = 0\<rparr>)
       = (Some ErrSendUnAckLimitK,
          Some \<lparr>ConnectTimeout0 = 30 * Second, SendUnAckLimitK = 40000, SendUnAckTimeout1 = 0,
                 RecvUnAckLimitW = 0, RecvUnAckTimeout2 = 0, IdleTimeout3 = 0\<rparr>)"
proof -
  let ?c = "\<lparr>ConnectTimeout0 = 0, SendUnAckLimitK = 0, SendUnAckTimeout1 = 5 * Second,
            RecvUnAckLimitW = 0, RecvUnAckTimeout2 = 0, IdleTimeout3 = 0\<rparr>"
  let ?e = "\<lparr>ConnectTimeout0 = 0, SendUnAckLimitK = 40000, SendUnAckTimeout1 = 0,
            RecvUnAckLimitW = 0, RecvUnAckTimeout2 = 0, IdleTimeout3 = 0\<rparr>"
  have five: "5 * Second \<noteq> 0" "\<not> 5 * Second <s SendUnAckTimeout1Min"
    "\<not> SendUnAckTimeout1Max <s 5 * Second"
    by (simp_all add: word_sless_alt Second_def SendUnAckTimeout1Min_def
        SendUnAckTimeout1Max_def)
  note t = Config_Valid_defaults_and_ranges [of ?c]
  from t [THEN conjunct1]
  have ok: "fst (Valid (Some ?c)) = None"
    using five by simp
  with t [THEN conjunct2, THEN conjunct1]
  obtain c' where c': "snd (Valid (Some ?c)) = Some c'"
    "ConnectTimeout0 c' = 30 * Second" "SendUnAckLimitK c' = 12"
    "SendUnAckTimeout1 c' = 5 * Second" "RecvUnAckLimitW c' = 8"
    "RecvUnAckTimeout2 c' = 10 * Second" "IdleTimeout3 c' = 20 * Second"
    using five by auto
  have "c' = \<lparr>ConnectTimeout0 = 30 * Second, SendUnAckLimitK = 12,
               SendUnAckTimeout1 = 5 * Second, RecvUnAckLimitW = 8,
               RecvUnAckTimeout2 = 10 * Second, IdleTimeout3 = 20 * Second\<rparr>"
    using c'(2-7) by (cases c') simp
  with ok c'(1) have success: "fst (Valid (Some ?c)) = None
     \<and> snd (Valid (Some ?c))
       = Some \<lparr>ConnectTimeout0 = 30 * Second, SendUnAckLimitK = 12,
               SendUnAckTimeout1 = 5 * Second, RecvUnAckLimitW = 8,
               RecvUnAckTimeout2 = 10 * Second, IdleTimeout3 = 20 * Second\<rparr>"
    by simp
  have k: "(40000 :: uint16) \<noteq> 0" "SendUnAckLimitKMax < (40000 :: uint16)"
    by (simp_all add: SendUnAckLimitKMax_def)
  from Config_Valid_defaults_and_ranges [of ?e, THEN conjunct2, THEN conjunct2]
  have failure: "Valid (Some ?e)
       = (Some ErrSendUnAckLimitK,
          Some \<lparr>ConnectTimeout0 = 30 * Second, SendUnAckLimitK = 40000, SendUnAckTimeout1 = 0,
                 RecvUnAckLimitW = 0, RecvUnAckTimeout2 = 0, IdleTimeout3 = 0\<rparr>)"
    using k by simp
  from success failure show ?thesis by blast
qed

text \<open>
  The claim as it was stated has \<open>Valid\<close> replace each zero field for every
  configuration. With a connect timeout of 256 seconds and every other field zero,
  \<open>Valid\<close> returns at the first check, and the window size \<open>k\<close> is still zero.
\<close>

theorem Config_Valid_zero_field_kept_counterexample:
  "Valid (Some \<lparr>ConnectTimeout0 = 256 * Second, SendUnAckLimitK = 0, SendUnAckTimeout1 = 0,
                 RecvUnAckLimitW = 0, RecvUnAckTimeout2 = 0, IdleTimeout3 = 0\<rparr>)
     = (Some ErrConnectTimeout0,
        Some \<lparr>ConnectTimeout0 = 256 * Second, SendUnAckLimitK = 0, SendUnAckTimeout1 = 0,
               RecvUnAckLimitW = 0, RecvUnAckTimeout2 = 0, IdleTimeout3 = 0\<rparr>)"
  by (simp add: Valid_def Valid_ConnectTimeout0_def word_sless_alt Second_def
      ConnectTimeout0Min_def ConnectTimeout0Max_def)

section \<open>Properties of the APCI framing\<close>

lemma bit_lsh: "bit (lsh x k) n \<longleftrightarrow> k \<le> n \<and> n < LENGTH('a) \<and> bit x (n - k)"
  for x :: "'a::len word"
  by (auto simp add: lsh_def bit_simps)

lemma bit_rsh: "bit (rsh x k) n \<longleftrightarrow> bit x (k + n)"
  for x :: "'a::len word"
  by (auto simp add: rsh_def bit_simps)

lemma sn_disjoint:
  "rsh (ucast (a :: byte) :: uint16) 1 AND lsh (ucast (b :: byte)) 7 = 0"
  by (rule bit_word_eqI) (auto simp add: bit_simps bit_lsh bit_rsh dest: bit_imp_le_length)

lemma sn_add_or:
  "rsh (ucast (a :: byte) :: uint16) 1 + lsh (ucast (b :: byte)) 7
     = rsh (ucast a) 1 OR lsh (ucast b) 7"
  by (rule disjunctive_add_eq_or) (rule sn_disjoint)

lemma bit_lt_2p15:
  fixes sn :: uint16
  assumes "sn < 2 ^ 15" "bit sn n"
  shows "n < 15"
proof -
  have "take_bit 15 sn = sn" using assms(1) by (simp add: take_bit_eq_mask less_mask_eq)
  then have "bit (take_bit 15 sn) n" using assms(2) by simp
  then show ?thesis by (simp add: bit_simps)
qed

lemma sn_roundtrip:
  fixes sn :: uint16
  assumes "sn < 2 ^ 15"
  shows "rsh (ucast (ucast (lsh sn 1) :: byte) :: uint16) 1
           OR lsh (ucast (ucast (rsh sn 7) :: byte)) 7 = sn"
proof (rule bit_word_eqI)
  fix n assume n: "n < LENGTH(16)"
  have "bit sn n \<Longrightarrow> n < 15" using bit_lt_2p15 [OF assms] .
  then show "bit (rsh (ucast (ucast (lsh sn 1) :: byte) :: uint16) 1
           OR lsh (ucast (ucast (rsh sn 7) :: byte)) 7) n = bit sn n"
    using n by (auto simp add: bit_simps bit_lsh bit_rsh)
qed

lemma first_bit: "((ucast (lsh (sn :: uint16) 1) :: byte) AND 1 = 0)"
proof -
  have "\<not> bit (ucast (lsh sn 1) :: byte) 0"
    by (simp add: bit_simps bit_lsh)
  then show ?thesis using and_exp_eq_0_iff_not_bit [of "ucast (lsh sn 1) :: byte" 0] by simp
qed

lemma unat_byte_of_nat: "m < 256 \<Longrightarrow> unat (of_nat m :: byte) = m"
  by (simp add: unat_of_nat take_bit_nat_eq_self)

lemma len_byte: "n \<le> 249 \<Longrightarrow> unat (of_nat (n + 4) :: byte) = n + 4"
  by (rule unat_byte_of_nat) simp

lemma parse_header:
  "parse ([s, l, c1, c2, c3, c4] @ rest) =
     Some (if c1 AND 0x01 = 0
             then iAPCI (rsh (ucast c1) 1 + lsh (ucast c2) 7) (rsh (ucast c3) 1 + lsh (ucast c4) 7)
           else if c1 AND 0x03 = 0x01
             then sAPCI (rsh (ucast c3) 1 + lsh (ucast c4) 7)
           else uAPCI (c1 AND 0xfc), rest)"
  by (simp add: parse_def Let_def)

lemma parse_newIFrame:
  assumes "sendSN < 2 ^ 15" "RcvSN < 2 ^ 15"
  shows "parse ([startFrame, of_nat (length asdus + 4),
                 ucast (lsh sendSN 1), ucast (rsh sendSN 7),
                 ucast (lsh RcvSN 1), ucast (rsh RcvSN 7)] @ asdus)
         = Some (iAPCI sendSN RcvSN, asdus)"
  unfolding parse_header first_bit sn_add_or sn_roundtrip [OF assms(1)] sn_roundtrip [OF assms(2)]
  by simp

text \<open>
  Claim C5. For send and receive sequence numbers below \<open>2^15\<close> and an ASDU of at most
  249 bytes, \<open>newIFrame\<close> succeeds; the APDU starts with \<open>0x68\<close>, its length byte is
  the ASDU length plus 4, and \<open>parse\<close> gives back an I-frame with the same two sequence
  numbers (each is \<open>ctl >> 1 | ctl' << 7\<close> of its two control bytes) and the ASDU bytes
  as they were. For an ASDU longer than 249 bytes \<open>newIFrame\<close> returns an error.
\<close>

theorem newIFrame_parse_roundtrip:
  "(sendSN < 2 ^ 15 \<and> RcvSN < 2 ^ 15 \<and> length asdus \<le> 249 \<longrightarrow>
      (\<exists>apdu. newIFrame sendSN RcvSN asdus = Inr apdu
         \<and> length apdu = length asdus + 6
         \<and> apdu ! 0 = 0x68
         \<and> unat (apdu ! 1) = length asdus + 4
         \<and> parse apdu = Some (iAPCI sendSN RcvSN, asdus)
         \<and> sendSN = rsh (ucast (apdu ! 2)) 1 OR lsh (ucast (apdu ! 3)) 7
         \<and> RcvSN = rsh (ucast (apdu ! 4)) 1 OR lsh (ucast (apdu ! 5)) 7))
   \<and> (249 < length asdus \<longrightarrow> (\<exists>e. newIFrame sendSN RcvSN asdus = Inl e))"
proof (intro conjI impI)
  assume "249 < length asdus"
  then show "\<exists>e. newIFrame sendSN RcvSN asdus = Inl e"
    by (simp add: newIFrame_def ASDUSizeMax_def)
next
  assume a: "sendSN < 2 ^ 15 \<and> RcvSN < 2 ^ 15 \<and> length asdus \<le> 249"
  let ?apdu = "[startFrame, of_nat (length asdus + 4),
                 ucast (lsh sendSN 1), ucast (rsh sendSN 7),
                 ucast (lsh RcvSN 1), ucast (rsh RcvSN 7)] @ asdus"
  have 1: "newIFrame sendSN RcvSN asdus = Inr ?apdu"
    using a by (simp add: newIFrame_def ASDUSizeMax_def)
  have 2: "length ?apdu = length asdus + 6" by simp
  have 3: "?apdu ! 0 = 0x68" by (simp add: startFrame_def)
  have 4: "unat (?apdu ! 1) = length asdus + 4"
    using a len_byte [of "length asdus"] by (simp del: of_nat_add)
  have 5: "parse ?apdu = Some (iAPCI sendSN RcvSN, asdus)"
    using a by (intro parse_newIFrame) auto
  have 6: "sendSN = rsh (ucast (?apdu ! 2)) 1 OR lsh (ucast (?apdu ! 3)) 7"
    using a sn_roundtrip [of sendSN] by simp
  have 7: "RcvSN = rsh (ucast (?apdu ! 4)) 1 OR lsh (ucast (?apdu ! 5)) 7"
    using a sn_roundtrip [of RcvSN] by simp
  show "\<exists>apdu. newIFrame sendSN RcvSN asdus = Inr apdu
         \<and> length apdu = length asdus + 6
         \<and> apdu ! 0 = 0x68
         \<and> unat (apdu ! 1) = length asdus + 4
         \<and> parse apdu = Some (iAPCI sendSN RcvSN, asdus)
         \<and> sendSN = rsh (ucast (apdu ! 2)) 1 OR lsh (ucast (apdu ! 3)) 7
         \<and> RcvSN = rsh (ucast (apdu ! 4)) 1 OR lsh (ucast (apdu ! 5)) 7"
    using 1 2 3 4 5 6 7 by blast
qed

text \<open>
  Claim C9. On a slice of at least six bytes \<open>parse\<close> returns (it does not panic, and
  it has no error result): an I-frame when the lowest bit of the first control byte is 0,
  an S-frame when its two lowest bits are \<open>01\<close>, and otherwise a U-frame whose function
  is that byte masked with \<open>0xFC\<close>, whatever the value. The start byte and the length
  byte have no influence on the result.
\<close>

theorem parse_total:
  assumes "6 \<le> length apdu"
  shows "parse apdu = Some
           (if apdu ! 2 AND 0x01 = 0
              then iAPCI (rsh (ucast (apdu ! 2)) 1 + lsh (ucast (apdu ! 3)) 7)
                         (rsh (ucast (apdu ! 4)) 1 + lsh (ucast (apdu ! 5)) 7)
            else if apdu ! 2 AND 0x03 = 0x01
              then sAPCI (rsh (ucast (apdu ! 4)) 1 + lsh (ucast (apdu ! 5)) 7)
            else uAPCI (apdu ! 2 AND 0xfc),
            drop 6 apdu)
       \<and> parse (apdu[0 := x, 1 := y]) = parse apdu"
  using assms by (simp add: parse_def Let_def)

theorem parse_total_witness:
  "6 \<le> length [0, 0, 0x03, 0, 0, 0 :: byte]
   \<and> parse [0, 0, 0x03, 0, 0, 0] = Some (uAPCI 0, [])
   \<and> parse [0x68, 4, 0x03, 0, 0, 0] = parse [0, 0, 0x03, 0, 0, 0]"
  using parse_total [of "[0, 0, 0x03, 0, 0, 0]" "0x68" 4]
  by simp

theorem newIFrame_parse_roundtrip_witness:
  "(5 :: uint16) < 2 ^ 15 \<and> (9 :: uint16) < 2 ^ 15 \<and> length [0x64, 0x01 :: byte] \<le> 249
   \<and> newIFrame 5 9 [0x64, 0x01] = Inr [0x68, 6, 10, 0, 18, 0, 0x64, 0x01]
   \<and> parse [0x68, 6, 10, 0, 18, 0, 0x64, 0x01] = Some (iAPCI 5 9, [0x64, 0x01])
   \<and> 249 < length (replicate 250 (0 :: byte))
   \<and> (\<exists>e. newIFrame 5 9 (replicate 250 0) = Inl e)"
  using newIFrame_parse_roundtrip [of 5 9 "[0x64, 0x01]"]
    newIFrame_parse_roundtrip [of 5 9 "replicate 250 0"]
  by (auto simp add: newIFrame_def ASDUSizeMax_def startFrame_def lsh_def rsh_def)

section \<open>Admission of the cause of transmission\<close>

lemmas build_wrapper_defs =
  Single_def SingleCP24Time2a_def SingleCP56Time2a_def
  Double_def DoubleCP24Time2a_def DoubleCP56Time2a_def
  Step_def StepCP24Time2a_def StepCP56Time2a_def
  BitString32_def BitString32CP24Time2a_def BitString32CP56Time2a_def
  MeasuredValueNormal_def MeasuredValueNormalCP24Time2a_def MeasuredValueNormalCP56Time2a_def
  MeasuredValueNormalNoQuality_def
  MeasuredValueScaled_def MeasuredValueScaledCP24Time2a_def MeasuredValueScaledCP56Time2a_def
  MeasuredValueFloat_def MeasuredValueFloatCP24Time2a_def MeasuredValueFloatCP56Time2a_def
  IntegratedTotals_def IntegratedTotalsCP24Time2a_def IntegratedTotalsCP56Time2a_def
  EventOfProtectionEquipmentCP24Time2a_def EventOfProtectionEquipmentCP56Time2a_def
  eventOfProtectionEquipment_def
  PackedStartEventsOfProtectionEquipmentCP24Time2a_def
  PackedStartEventsOfProtectionEquipmentCP56Time2a_def
  packedStartEventsOfProtectionEquipment_def
  PackedOutputCircuitInfoCP24Time2a_def PackedOutputCircuitInfoCP56Time2a_def
  packedOutputCircuitInfo_def PackedSinglePointWithSCD_def
  SingleCmd_def DoubleCmd_def StepCmd_def SetpointCmdNormal_def SetpointCmdScaled_def
  SetpointCmdFloat_def BitsString32Cmd_def
  ParameterNormal_def ParameterScaled_def ParameterFloat_def ParameterActivation_def
  InterrogationCmd_def DelayAcquireCommand_def

text \<open>
  Every operation with a guard on the cause of transmission returns \<open>ErrCmdCause\<close> for a
  cause outside the set it admits and leaves the connection as it was, so that nothing is
  handed to \<open>Send\<close>. \<open>TestCommandCP56Time2a\<close> is the one operation with a set to enforce
  and no guard.
\<close>

lemma build_rejects_guarded:
  assumes "CauseOfTransmission.Cause coa \<notin> admitted b"
    and "\<forall>t. b \<noteq> Op_TestCommandCP56Time2a t"
  shows "build c coa ca b = (Some ErrCmdCause, c)"
  using assms by (cases b) (simp_all add: build_wrapper_defs)

lemma build_rejects_guarded_Single:
  "Single \<lparr>cParams = \<lparr>CauseSize = 2, CommonAddrSize = 2, InfoObjAddrSize = 3\<rparr>,
        cAnswer = (\<lambda>_ _. None), cSent = []\<rparr>
        False \<lparr>IsTest = False, IsNegative = False, Cause = Activation\<rparr> 1 []
     = (Some ErrCmdCause,
        \<lparr>cParams = \<lparr>CauseSize = 2, CommonAddrSize = 2, InfoObjAddrSize = 3\<rparr>,
        cAnswer = (\<lambda>_ _. None), cSent = []\<rparr>)"
proof -
  have h: "CauseOfTransmission.Cause \<lparr>IsTest = False, IsNegative = False, Cause = Activation\<rparr>
     \<notin> admitted (Op_Single False [])"
    by (simp add: Cause_defs)
  from build_rejects_guarded [OF h] show ?thesis by simp
qed

text \<open>
  Claim C3 asks that every build operation, given a cause of transmission outside the set
  its type admits, return \<open>ErrCmdCause\<close> and not invoke \<open>Send\<close>.
  \<open>TestCommandCP56Time2a\<close> admits \<open>Activation\<close> only, and has no check of the cause: on a
  connection with valid parameters, called with the cause \<open>Spontaneous\<close>, it returns no
  error and hands to \<open>Send\<close> an ASDU of type C_TS_TA_1 that carries the cause
  \<open>Spontaneous\<close>.
\<close>

theorem TestCommandCP56Time2a_sends_cause_not_admitted:
  "CauseOfTransmission.Cause \<lparr>IsTest = False, IsNegative = False, Cause = Spontaneous\<rparr>
     \<notin> admitted (Op_TestCommandCP56Time2a
         \<lparr>tm_ms = 1500, tm_min = 30, tm_iv = False, tm_hour = 12, tm_su = False,
          tm_day = 15, tm_dow = 3, tm_month = 6, tm_year = 24\<rparr>)
   \<and> fst (build \<lparr>cParams = \<lparr>CauseSize = 2, CommonAddrSize = 2, InfoObjAddrSize = 3\<rparr>,
        cAnswer = (\<lambda>_ _. None), cSent = []\<rparr>
        \<lparr>IsTest = False, IsNegative = False, Cause = Spontaneous\<rparr> 1
        (Op_TestCommandCP56Time2a
         \<lparr>tm_ms = 1500, tm_min = 30, tm_iv = False, tm_hour = 12, tm_su = False,
          tm_day = 15, tm_dow = 3, tm_month = 6, tm_year = 24\<rparr>)) = None
   \<and> handed \<lparr>cParams = \<lparr>CauseSize = 2, CommonAddrSize = 2, InfoObjAddrSize = 3\<rparr>,
        cAnswer = (\<lambda>_ _. None), cSent = []\<rparr>
       (TestCommandCP56Time2a \<lparr>cParams = \<lparr>CauseSize = 2, CommonAddrSize = 2, InfoObjAddrSize = 3\<rparr>,
        cAnswer = (\<lambda>_ _. None), cSent = []\<rparr>
          \<lparr>IsTest = False, IsNegative = False, Cause = Spontaneous\<rparr> 1
          \<lparr>tm_ms = 1500, tm_min = 30, tm_iv = False, tm_hour = 12, tm_su = False,
          tm_day = 15, tm_dow = 3, tm_month = 6, tm_year = 24\<rparr>)
     = [\<lparr>Params = \<lparr>CauseSize = 2, CommonAddrSize = 2, InfoObjAddrSize = 3\<rparr>,
         Identifier = \<lparr>Type = C_TS_TA_1, Variable = \<lparr>Number = 1, IsSequence = False\<rparr>,
                        Coa = \<lparr>IsTest = False, IsNegative = False, Cause = Spontaneous\<rparr>,
                        OrigAddr = 0, CommonAddr = 1\<rparr>,
         infoObj = [0, 0, 0] @ [0xAA, 0x55] @ [0xDC, 0x05, 30, 12, 111, 6, 24]\<rparr>]"
  by (simp add: TestCommandCP56Time2a_def Params_Valid_def NewASDU_def AppendInfoObjAddr_def
      AppendUint16_def AppendCP56Time2a_def AppendBytes_def CP56Time2a_def
      InfoObjAddrIrrelevant_def FBPTestWord_def rsh_def lsh_def Send_def handed_def
      Cause_defs)
section \<open>The step position builder with CP56Time2a\<close>

lemma handed_Send [simp]: "handed c (Send c u) = [u]"
  by (simp add: handed_def Send_def)

lemma handed_unchanged [simp]: "handed c (e, c) = []"
  by (simp add: handed_def)

text \<open>
  Claim C1 asks that \<open>StepCP56Time2a\<close> hand to \<open>Send\<close> an ASDU of type M_ST_TB_1 (32),
  as its doc comment says. The source passes M_SP_TB_1 (30), the single-point type, to
  \<open>step\<close>. On a connection with valid parameters, with the cause \<open>Spontaneous\<close> and one
  object, the call succeeds and the ASDU handed over has type M_SP_TB_1; its payload is
  the address, the step position, the quality descriptor and the seven bytes of the
  CP56Time2a time tag.
\<close>

theorem StepCP56Time2a_sends_M_SP_TB_1:
  "fst (StepCP56Time2a
        \<lparr>cParams = \<lparr>CauseSize = 2, CommonAddrSize = 2, InfoObjAddrSize = 3\<rparr>,
         cAnswer = (\<lambda>_ _. None), cSent = []\<rparr>
        \<lparr>IsTest = False, IsNegative = False, Cause = Spontaneous\<rparr> 1
        [\<lparr>StepPositionInfo.Ioa = 100,
          StepPositionInfo.Value = \<lparr>Val = 5, HasTransient = False\<rparr>,
          StepPositionInfo.Qds = QDSGood,
          StepPositionInfo.Time = \<lparr>tm_ms = 1500, tm_min = 30, tm_iv = False, tm_hour = 12,
                                 tm_su = False, tm_day = 15, tm_dow = 3, tm_month = 6,
                                 tm_year = 24\<rparr>\<rparr>]) = None
   \<and> handed \<lparr>cParams = \<lparr>CauseSize = 2, CommonAddrSize = 2, InfoObjAddrSize = 3\<rparr>,
         cAnswer = (\<lambda>_ _. None), cSent = []\<rparr>
     (StepCP56Time2a
        \<lparr>cParams = \<lparr>CauseSize = 2, CommonAddrSize = 2, InfoObjAddrSize = 3\<rparr>,
         cAnswer = (\<lambda>_ _. None), cSent = []\<rparr>
        \<lparr>IsTest = False, IsNegative = False, Cause = Spontaneous\<rparr> 1
        [\<lparr>StepPositionInfo.Ioa = 100,
          StepPositionInfo.Value = \<lparr>Val = 5, HasTransient = False\<rparr>,
          StepPositionInfo.Qds = QDSGood,
          StepPositionInfo.Time = \<lparr>tm_ms = 1500, tm_min = 30, tm_iv = False, tm_hour = 12,
                                 tm_su = False, tm_day = 15, tm_dow = 3, tm_month = 6,
                                 tm_year = 24\<rparr>\<rparr>])
     = [\<lparr>Params = \<lparr>CauseSize = 2, CommonAddrSize = 2, InfoObjAddrSize = 3\<rparr>,
         Identifier = \<lparr>Type = M_SP_TB_1, Variable = \<lparr>Number = 1, IsSequence = False\<rparr>,
                        Coa = \<lparr>IsTest = False, IsNegative = False, Cause = Spontaneous\<rparr>,
                        OrigAddr = 0, CommonAddr = 1\<rparr>,
         infoObj = [100, 0, 0] @ [5, 0] @ [0xDC, 0x05, 30, 12, 111, 6, 24]\<rparr>]
   \<and> M_SP_TB_1 \<noteq> M_ST_TB_1"
  by (simp add: StepCP56Time2a_def step_def checkValid_def GetInfoObjSize_def infoObjSize_def
      Params_Valid_def IdentifierSize_def ASDUSizeMax_def NewASDU_def SetVariableNumber_def
      step_body_def AppendInfoObjAddr_def AppendBytes_def CP56Time2a_def StepPosition_Value_def
      QDSGood_def rsh_def lsh_def Send_def handed_def TypeID_defs Cause_defs)

lemma replicate_22:
  "replicate 22 x = [x, x, x, x, x, x, x, x, x, x, x, x, x, x, x, x, x, x, x, x, x, x]"
  by (simp add: eval_nat_numeral)

text \<open>
  Claim C4 asks that every ASDU a successful build hands to \<open>Send\<close> be at most
  \<open>ASDUSizeMax = 249\<close> bytes long, identifier included, and that the bytes appended never
  exceed what \<open>checkValid\<close> admitted. \<open>StepCP56Time2a\<close> has \<open>checkValid\<close> compute the
  size with the 8 bytes of M_SP_TB_1 while \<open>step\<close> appends 9 bytes for each object. With
  3-byte addresses, a 6-byte identifier and 22 objects, \<open>checkValid\<close> admits the build
  (it computes 248), the build succeeds, and the ASDU handed to \<open>Send\<close> is 270 bytes long.
\<close>

theorem StepCP56Time2a_exceeds_ASDUSizeMax:
  "checkValid \<lparr>cParams = \<lparr>CauseSize = 2, CommonAddrSize = 2, InfoObjAddrSize = 3\<rparr>,
         cAnswer = (\<lambda>_ _. None), cSent = []\<rparr>
      M_SP_TB_1 False 22 = None
   \<and> fst (StepCP56Time2a
        \<lparr>cParams = \<lparr>CauseSize = 2, CommonAddrSize = 2, InfoObjAddrSize = 3\<rparr>,
         cAnswer = (\<lambda>_ _. None), cSent = []\<rparr>
        \<lparr>IsTest = False, IsNegative = False, Cause = Spontaneous\<rparr> 1
        (replicate 22 \<lparr>StepPositionInfo.Ioa = 100,
          StepPositionInfo.Value = \<lparr>Val = 5, HasTransient = False\<rparr>,
          StepPositionInfo.Qds = QDSGood,
          StepPositionInfo.Time = \<lparr>tm_ms = 1500, tm_min = 30, tm_iv = False, tm_hour = 12,
                                 tm_su = False, tm_day = 15, tm_dow = 3, tm_month = 6,
                                 tm_year = 24\<rparr>\<rparr>)) = None
   \<and> map (\<lambda>u. IdentifierSize (ASDU.Params u) + int (length (infoObj u)))
       (handed \<lparr>cParams = \<lparr>CauseSize = 2, CommonAddrSize = 2, InfoObjAddrSize = 3\<rparr>,
         cAnswer = (\<lambda>_ _. None), cSent = []\<rparr>
         (StepCP56Time2a
            \<lparr>cParams = \<lparr>CauseSize = 2, CommonAddrSize = 2, InfoObjAddrSize = 3\<rparr>,
         cAnswer = (\<lambda>_ _. None), cSent = []\<rparr>
            \<lparr>IsTest = False, IsNegative = False, Cause = Spontaneous\<rparr> 1
            (replicate 22 \<lparr>StepPositionInfo.Ioa = 100,
          StepPositionInfo.Value = \<lparr>Val = 5, HasTransient = False\<rparr>,
          StepPositionInfo.Qds = QDSGood,
          StepPositionInfo.Time = \<lparr>tm_ms = 1500, tm_min = 30, tm_iv = False, tm_hour = 12,
                                 tm_su = False, tm_day = 15, tm_dow = 3, tm_month = 6,
                                 tm_year = 24\<rparr>\<rparr>)))
     = [270]
   \<and> ASDUSizeMax < 270"
  unfolding replicate_22
  by (simp add: StepCP56Time2a_def step_def checkValid_def GetInfoObjSize_def infoObjSize_def
      Params_Valid_def IdentifierSize_def ASDUSizeMax_def NewASDU_def SetVariableNumber_def
      step_body_def AppendInfoObjAddr_def AppendBytes_def CP56Time2a_def StepPosition_Value_def
      QDSGood_def rsh_def lsh_def Send_def handed_def TypeID_defs Cause_defs)

section \<open>The system commands that set the cause of transmission\<close>

lemma fst_Send_not_ErrCmdCause [simp]: "fst (Send c u) \<noteq> Some ErrCmdCause"
  by (cases "cAnswer c (cSent c) u") (simp_all add: Send_def)

lemma Params_Valid_None_iff:
  "Params_Valid p = None \<longleftrightarrow>
     (CauseSize p = 1 \<or> CauseSize p = 2) \<and> (CommonAddrSize p = 1 \<or> CommonAddrSize p = 2)
     \<and> (InfoObjAddrSize p = 1 \<or> InfoObjAddrSize p = 2 \<or> InfoObjAddrSize p = 3)"
  by (auto simp add: Params_Valid_def)

lemma Params_Valid_Some: "Params_Valid p = Some e \<Longrightarrow> e = ErrParam"
  by (simp add: Params_Valid_def split: if_splits)

text \<open>
  Appending an address either fails, leaving nothing appended, or appends to the payload
  and leaves parameters and identifier alone. An address of at most 255 fits any width.
\<close>

lemma AppendInfoObjAddr_cases:
  "AppendInfoObjAddr u a = Inl ErrInfoObjAddrFit \<or> AppendInfoObjAddr u a = Inl ErrParam
   \<or> (\<exists>bs. AppendInfoObjAddr u a = Inr (u\<lparr>infoObj := infoObj u @ bs\<rparr>))"
  unfolding AppendInfoObjAddr_def by (simp split: if_splits) blast

lemma AppendInfoObjAddr_fits:
  assumes "Params_Valid (ASDU.Params u) = None" and "a \<le> 255"
  shows "\<exists>bs. AppendInfoObjAddr u a = Inr (u\<lparr>infoObj := infoObj u @ bs\<rparr>)"
proof -
  have "\<not> 255 < a" "\<not> 65535 < a" "\<not> 16777215 < a"
    using assms(2) by (simp_all add: word_le_nat_alt word_less_nat_alt)
  then show ?thesis
    using assms(1) unfolding AppendInfoObjAddr_def Params_Valid_None_iff
    by auto
qed

lemma Identifier_infoObj_update [simp]:
  "Identifier (u\<lparr>infoObj := bs\<rparr>) = Identifier u"
  by simp

lemma CounterInterrogationCmd_cases:
  "CounterInterrogationCmd c coa ca qcc = (Some ErrParam, c)
   \<or> CounterInterrogationCmd c coa ca qcc = (Some ErrInfoObjAddrFit, c)
   \<or> (\<exists>u. CounterInterrogationCmd c coa ca qcc = Send c u
          \<and> Identifier u =
               \<lparr>Type = C_CI_NA_1, Variable = \<lparr>Number = 1, IsSequence = False\<rparr>,
                Coa = coa\<lparr>CauseOfTransmission.Cause := Activation\<rparr>,
                OrigAddr = 0, CommonAddr = ca\<rparr>)"
proof (cases "Params_Valid (cParams c)")
  case (Some e)
  then show ?thesis
    using Params_Valid_Some [OF Some] by (simp add: CounterInterrogationCmd_def)
next
  case None
  let ?u = "NewASDU (cParams c)
              \<lparr>Type = C_CI_NA_1, Variable = \<lparr>Number = 1, IsSequence = False\<rparr>,
               Coa = coa\<lparr>CauseOfTransmission.Cause := Activation\<rparr>,
               OrigAddr = 0, CommonAddr = ca\<rparr>"
  from AppendInfoObjAddr_cases [of ?u "InfoObjAddrIrrelevant"] None show ?thesis
    by (auto simp add: CounterInterrogationCmd_def Let_def NewASDU_def AppendBytes_def)
qed

lemma CounterInterrogationCmd_sends:
  assumes "Params_Valid (cParams c) = None"
  shows "\<exists>u. CounterInterrogationCmd c coa ca qcc = Send c u"
proof -
  let ?u = "NewASDU (cParams c)
              \<lparr>Type = C_CI_NA_1, Variable = \<lparr>Number = 1, IsSequence = False\<rparr>,
               Coa = coa\<lparr>CauseOfTransmission.Cause := Activation\<rparr>,
               OrigAddr = 0, CommonAddr = ca\<rparr>"
  have "Params_Valid (ASDU.Params ?u) = None" using assms(1) by (simp add: NewASDU_def)
  from AppendInfoObjAddr_fits [OF this, of "InfoObjAddrIrrelevant"] assms show ?thesis
    by (auto simp add: CounterInterrogationCmd_def Let_def InfoObjAddrIrrelevant_def)
qed

lemma ReadCmd_cases:
  "ReadCmd c coa ca ioa = (Some ErrParam, c)
   \<or> ReadCmd c coa ca ioa = (Some ErrInfoObjAddrFit, c)
   \<or> (\<exists>u. ReadCmd c coa ca ioa = Send c u
          \<and> Identifier u =
               \<lparr>Type = C_RD_NA_1, Variable = \<lparr>Number = 1, IsSequence = False\<rparr>,
                Coa = coa\<lparr>CauseOfTransmission.Cause := Request\<rparr>,
                OrigAddr = 0, CommonAddr = ca\<rparr>)"
proof (cases "Params_Valid (cParams c)")
  case (Some e)
  then show ?thesis
    using Params_Valid_Some [OF Some] by (simp add: ReadCmd_def)
next
  case None
  let ?u = "NewASDU (cParams c)
              \<lparr>Type = C_RD_NA_1, Variable = \<lparr>Number = 1, IsSequence = False\<rparr>,
               Coa = coa\<lparr>CauseOfTransmission.Cause := Request\<rparr>,
               OrigAddr = 0, CommonAddr = ca\<rparr>"
  from AppendInfoObjAddr_cases [of ?u "ioa"] None show ?thesis
    by (auto simp add: ReadCmd_def Let_def NewASDU_def AppendBytes_def)
qed

lemma ReadCmd_sends:
  assumes "Params_Valid (cParams c) = None" and "ioa \<le> 255"
  shows "\<exists>u. ReadCmd c coa ca ioa = Send c u"
proof -
  let ?u = "NewASDU (cParams c)
              \<lparr>Type = C_RD_NA_1, Variable = \<lparr>Number = 1, IsSequence = False\<rparr>,
               Coa = coa\<lparr>CauseOfTransmission.Cause := Request\<rparr>,
               OrigAddr = 0, CommonAddr = ca\<rparr>"
  have "Params_Valid (ASDU.Params ?u) = None" using assms(1) by (simp add: NewASDU_def)
  from AppendInfoObjAddr_fits [OF this, of "ioa"] assms show ?thesis
    by (auto simp add: ReadCmd_def Let_def InfoObjAddrIrrelevant_def)
qed

lemma ClockSynchronizationCmd_cases:
  "ClockSynchronizationCmd c coa ca t = (Some ErrParam, c)
   \<or> ClockSynchronizationCmd c coa ca t = (Some ErrInfoObjAddrFit, c)
   \<or> (\<exists>u. ClockSynchronizationCmd c coa ca t = Send c u
          \<and> Identifier u =
               \<lparr>Type = C_CS_NA_1, Variable = \<lparr>Number = 1, IsSequence = False\<rparr>,
                Coa = coa\<lparr>CauseOfTransmission.Cause := Activation\<rparr>,
                OrigAddr = 0, CommonAddr = ca\<rparr>)"
proof (cases "Params_Valid (cParams c)")
  case (Some e)
  then show ?thesis
    using Params_Valid_Some [OF Some] by (simp add: ClockSynchronizationCmd_def)
next
  case None
  let ?u = "NewASDU (cParams c)
              \<lparr>Type = C_CS_NA_1, Variable = \<lparr>Number = 1, IsSequence = False\<rparr>,
               Coa = coa\<lparr>CauseOfTransmission.Cause := Activation\<rparr>,
               OrigAddr = 0, CommonAddr = ca\<rparr>"
  from AppendInfoObjAddr_cases [of ?u "InfoObjAddrIrrelevant"] None show ?thesis
    by (auto simp add: ClockSynchronizationCmd_def Let_def NewASDU_def AppendBytes_def)
qed

lemma ClockSynchronizationCmd_sends:
  assumes "Params_Valid (cParams c) = None"
  shows "\<exists>u. ClockSynchronizationCmd c coa ca t = Send c u"
proof -
  let ?u = "NewASDU (cParams c)
              \<lparr>Type = C_CS_NA_1, Variable = \<lparr>Number = 1, IsSequence = False\<rparr>,
               Coa = coa\<lparr>CauseOfTransmission.Cause := Activation\<rparr>,
               OrigAddr = 0, CommonAddr = ca\<rparr>"
  have "Params_Valid (ASDU.Params ?u) = None" using assms(1) by (simp add: NewASDU_def)
  from AppendInfoObjAddr_fits [OF this, of "InfoObjAddrIrrelevant"] assms show ?thesis
    by (auto simp add: ClockSynchronizationCmd_def Let_def InfoObjAddrIrrelevant_def)
qed

lemma TestCommand_cases:
  "TestCommand c coa ca = (Some ErrParam, c)
   \<or> TestCommand c coa ca = (Some ErrInfoObjAddrFit, c)
   \<or> (\<exists>u. TestCommand c coa ca = Send c u
          \<and> Identifier u =
               \<lparr>Type = C_TS_NA_1, Variable = \<lparr>Number = 1, IsSequence = False\<rparr>,
                Coa = coa\<lparr>CauseOfTransmission.Cause := Activation\<rparr>,
                OrigAddr = 0, CommonAddr = ca\<rparr>)"
proof (cases "Params_Valid (cParams c)")
  case (Some e)
  then show ?thesis
    using Params_Valid_Some [OF Some] by (simp add: TestCommand_def)
next
  case None
  let ?u = "NewASDU (cParams c)
              \<lparr>Type = C_TS_NA_1, Variable = \<lparr>Number = 1, IsSequence = False\<rparr>,
               Coa = coa\<lparr>CauseOfTransmission.Cause := Activation\<rparr>,
               OrigAddr = 0, CommonAddr = ca\<rparr>"
  from AppendInfoObjAddr_cases [of ?u "InfoObjAddrIrrelevant"] None show ?thesis
    by (auto simp add: TestCommand_def Let_def NewASDU_def AppendBytes_def)
qed

lemma TestCommand_sends:
  assumes "Params_Valid (cParams c) = None"
  shows "\<exists>u. TestCommand c coa ca = Send c u"
proof -
  let ?u = "NewASDU (cParams c)
              \<lparr>Type = C_TS_NA_1, Variable = \<lparr>Number = 1, IsSequence = False\<rparr>,
               Coa = coa\<lparr>CauseOfTransmission.Cause := Activation\<rparr>,
               OrigAddr = 0, CommonAddr = ca\<rparr>"
  have "Params_Valid (ASDU.Params ?u) = None" using assms(1) by (simp add: NewASDU_def)
  from AppendInfoObjAddr_fits [OF this, of "InfoObjAddrIrrelevant"] assms show ?thesis
    by (auto simp add: TestCommand_def Let_def InfoObjAddrIrrelevant_def)
qed

lemma ResetProcessCmd_cases:
  "ResetProcessCmd c coa ca qrp = (Some ErrParam, c)
   \<or> ResetProcessCmd c coa ca qrp = (Some ErrInfoObjAddrFit, c)
   \<or> (\<exists>u. ResetProcessCmd c coa ca qrp = Send c u
          \<and> Identifier u =
               \<lparr>Type = C_RP_NA_1, Variable = \<lparr>Number = 1, IsSequence = False\<rparr>,
                Coa = coa\<lparr>CauseOfTransmission.Cause := Activation\<rparr>,
                OrigAddr = 0, CommonAddr = ca\<rparr>)"
proof (cases "Params_Valid (cParams c)")
  case (Some e)
  then show ?thesis
    using Params_Valid_Some [OF Some] by (simp add: ResetProcessCmd_def)
next
  case None
  let ?u = "NewASDU (cParams c)
              \<lparr>Type = C_RP_NA_1, Variable = \<lparr>Number = 1, IsSequence = False\<rparr>,
               Coa = coa\<lparr>CauseOfTransmission.Cause := Activation\<rparr>,
               OrigAddr = 0, CommonAddr = ca\<rparr>"
  from AppendInfoObjAddr_cases [of ?u "InfoObjAddrIrrelevant"] None show ?thesis
    by (auto simp add: ResetProcessCmd_def Let_def NewASDU_def AppendBytes_def)
qed

lemma ResetProcessCmd_sends:
  assumes "Params_Valid (cParams c) = None"
  shows "\<exists>u. ResetProcessCmd c coa ca qrp = Send c u"
proof -
  let ?u = "NewASDU (cParams c)
              \<lparr>Type = C_RP_NA_1, Variable = \<lparr>Number = 1, IsSequence = False\<rparr>,
               Coa = coa\<lparr>CauseOfTransmission.Cause := Activation\<rparr>,
               OrigAddr = 0, CommonAddr = ca\<rparr>"
  have "Params_Valid (ASDU.Params ?u) = None" using assms(1) by (simp add: NewASDU_def)
  from AppendInfoObjAddr_fits [OF this, of "InfoObjAddrIrrelevant"] assms show ?thesis
    by (auto simp add: ResetProcessCmd_def Let_def InfoObjAddrIrrelevant_def)
qed

lemma DelayAcquireCommand_rejects:
  assumes "CauseOfTransmission.Cause coa \<notin> {Spontaneous, Activation}"
  shows "DelayAcquireCommand c coa ca msec = (Some ErrCmdCause, c)"
  using assms by (simp add: DelayAcquireCommand_def)

lemma DelayAcquireCommand_cases:
  assumes "CauseOfTransmission.Cause coa \<in> {Spontaneous, Activation}"
  shows "DelayAcquireCommand c coa ca msec = (Some ErrParam, c)
   \<or> DelayAcquireCommand c coa ca msec = (Some ErrInfoObjAddrFit, c)
   \<or> (\<exists>u. DelayAcquireCommand c coa ca msec = Send c u
          \<and> Identifier u =
               \<lparr>Type = C_CD_NA_1, Variable = \<lparr>Number = 1, IsSequence = False\<rparr>,
                Coa = coa, OrigAddr = 0, CommonAddr = ca\<rparr>)"
proof (cases "Params_Valid (cParams c)")
  case (Some e)
  then show ?thesis
    using Params_Valid_Some [OF Some] assms by (auto simp add: DelayAcquireCommand_def)
next
  case None
  let ?u = "NewASDU (cParams c)
              \<lparr>Type = C_CD_NA_1, Variable = \<lparr>Number = 1, IsSequence = False\<rparr>,
               Coa = coa, OrigAddr = 0, CommonAddr = ca\<rparr>"
  from AppendInfoObjAddr_cases [of ?u InfoObjAddrIrrelevant] None assms show ?thesis
    by (auto simp add: DelayAcquireCommand_def Let_def NewASDU_def AppendCP16Time2a_def)
qed

lemma DelayAcquireCommand_sends:
  assumes "CauseOfTransmission.Cause coa \<in> {Spontaneous, Activation}"
    and "Params_Valid (cParams c) = None"
  shows "\<exists>u. DelayAcquireCommand c coa ca msec = Send c u"
proof -
  let ?u = "NewASDU (cParams c)
              \<lparr>Type = C_CD_NA_1, Variable = \<lparr>Number = 1, IsSequence = False\<rparr>,
               Coa = coa, OrigAddr = 0, CommonAddr = ca\<rparr>"
  have "Params_Valid (ASDU.Params ?u) = None" using assms(2) by (simp add: NewASDU_def)
  from AppendInfoObjAddr_fits [OF this, of "InfoObjAddrIrrelevant"] assms show ?thesis
    by (auto simp add: DelayAcquireCommand_def Let_def InfoObjAddrIrrelevant_def)
qed

text \<open>What each outcome of a builder means for its error and for what it handed over.\<close>

lemma outcome_not_ErrCmdCause:
  assumes "r = (Some ErrParam, c) \<or> r = (Some ErrInfoObjAddrFit, c)
           \<or> (\<exists>u. r = Send c u \<and> Identifier u = i)"
  shows "fst r \<noteq> Some ErrCmdCause"
  using assms by auto

lemma outcome_handed:
  assumes "r = (Some ErrParam, c) \<or> r = (Some ErrInfoObjAddrFit, c)
           \<or> (\<exists>u. r = Send c u \<and> Identifier u = i)"
  shows "\<forall>u \<in> set (handed c r). Identifier u = i"
  using assms by auto

lemma sends_handed_one:
  assumes "\<exists>u. r = Send c u"
  shows "length (handed c r) = 1"
  using assms by auto


text \<open>
  Claim C2, as amended. For every cause of transmission the caller supplies, each of
  \<open>CounterInterrogationCmd\<close>, \<open>ReadCmd\<close>, \<open>ClockSynchronizationCmd\<close>, \<open>TestCommand\<close> and
  \<open>ResetProcessCmd\<close> never returns \<open>ErrCmdCause\<close>, and the ASDU it hands to \<open>Send\<close>
  (it hands one whenever the parameters are valid and, for \<open>ReadCmd\<close>, the address fits)
  has the cause the protocol mandates: \<open>Request\<close> for read, \<open>Activation\<close> for the others.
  \<open>DelayAcquireCommand\<close> does not overwrite the cause: it returns \<open>ErrCmdCause\<close>, with
  nothing handed to \<open>Send\<close>, unless the cause is \<open>Spontaneous\<close> or \<open>Activation\<close>; with
  one of these two causes it hands an ASDU to \<open>Send\<close> whenever the parameters are valid,
  and the ASDU it hands over carries the cause of transmission as the caller gave it.
\<close>

theorem system_commands_cause:
  "fst (CounterInterrogationCmd c coa ca qcc) \<noteq> Some ErrCmdCause
   \<and> (\<forall>u \<in> set (handed c (CounterInterrogationCmd c coa ca qcc)).
        CauseOfTransmission.Cause (Coa (Identifier u)) = Activation)
   \<and> fst (ReadCmd c coa ca ioa) \<noteq> Some ErrCmdCause
   \<and> (\<forall>u \<in> set (handed c (ReadCmd c coa ca ioa)).
        CauseOfTransmission.Cause (Coa (Identifier u)) = Request)
   \<and> fst (ClockSynchronizationCmd c coa ca t) \<noteq> Some ErrCmdCause
   \<and> (\<forall>u \<in> set (handed c (ClockSynchronizationCmd c coa ca t)).
        CauseOfTransmission.Cause (Coa (Identifier u)) = Activation)
   \<and> fst (TestCommand c coa ca) \<noteq> Some ErrCmdCause
   \<and> (\<forall>u \<in> set (handed c (TestCommand c coa ca)).
        CauseOfTransmission.Cause (Coa (Identifier u)) = Activation)
   \<and> fst (ResetProcessCmd c coa ca qrp) \<noteq> Some ErrCmdCause
   \<and> (\<forall>u \<in> set (handed c (ResetProcessCmd c coa ca qrp)).
        CauseOfTransmission.Cause (Coa (Identifier u)) = Activation)
   \<and> (Params_Valid (cParams c) = None \<longrightarrow>
        length (handed c (CounterInterrogationCmd c coa ca qcc)) = 1
        \<and> (ioa \<le> 255 \<longrightarrow> length (handed c (ReadCmd c coa ca ioa)) = 1)
        \<and> length (handed c (ClockSynchronizationCmd c coa ca t)) = 1
        \<and> length (handed c (TestCommand c coa ca)) = 1
        \<and> length (handed c (ResetProcessCmd c coa ca qrp)) = 1)
   \<and> (CauseOfTransmission.Cause coa \<notin> {Spontaneous, Activation} \<longrightarrow>
        DelayAcquireCommand c coa ca msec = (Some ErrCmdCause, c))
   \<and> (CauseOfTransmission.Cause coa \<in> {Spontaneous, Activation} \<longrightarrow>
        fst (DelayAcquireCommand c coa ca msec) \<noteq> Some ErrCmdCause)
   \<and> (\<forall>u \<in> set (handed c (DelayAcquireCommand c coa ca msec)). Coa (Identifier u) = coa)
   \<and> (CauseOfTransmission.Cause coa \<in> {Spontaneous, Activation}
        \<and> Params_Valid (cParams c) = None \<longrightarrow>
        length (handed c (DelayAcquireCommand c coa ca msec)) = 1)"
proof -
  have e0: "fst (CounterInterrogationCmd c coa ca qcc) \<noteq> Some ErrCmdCause"
    by (rule outcome_not_ErrCmdCause [OF CounterInterrogationCmd_cases])
  have h0: "\<forall>u \<in> set (handed c (CounterInterrogationCmd c coa ca qcc)).
        CauseOfTransmission.Cause (Coa (Identifier u)) = Activation"
    using outcome_handed [OF CounterInterrogationCmd_cases, of c coa ca qcc] by simp
  have e1: "fst (ReadCmd c coa ca ioa) \<noteq> Some ErrCmdCause"
    by (rule outcome_not_ErrCmdCause [OF ReadCmd_cases])
  have h1: "\<forall>u \<in> set (handed c (ReadCmd c coa ca ioa)).
        CauseOfTransmission.Cause (Coa (Identifier u)) = Request"
    using outcome_handed [OF ReadCmd_cases, of c coa ca ioa] by simp
  have e2: "fst (ClockSynchronizationCmd c coa ca t) \<noteq> Some ErrCmdCause"
    by (rule outcome_not_ErrCmdCause [OF ClockSynchronizationCmd_cases])
  have h2: "\<forall>u \<in> set (handed c (ClockSynchronizationCmd c coa ca t)).
        CauseOfTransmission.Cause (Coa (Identifier u)) = Activation"
    using outcome_handed [OF ClockSynchronizationCmd_cases, of c coa ca t] by simp
  have e3: "fst (TestCommand c coa ca) \<noteq> Some ErrCmdCause"
    by (rule outcome_not_ErrCmdCause [OF TestCommand_cases])
  have h3: "\<forall>u \<in> set (handed c (TestCommand c coa ca)).
        CauseOfTransmission.Cause (Coa (Identifier u)) = Activation"
    using outcome_handed [OF TestCommand_cases, of c coa ca] by simp
  have e4: "fst (ResetProcessCmd c coa ca qrp) \<noteq> Some ErrCmdCause"
    by (rule outcome_not_ErrCmdCause [OF ResetProcessCmd_cases])
  have h4: "\<forall>u \<in> set (handed c (ResetProcessCmd c coa ca qrp)).
        CauseOfTransmission.Cause (Coa (Identifier u)) = Activation"
    using outcome_handed [OF ResetProcessCmd_cases, of c coa ca qrp] by simp
  have s: "Params_Valid (cParams c) = None \<longrightarrow>
        length (handed c (CounterInterrogationCmd c coa ca qcc)) = 1
        \<and> (ioa \<le> 255 \<longrightarrow> length (handed c (ReadCmd c coa ca ioa)) = 1)
        \<and> length (handed c (ClockSynchronizationCmd c coa ca t)) = 1
        \<and> length (handed c (TestCommand c coa ca)) = 1
        \<and> length (handed c (ResetProcessCmd c coa ca qrp)) = 1"
    by (intro impI conjI sends_handed_one CounterInterrogationCmd_sends ReadCmd_sends
        ClockSynchronizationCmd_sends TestCommand_sends ResetProcessCmd_sends)
  have d1: "CauseOfTransmission.Cause coa \<notin> {Spontaneous, Activation} \<longrightarrow>
        DelayAcquireCommand c coa ca msec = (Some ErrCmdCause, c)"
    using DelayAcquireCommand_rejects by blast
  have d2: "CauseOfTransmission.Cause coa \<in> {Spontaneous, Activation} \<longrightarrow>
        fst (DelayAcquireCommand c coa ca msec) \<noteq> Some ErrCmdCause"
    using outcome_not_ErrCmdCause [OF DelayAcquireCommand_cases] by blast
  have d3: "\<forall>u \<in> set (handed c (DelayAcquireCommand c coa ca msec)). Coa (Identifier u) = coa"
  proof (cases "CauseOfTransmission.Cause coa \<in> {Spontaneous, Activation}")
    case True
    from outcome_handed [OF DelayAcquireCommand_cases [OF True], of c ca msec]
    show ?thesis by simp
  next
    case False
    then show ?thesis using DelayAcquireCommand_rejects [of coa c ca msec] by simp
  qed
  have d4: "CauseOfTransmission.Cause coa \<in> {Spontaneous, Activation}
        \<and> Params_Valid (cParams c) = None \<longrightarrow>
        length (handed c (DelayAcquireCommand c coa ca msec)) = 1"
    using sends_handed_one [OF DelayAcquireCommand_sends] by blast
  from e0 h0 e1 h1 e2 h2 e3 h3 e4 h4 s d1 d2 d3 d4 show ?thesis by blast
qed

theorem system_commands_cause_witness:
  "Params_Valid (cParams \<lparr>cParams = \<lparr>CauseSize = 2, CommonAddrSize = 2, InfoObjAddrSize = 3\<rparr>,
        cAnswer = (\<lambda>_ _. None), cSent = []\<rparr>) = None
   \<and> map (\<lambda>u. CauseOfTransmission.Cause (Coa (Identifier u)))
        (handed \<lparr>cParams = \<lparr>CauseSize = 2, CommonAddrSize = 2, InfoObjAddrSize = 3\<rparr>,
        cAnswer = (\<lambda>_ _. None), cSent = []\<rparr>
          (CounterInterrogationCmd \<lparr>cParams = \<lparr>CauseSize = 2, CommonAddrSize = 2, InfoObjAddrSize = 3\<rparr>,
        cAnswer = (\<lambda>_ _. None), cSent = []\<rparr>
             \<lparr>IsTest = False, IsNegative = False, Cause = Request\<rparr> 1
             \<lparr>QualifierCountCall.Request = 5, Freeze = 0\<rparr>)) = [Activation]
   \<and> (7 :: InfoObjAddr) \<le> 255
   \<and> map (\<lambda>u. CauseOfTransmission.Cause (Coa (Identifier u)))
        (handed \<lparr>cParams = \<lparr>CauseSize = 2, CommonAddrSize = 2, InfoObjAddrSize = 3\<rparr>,
        cAnswer = (\<lambda>_ _. None), cSent = []\<rparr>
          (ReadCmd \<lparr>cParams = \<lparr>CauseSize = 2, CommonAddrSize = 2, InfoObjAddrSize = 3\<rparr>,
        cAnswer = (\<lambda>_ _. None), cSent = []\<rparr>
             \<lparr>IsTest = False, IsNegative = False, Cause = Activation\<rparr> 1 7)) = [Request]
   \<and> CauseOfTransmission.Cause \<lparr>IsTest = False, IsNegative = False, Cause = Request\<rparr>
        \<notin> {Spontaneous, Activation}
   \<and> handed \<lparr>cParams = \<lparr>CauseSize = 2, CommonAddrSize = 2, InfoObjAddrSize = 3\<rparr>,
        cAnswer = (\<lambda>_ _. None), cSent = []\<rparr>
        (DelayAcquireCommand \<lparr>cParams = \<lparr>CauseSize = 2, CommonAddrSize = 2, InfoObjAddrSize = 3\<rparr>,
        cAnswer = (\<lambda>_ _. None), cSent = []\<rparr>
           \<lparr>IsTest = False, IsNegative = False, Cause = Request\<rparr> 1 5) = []
   \<and> CauseOfTransmission.Cause \<lparr>IsTest = False, IsNegative = False, Cause = Spontaneous\<rparr>
        \<in> {Spontaneous, Activation}
   \<and> map (\<lambda>u. CauseOfTransmission.Cause (Coa (Identifier u)))
        (handed \<lparr>cParams = \<lparr>CauseSize = 2, CommonAddrSize = 2, InfoObjAddrSize = 3\<rparr>,
        cAnswer = (\<lambda>_ _. None), cSent = []\<rparr>
          (DelayAcquireCommand \<lparr>cParams = \<lparr>CauseSize = 2, CommonAddrSize = 2, InfoObjAddrSize = 3\<rparr>,
        cAnswer = (\<lambda>_ _. None), cSent = []\<rparr>
             \<lparr>IsTest = False, IsNegative = False, Cause = Spontaneous\<rparr> 1 5))
       = [Spontaneous]"
  using system_commands_cause
      [of "\<lparr>cParams = \<lparr>CauseSize = 2, CommonAddrSize = 2, InfoObjAddrSize = 3\<rparr>,
        cAnswer = (\<lambda>_ _. None), cSent = []\<rparr>"
          "\<lparr>IsTest = False, IsNegative = False, Cause = Request\<rparr>" 1
          "\<lparr>QualifierCountCall.Request = 5, Freeze = 0\<rparr>" 7 zeroTime 0 5]
    system_commands_cause
      [of "\<lparr>cParams = \<lparr>CauseSize = 2, CommonAddrSize = 2, InfoObjAddrSize = 3\<rparr>,
        cAnswer = (\<lambda>_ _. None), cSent = []\<rparr>"
          "\<lparr>IsTest = False, IsNegative = False, Cause = Spontaneous\<rparr>" 1
          "\<lparr>QualifierCountCall.Request = 5, Freeze = 0\<rparr>" 7 zeroTime 0 5]
  by (simp add: CounterInterrogationCmd_def ReadCmd_def DelayAcquireCommand_def
      Params_Valid_def NewASDU_def AppendInfoObjAddr_def AppendBytes_def
      AppendCP16Time2a_def InfoObjAddrIrrelevant_def Send_def handed_def rsh_def
      QualifierCountCall_Value_def CP56Time2a_def zeroTime_def FBPTestWord_def lsh_def
      Cause_defs)

text \<open>
  The claim as it was stated has \<open>DelayAcquireCommand\<close> overwrite the cause and never
  return \<open>ErrCmdCause\<close>. Called with the cause \<open>Request\<close> on a connection with valid
  parameters it returns \<open>ErrCmdCause\<close> and hands nothing to \<open>Send\<close>.
\<close>

theorem DelayAcquireCommand_Request_counterexample:
  "DelayAcquireCommand \<lparr>cParams = \<lparr>CauseSize = 2, CommonAddrSize = 2, InfoObjAddrSize = 3\<rparr>,
        cAnswer = (\<lambda>_ _. None), cSent = []\<rparr>
     \<lparr>IsTest = False, IsNegative = False, Cause = Request\<rparr> 1 5
   = (Some ErrCmdCause, \<lparr>cParams = \<lparr>CauseSize = 2, CommonAddrSize = 2, InfoObjAddrSize = 3\<rparr>,
        cAnswer = (\<lambda>_ _. None), cSent = []\<rparr>)"
  by (simp add: DelayAcquireCommand_def Cause_defs)

text \<open>
  Claim C10. The commands that overwrite the cause of transmission
  (\<open>CounterInterrogationCmd\<close>, \<open>ReadCmd\<close>, \<open>ClockSynchronizationCmd\<close>, \<open>TestCommand\<close>,
  \<open>ResetProcessCmd\<close>) change only the \<open>Cause\<close> field of the cause of transmission the
  caller supplies: in the identifier of the ASDU handed to \<open>Send\<close> (one is handed over
  whenever the parameters are valid and, for \<open>ReadCmd\<close>, the address fits) the cause of
  transmission is the caller's with \<open>Cause\<close> replaced, so \<open>IsTest\<close> and \<open>IsNegative\<close> are
  the caller's.
\<close>

theorem system_commands_keep_flags:
  "(\<forall>u \<in> set (handed c (CounterInterrogationCmd c coa ca qcc)).
        Coa (Identifier u) = coa\<lparr>CauseOfTransmission.Cause := Activation\<rparr>
        \<and> IsTest (Coa (Identifier u)) = IsTest coa
        \<and> IsNegative (Coa (Identifier u)) = IsNegative coa)
   \<and> (\<forall>u \<in> set (handed c (ReadCmd c coa ca ioa)).
        Coa (Identifier u) = coa\<lparr>CauseOfTransmission.Cause := Request\<rparr>
        \<and> IsTest (Coa (Identifier u)) = IsTest coa
        \<and> IsNegative (Coa (Identifier u)) = IsNegative coa)
   \<and> (\<forall>u \<in> set (handed c (ClockSynchronizationCmd c coa ca t)).
        Coa (Identifier u) = coa\<lparr>CauseOfTransmission.Cause := Activation\<rparr>
        \<and> IsTest (Coa (Identifier u)) = IsTest coa
        \<and> IsNegative (Coa (Identifier u)) = IsNegative coa)
   \<and> (\<forall>u \<in> set (handed c (TestCommand c coa ca)).
        Coa (Identifier u) = coa\<lparr>CauseOfTransmission.Cause := Activation\<rparr>
        \<and> IsTest (Coa (Identifier u)) = IsTest coa
        \<and> IsNegative (Coa (Identifier u)) = IsNegative coa)
   \<and> (\<forall>u \<in> set (handed c (ResetProcessCmd c coa ca qrp)).
        Coa (Identifier u) = coa\<lparr>CauseOfTransmission.Cause := Activation\<rparr>
        \<and> IsTest (Coa (Identifier u)) = IsTest coa
        \<and> IsNegative (Coa (Identifier u)) = IsNegative coa)
   \<and> (Params_Valid (cParams c) = None \<longrightarrow>
        length (handed c (CounterInterrogationCmd c coa ca qcc)) = 1
        \<and> (ioa \<le> 255 \<longrightarrow> length (handed c (ReadCmd c coa ca ioa)) = 1)
        \<and> length (handed c (ClockSynchronizationCmd c coa ca t)) = 1
        \<and> length (handed c (TestCommand c coa ca)) = 1
        \<and> length (handed c (ResetProcessCmd c coa ca qrp)) = 1)"
proof -
  have h0: "\<forall>u \<in> set (handed c (CounterInterrogationCmd c coa ca qcc)).
        Coa (Identifier u) = coa\<lparr>CauseOfTransmission.Cause := Activation\<rparr>
        \<and> IsTest (Coa (Identifier u)) = IsTest coa
        \<and> IsNegative (Coa (Identifier u)) = IsNegative coa"
    using outcome_handed [OF CounterInterrogationCmd_cases, of c coa ca qcc] by simp
  have h1: "\<forall>u \<in> set (handed c (ReadCmd c coa ca ioa)).
        Coa (Identifier u) = coa\<lparr>CauseOfTransmission.Cause := Request\<rparr>
        \<and> IsTest (Coa (Identifier u)) = IsTest coa
        \<and> IsNegative (Coa (Identifier u)) = IsNegative coa"
    using outcome_handed [OF ReadCmd_cases, of c coa ca ioa] by simp
  have h2: "\<forall>u \<in> set (handed c (ClockSynchronizationCmd c coa ca t)).
        Coa (Identifier u) = coa\<lparr>CauseOfTransmission.Cause := Activation\<rparr>
        \<and> IsTest (Coa (Identifier u)) = IsTest coa
        \<and> IsNegative (Coa (Identifier u)) = IsNegative coa"
    using outcome_handed [OF ClockSynchronizationCmd_cases, of c coa ca t] by simp
  have h3: "\<forall>u \<in> set (handed c (TestCommand c coa ca)).
        Coa (Identifier u) = coa\<lparr>CauseOfTransmission.Cause := Activation\<rparr>
        \<and> IsTest (Coa (Identifier u)) = IsTest coa
        \<and> IsNegative (Coa (Identifier u)) = IsNegative coa"
    using outcome_handed [OF TestCommand_cases, of c coa ca] by simp
  have h4: "\<forall>u \<in> set (handed c (ResetProcessCmd c coa ca qrp)).
        Coa (Identifier u) = coa\<lparr>CauseOfTransmission.Cause := Activation\<rparr>
        \<and> IsTest (Coa (Identifier u)) = IsTest coa
        \<and> IsNegative (Coa (Identifier u)) = IsNegative coa"
    using outcome_handed [OF ResetProcessCmd_cases, of c coa ca qrp] by simp
  have s: "Params_Valid (cParams c) = None \<longrightarrow>
        length (handed c (CounterInterrogationCmd c coa ca qcc)) = 1
        \<and> (ioa \<le> 255 \<longrightarrow> length (handed c (ReadCmd c coa ca ioa)) = 1)
        \<and> length (handed c (ClockSynchronizationCmd c coa ca t)) = 1
        \<and> length (handed c (TestCommand c coa ca)) = 1
        \<and> length (handed c (ResetProcessCmd c coa ca qrp)) = 1"
    by (intro impI conjI sends_handed_one CounterInterrogationCmd_sends ReadCmd_sends
        ClockSynchronizationCmd_sends TestCommand_sends ResetProcessCmd_sends)
  from h0 h1 h2 h3 h4 s show ?thesis by blast
qed

theorem system_commands_keep_flags_witness:
  "Params_Valid (cParams \<lparr>cParams = \<lparr>CauseSize = 2, CommonAddrSize = 2, InfoObjAddrSize = 3\<rparr>,
        cAnswer = (\<lambda>_ _. None), cSent = []\<rparr>) = None
   \<and> map (\<lambda>u. Coa (Identifier u))
        (handed \<lparr>cParams = \<lparr>CauseSize = 2, CommonAddrSize = 2, InfoObjAddrSize = 3\<rparr>,
        cAnswer = (\<lambda>_ _. None), cSent = []\<rparr>
          (TestCommand \<lparr>cParams = \<lparr>CauseSize = 2, CommonAddrSize = 2, InfoObjAddrSize = 3\<rparr>,
        cAnswer = (\<lambda>_ _. None), cSent = []\<rparr>
             \<lparr>IsTest = True, IsNegative = True, Cause = Spontaneous\<rparr> 1))
       = [\<lparr>IsTest = True, IsNegative = True, Cause = Activation\<rparr>]
   \<and> (7 :: InfoObjAddr) \<le> 255
   \<and> map (\<lambda>u. Coa (Identifier u))
        (handed \<lparr>cParams = \<lparr>CauseSize = 2, CommonAddrSize = 2, InfoObjAddrSize = 3\<rparr>,
        cAnswer = (\<lambda>_ _. None), cSent = []\<rparr>
          (ReadCmd \<lparr>cParams = \<lparr>CauseSize = 2, CommonAddrSize = 2, InfoObjAddrSize = 3\<rparr>,
        cAnswer = (\<lambda>_ _. None), cSent = []\<rparr>
             \<lparr>IsTest = True, IsNegative = False, Cause = Spontaneous\<rparr> 1 7))
       = [\<lparr>IsTest = True, IsNegative = False, Cause = Request\<rparr>]"
  using system_commands_keep_flags
      [of "\<lparr>cParams = \<lparr>CauseSize = 2, CommonAddrSize = 2, InfoObjAddrSize = 3\<rparr>,
        cAnswer = (\<lambda>_ _. None), cSent = []\<rparr>"
          "\<lparr>IsTest = True, IsNegative = True, Cause = Spontaneous\<rparr>" 1
          "\<lparr>QualifierCountCall.Request = 5, Freeze = 0\<rparr>" 7 zeroTime 0]
    system_commands_keep_flags
      [of "\<lparr>cParams = \<lparr>CauseSize = 2, CommonAddrSize = 2, InfoObjAddrSize = 3\<rparr>,
        cAnswer = (\<lambda>_ _. None), cSent = []\<rparr>"
          "\<lparr>IsTest = True, IsNegative = False, Cause = Spontaneous\<rparr>" 1
          "\<lparr>QualifierCountCall.Request = 5, Freeze = 0\<rparr>" 7 zeroTime 0]
  by (simp add: TestCommand_def ReadCmd_def
      Params_Valid_def NewASDU_def AppendInfoObjAddr_def AppendBytes_def
      AppendCP16Time2a_def InfoObjAddrIrrelevant_def Send_def handed_def rsh_def
      QualifierCountCall_Value_def CP56Time2a_def zeroTime_def FBPTestWord_def lsh_def
      Cause_defs)

section \<open>Sequence mode: one address, then the objects\<close>

subsection \<open>The decoder\<close>

lemma DecodeInfoObjAddr_ok:
  assumes "InfoObjAddrSize (ASDU.Params sf) = int w" and "w = 1 \<or> w = 2 \<or> w = 3"
    and "w \<le> length (infoObj sf)"
  shows "\<exists>a. DecodeInfoObjAddr sf = Inr (a, sf\<lparr>infoObj := drop w (infoObj sf)\<rparr>)"
  using assms by (auto simp add: DecodeInfoObjAddr_def)

text \<open>
  One round of the loop of \<open>GetSinglePoint\<close> in sequence mode: the object takes \<open>k\<close>
  bytes of the payload, 1, 4 or 8 by the type; after the first round the address is the
  previous one plus one.
\<close>

lemma GetSinglePoint_loop_next:
  assumes "IsSequence (Variable (Identifier sf))"
    and "Type (Identifier sf) = M_SP_NA_1 \<and> k = 1
         \<or> Type (Identifier sf) = M_SP_TA_1 \<and> k = 4
         \<or> Type (Identifier sf) = M_SP_TB_1 \<and> k = 8"
    and "k \<le> length (infoObj sf)"
  shows "GetSinglePoint_loop (Suc n) True a info sf
           = GetSinglePoint_loop n True (a + 1)
               (info @ [\<lparr>SinglePointInfo.Ioa = a + 1,
                          SinglePointInfo.Value = (infoObj sf ! 0 AND 0x01 = 0x01),
                          SinglePointInfo.Qds = infoObj sf ! 0 AND 0xf0,
                          SinglePointInfo.Time =
                            (if Type (Identifier sf) = M_SP_NA_1 then zeroTime
                             else if Type (Identifier sf) = M_SP_TA_1
                               then ParseCP24Time2a (drop 1 (infoObj sf))
                             else ParseCP56Time2a (drop 1 (infoObj sf)))\<rparr>])
               (sf\<lparr>infoObj := drop k (infoObj sf)\<rparr>)"
  using assms
  by (auto simp add: DecodeByte_def DecodeCP24Time2a_def DecodeCP56Time2a_def TypeID_defs)

lemma GetSinglePoint_loop_first:
  assumes "Type (Identifier sf) = M_SP_NA_1 \<and> k = 1
         \<or> Type (Identifier sf) = M_SP_TA_1 \<and> k = 4
         \<or> Type (Identifier sf) = M_SP_TB_1 \<and> k = 8"
    and "DecodeInfoObjAddr sf = Inr (a, sf\<lparr>infoObj := drop w (infoObj sf)\<rparr>)"
    and "w + k \<le> length (infoObj sf)"
  shows "GetSinglePoint_loop (Suc n) False x info sf
           = GetSinglePoint_loop n True a
               (info @ [\<lparr>SinglePointInfo.Ioa = a,
                          SinglePointInfo.Value = (infoObj sf ! w AND 0x01 = 0x01),
                          SinglePointInfo.Qds = infoObj sf ! w AND 0xf0,
                          SinglePointInfo.Time =
                            (if Type (Identifier sf) = M_SP_NA_1 then zeroTime
                             else if Type (Identifier sf) = M_SP_TA_1
                               then ParseCP24Time2a (drop (Suc w) (infoObj sf))
                             else ParseCP56Time2a (drop (Suc w) (infoObj sf)))\<rparr>])
               (sf\<lparr>infoObj := drop (k + w) (infoObj sf)\<rparr>)"
  using assms
  by (auto simp add: DecodeByte_def DecodeCP24Time2a_def DecodeCP56Time2a_def TypeID_defs)

lemma GetSinglePoint_loop_seq:
  assumes "IsSequence (Variable (Identifier sf))"
    and "Type (Identifier sf) = M_SP_NA_1 \<and> k = 1
         \<or> Type (Identifier sf) = M_SP_TA_1 \<and> k = 4
         \<or> Type (Identifier sf) = M_SP_TB_1 \<and> k = 8"
    and "n * k \<le> length (infoObj sf)"
  shows "\<exists>vs sf'. GetSinglePoint_loop n True a info sf = Inr (info @ vs, sf')
           \<and> length vs = n
           \<and> (\<forall>i<n. SinglePointInfo.Ioa (vs ! i) = a + 1 + of_nat i)"
  using assms
proof (induction n arbitrary: a info sf)
  case 0
  then show ?case by simp
next
  case (Suc n)
  let ?sf = "sf\<lparr>infoObj := drop k (infoObj sf)\<rparr>"
  from Suc.prems(3) have k: "k \<le> length (infoObj sf)" by simp
  from GetSinglePoint_loop_next [OF Suc.prems(1,2) k, of n a info]
  obtain v where v: "SinglePointInfo.Ioa v = a + 1"
    "GetSinglePoint_loop (Suc n) True a info sf
       = GetSinglePoint_loop n True (a + 1) (info @ [v]) ?sf"
    by (metis SinglePointInfo.select_convs(1))
  have "n * k \<le> length (infoObj ?sf)" using Suc.prems(3) by simp
  from Suc.IH [of ?sf "a + 1" "info @ [v]", OF _ _ this] Suc.prems(1,2)
  obtain vs sf' where vs:
    "GetSinglePoint_loop n True (a + 1) (info @ [v]) ?sf = Inr ((info @ [v]) @ vs, sf')"
    "length vs = n" "\<forall>i<n. SinglePointInfo.Ioa (vs ! i) = a + 1 + 1 + of_nat i"
    by auto
  have "\<forall>i<Suc n. SinglePointInfo.Ioa ((v # vs) ! i) = a + 1 + of_nat i"
  proof (intro allI impI)
    fix i assume "i < Suc n"
    then show "SinglePointInfo.Ioa ((v # vs) ! i) = a + 1 + of_nat i"
      using v(1) vs(3) by (cases i) (simp_all add: algebra_simps)
  qed
  with v(2) vs(1,2) show ?case
    by (intro exI [of _ "v # vs"] exI [of _ sf']) simp
qed

lemma GetSinglePoint_seq:
  assumes seq: "IsSequence (Variable (Identifier sf))"
    and ty: "Type (Identifier sf) = M_SP_NA_1 \<and> k = 1
         \<or> Type (Identifier sf) = M_SP_TA_1 \<and> k = 4
         \<or> Type (Identifier sf) = M_SP_TB_1 \<and> k = 8"
    and w: "InfoObjAddrSize (ASDU.Params sf) = int w" "w = 1 \<or> w = 2 \<or> w = 3"
    and len: "w + unat (Number (Variable (Identifier sf))) * k \<le> length (infoObj sf)"
  shows "\<exists>a rest infos sf'. DecodeInfoObjAddr sf = Inr (a, rest)
           \<and> GetSinglePoint sf = Inr (infos, sf')
           \<and> length infos = unat (Number (Variable (Identifier sf)))
           \<and> (\<forall>i < unat (Number (Variable (Identifier sf))).
                 SinglePointInfo.Ioa (infos ! i) = a + of_nat i)"
proof -
  let ?N = "unat (Number (Variable (Identifier sf)))"
  have "w \<le> length (infoObj sf)" using len by simp
  from DecodeInfoObjAddr_ok [OF w this]
  obtain a where a: "DecodeInfoObjAddr sf = Inr (a, sf\<lparr>infoObj := drop w (infoObj sf)\<rparr>)"
    by blast
  show ?thesis
  proof (cases ?N)
    case 0
    then show ?thesis using a by (simp add: GetSinglePoint_def)
  next
    case (Suc n)
    let ?sf = "sf\<lparr>infoObj := drop (k + w) (infoObj sf)\<rparr>"
    have wk: "w + k \<le> length (infoObj sf)" using len Suc by simp
    from GetSinglePoint_loop_first [OF ty a wk, of n 0 "[]"]
    obtain v where v: "SinglePointInfo.Ioa v = a"
      "GetSinglePoint_loop (Suc n) False 0 [] sf = GetSinglePoint_loop n True a [v] ?sf"
      by (metis SinglePointInfo.select_convs(1) append_Nil)
    have "n * k \<le> length (infoObj ?sf)" using len Suc by simp
    from GetSinglePoint_loop_seq [of ?sf k n a "[v]", OF _ _ this] seq ty
    obtain vs sf' where vs:
      "GetSinglePoint_loop n True a [v] ?sf = Inr ([v] @ vs, sf')"
      "length vs = n" "\<forall>i<n. SinglePointInfo.Ioa (vs ! i) = a + 1 + of_nat i"
      by auto
    have "\<forall>i<Suc n. SinglePointInfo.Ioa ((v # vs) ! i) = a + of_nat i"
    proof (intro allI impI)
      fix i assume "i < Suc n"
      then show "SinglePointInfo.Ioa ((v # vs) ! i) = a + of_nat i"
        using v(1) vs(3) by (cases i) (simp_all add: algebra_simps)
    qed
    with a v(2) vs(1,2) Suc show ?thesis
      by (intro exI [of _ a] exI [of _ "sf\<lparr>infoObj := drop w (infoObj sf)\<rparr>"]
          exI [of _ "v # vs"] exI [of _ sf']) (simp add: GetSinglePoint_def)
  qed
qed

subsection \<open>The encoder\<close>

lemma AppendBytes_AppendBytes [simp]: "AppendBytes (AppendBytes u a) b = AppendBytes u (a @ b)"
  by (simp add: AppendBytes_def)

lemma single_body_bytes:
  assumes "typeID = M_SP_NA_1 \<or> typeID = M_SP_TA_1 \<or> typeID = M_SP_TB_1"
  shows "single_body typeID v u =
           Inr (AppendBytes u
                  ([(if SinglePointInfo.Value v then 0x01 else 0x00)
                      OR (SinglePointInfo.Qds v AND 0xf0)]
                   @ (if typeID = M_SP_TA_1 then CP24Time2a (SinglePointInfo.Time v)
                      else if typeID = M_SP_TB_1 then CP56Time2a (SinglePointInfo.Time v)
                      else [])))"
  using assms by (auto simp add: single_body_def Let_def TypeID_defs)

text \<open>In sequence mode, once the address is written, the loop appends the objects only.\<close>

lemma range_infos_seq_rest:
  assumes "\<And>v u. body v u = Inr (AppendBytes u (f v))"
  shows "range_infos True ioa body True vs u = Inr (AppendBytes u (concat (map f vs)))"
proof (induction vs arbitrary: u)
  case Nil
  show ?case by (simp add: AppendBytes_def)
next
  case (Cons v vs)
  have "range_infos True ioa body True (v # vs) u
          = range_infos True ioa body True vs (AppendBytes u (f v))"
    by (simp add: assms [of v u])
  then show ?case by (simp add: Cons.IH)
qed

lemma range_infos_seq_first:
  assumes "\<And>v u. body v u = Inr (AppendBytes u (f v))"
  shows "range_infos True ioa body False (v # vs) u =
           (case AppendInfoObjAddr u (ioa v) of
              Inl err \<Rightarrow> Inl err
            | Inr u \<Rightarrow> Inr (AppendBytes u (concat (map f (v # vs)))))"
proof (cases "AppendInfoObjAddr u (ioa v)")
  case (Inl err)
  then show ?thesis by simp
next
  case (Inr u1)
  have "range_infos True ioa body False (v # vs) u
          = range_infos True ioa body True vs (AppendBytes u1 (f v))"
    by (simp add: Inr assms [of v u1])
  then show ?thesis
    by (simp add: Inr range_infos_seq_rest [of body f, OF assms])
qed

lemma AppendInfoObjAddr_bytes:
  assumes "AppendInfoObjAddr u a = Inr u'"
  shows "u' = AppendBytes u
                (take (nat (InfoObjAddrSize (ASDU.Params u)))
                   [ucast a, ucast (rsh a 8), ucast (rsh a 16)])"
  using assms by (auto simp add: AppendInfoObjAddr_def AppendBytes_def split: if_splits)

lemma checkValid_None:
  assumes "checkValid c typeID isSequence n = None"
  shows "n \<noteq> 0" and "Params_Valid (cParams c) = None"
  using assms
  by (auto simp add: checkValid_def Let_def split: if_splits sum.splits option.splits)

lemma IdentifierSize_valid:
  assumes "Params_Valid p = None"
  shows "IdentifierSize p \<le> 6"
  using assms unfolding Params_Valid_None_iff IdentifierSize_def by auto

lemma SetVariableNumber_fresh:
  assumes "Params_Valid p = None" and "0 \<le> n" and "n \<le> 127"
  shows "SetVariableNumber (NewASDU p i) n
           = (None, NewASDU p (i\<lparr>Variable := (Variable i)\<lparr>Number := of_int n\<rparr>\<rparr>))"
  using assms IdentifierSize_valid [OF assms(1)]
  by (simp add: SetVariableNumber_def NewASDU_def ASDUSizeMax_def)

lemma SetVariableNumber_cases:
  "SetVariableNumber u n = (Some ErrLengthOutOfRange, u)
   \<or> SetVariableNumber u n
       = (None, u\<lparr>Identifier :=
                    (Identifier u)\<lparr>Variable := (Variable (Identifier u))\<lparr>Number := of_int n\<rparr>\<rparr>\<rparr>)"
  by (simp add: SetVariableNumber_def)

lemma bit_byte_bound:
  fixes b :: byte
  assumes "bit b n"
  shows "n < 8"
  using bit_imp_le_length [OF assms] by simp

lemma DecodeInfoObjAddr_bound:
  assumes "DecodeInfoObjAddr sf = Inr (a, rest)"
  shows "unat a < 2 ^ 24"
proof -
  have "take_bit 24 a = a"
    using assms
    by (intro bit_word_eqI)
       (auto simp add: DecodeInfoObjAddr_def bit_simps bit_lsh split: if_splits
             dest!: bit_byte_bound)
  then have "unat a = take_bit 24 (unat a)"
    by (metis unsigned_take_bit_eq)
  then show ?thesis
    using take_bit_nat_less_exp [of 24 "unat a"] by simp
qed

lemma addr_bytes_disjoint:
  fixes b0 b1 b2 :: byte
  shows "lsh (ucast b1 :: InfoObjAddr) 8 AND lsh (ucast b2) 16 = 0"
    and "(ucast b0 :: InfoObjAddr) AND lsh (ucast b1) 8 = 0"
    and "(ucast b0 :: InfoObjAddr) AND (lsh (ucast b1) 8 OR lsh (ucast b2) 16) = 0"
  by (rule bit_word_eqI; auto simp add: bit_simps bit_lsh dest!: bit_byte_bound)+

lemma unat_byte_at:
  fixes b :: byte
  shows "unat (ucast b :: InfoObjAddr) = unat b"
    and "unat (lsh (ucast b :: InfoObjAddr) 8) = 256 * unat b"
    and "unat (lsh (ucast b :: InfoObjAddr) 16) = 65536 * unat b"
proof -
  have b: "unat b < 256" using unsigned_less [of b] by simp
  show u: "unat (ucast b :: InfoObjAddr) = unat b"
    using b by (simp add: unsigned_ucast_eq take_bit_nat_eq_self)
  show "unat (lsh (ucast b :: InfoObjAddr) 8) = 256 * unat b"
    using b by (simp add: lsh_def push_bit_eq_mult unat_word_ariths u)
  show "unat (lsh (ucast b :: InfoObjAddr) 16) = 65536 * unat b"
    using b by (simp add: lsh_def push_bit_eq_mult unat_word_ariths u)
qed

lemma addr_bytes_value:
  fixes b0 b1 b2 :: byte
  shows "unat ((ucast b0 :: InfoObjAddr) OR lsh (ucast b1) 8) = unat b0 + 256 * unat b1"
    and "unat ((ucast b0 :: InfoObjAddr) OR lsh (ucast b1) 8 OR lsh (ucast b2) 16)
           = unat b0 + 256 * unat b1 + 65536 * unat b2"
proof -
  have b: "unat b0 < 256" "unat b1 < 256" "unat b2 < 256"
    using unsigned_less [of b0] unsigned_less [of b1] unsigned_less [of b2] by simp_all
  have "(ucast b0 :: InfoObjAddr) OR lsh (ucast b1) 8 = ucast b0 + lsh (ucast b1) 8"
    by (rule disjunctive_add_eq_or [symmetric]) (rule addr_bytes_disjoint(2))
  then show "unat ((ucast b0 :: InfoObjAddr) OR lsh (ucast b1) 8) = unat b0 + 256 * unat b1"
    using b by (simp add: unat_word_ariths unat_byte_at)
  have "lsh (ucast b1 :: InfoObjAddr) 8 OR lsh (ucast b2) 16
          = lsh (ucast b1) 8 + lsh (ucast b2) 16"
    by (rule disjunctive_add_eq_or [symmetric]) (rule addr_bytes_disjoint(1))
  moreover have "(ucast b0 :: InfoObjAddr) OR (lsh (ucast b1) 8 OR lsh (ucast b2) 16)
          = ucast b0 + (lsh (ucast b1) 8 OR lsh (ucast b2) 16)"
    by (rule disjunctive_add_eq_or [symmetric]) (rule addr_bytes_disjoint(3))
  ultimately
  have "(ucast b0 :: InfoObjAddr) OR lsh (ucast b1) 8 OR lsh (ucast b2) 16
          = ucast b0 + (lsh (ucast b1) 8 + lsh (ucast b2) 16)"
    by simp
  then show "unat ((ucast b0 :: InfoObjAddr) OR lsh (ucast b1) 8 OR lsh (ucast b2) 16)
           = unat b0 + 256 * unat b1 + 65536 * unat b2"
    using b by (simp add: unat_word_ariths unat_byte_at)
qed

lemma DecodeInfoObjAddr_value:
  assumes "DecodeInfoObjAddr sf = Inr (a, rest)"
  shows "unat a =
           (if InfoObjAddrSize (ASDU.Params sf) = 1 then unat (infoObj sf ! 0)
            else if InfoObjAddrSize (ASDU.Params sf) = 2
              then unat (infoObj sf ! 0) + 256 * unat (infoObj sf ! 1)
            else unat (infoObj sf ! 0) + 256 * unat (infoObj sf ! 1)
                   + 65536 * unat (infoObj sf ! 2))"
    and "rest = sf\<lparr>infoObj := drop (nat (InfoObjAddrSize (ASDU.Params sf))) (infoObj sf)\<rparr>"
  using assms
  by (auto simp add: DecodeInfoObjAddr_def unat_byte_at(1) addr_bytes_value split: if_splits)

lemma unat_addr_plus:
  fixes a :: InfoObjAddr
  assumes "unat a < 2 ^ 24" and "i < 256"
  shows "unat (a + of_nat i) = unat a + i"
  using assms by (simp add: unat_word_ariths unat_of_nat)

lemma GetInfoObjSize_single_point:
  "GetInfoObjSize M_SP_NA_1 = Inr 1"
  "GetInfoObjSize M_SP_TA_1 = Inr 4"
  "GetInfoObjSize M_SP_TB_1 = Inr 8"
  by (simp_all add: GetInfoObjSize_def infoObjSize_def TypeID_defs)

lemma AppendInfoObjAddr_fits_width:
  assumes "Params_Valid (ASDU.Params u) = None"
    and "unat a < 2 ^ (8 * nat (InfoObjAddrSize (ASDU.Params u)))"
  shows "\<exists>u'. AppendInfoObjAddr u a = Inr u'"
  using assms unfolding AppendInfoObjAddr_def Params_Valid_None_iff
  by (auto simp add: word_less_nat_alt)

lemma single_unfold:
  assumes "checkValid c typeID s (int (length infos)) = None"
    and "SetVariableNumber
           (NewASDU (cParams c)
              \<lparr>Type = typeID, Variable = \<lparr>Number = 0, IsSequence = s\<rparr>,
               Coa = coa, OrigAddr = 0, CommonAddr = ca\<rparr>)
           (int (length infos)) = (e, u1)"
    and "range_infos s SinglePointInfo.Ioa (single_body typeID) False infos u1 = r"
  shows "single c typeID s coa ca infos =
           (case e of
              Some err \<Rightarrow> (Some err, c)
            | None \<Rightarrow> (case r of Inl err \<Rightarrow> (Some err, c) | Inr u \<Rightarrow> Send c u))"
  using assms by (simp add: single_def split: option.splits)

lemma single_seq_outcome:
  assumes ty: "typeID = M_SP_NA_1 \<or> typeID = M_SP_TA_1 \<or> typeID = M_SP_TB_1"
  shows "(\<exists>err. single c typeID True coa ca infos = (Some err, c))
   \<or> (\<exists>u. single c typeID True coa ca infos = Send c u
          \<and> Identifier u =
               \<lparr>Type = typeID,
                Variable = \<lparr>Number = of_nat (length infos), IsSequence = True\<rparr>,
                Coa = coa, OrigAddr = 0, CommonAddr = ca\<rparr>
          \<and> infoObj u =
               take (nat (InfoObjAddrSize (cParams c)))
                 [ucast (SinglePointInfo.Ioa (hd infos)),
                  ucast (rsh (SinglePointInfo.Ioa (hd infos)) 8),
                  ucast (rsh (SinglePointInfo.Ioa (hd infos)) 16)]
               @ concat (map (\<lambda>v. [(if SinglePointInfo.Value v then 0x01 else 0x00)
                                       OR (SinglePointInfo.Qds v AND 0xf0)]
                                    @ (if typeID = M_SP_TA_1
                                         then CP24Time2a (SinglePointInfo.Time v)
                                       else if typeID = M_SP_TB_1
                                         then CP56Time2a (SinglePointInfo.Time v)
                                       else [])) infos))"
proof (cases "checkValid c typeID True (int (length infos))")
  case (Some err)
  then show ?thesis by (simp add: single_def)
next
  case None
  define f where "f = (\<lambda>v :: SinglePointInfo. [(if SinglePointInfo.Value v then 0x01 else 0x00)
                      OR (SinglePointInfo.Qds v AND 0xf0)]
                   @ (if typeID = M_SP_TA_1 then CP24Time2a (SinglePointInfo.Time v)
                      else if typeID = M_SP_TB_1 then CP56Time2a (SinglePointInfo.Time v)
                      else []))"
  define u0 where "u0 = NewASDU (cParams c)
           \<lparr>Type = typeID, Variable = \<lparr>Number = 0, IsSequence = True\<rparr>,
            Coa = coa, OrigAddr = 0, CommonAddr = ca\<rparr>"
  define u1 where "u1 = u0\<lparr>Identifier :=
                 (Identifier u0)\<lparr>Variable :=
                    (Variable (Identifier u0))\<lparr>Number := of_int (int (length infos))\<rparr>\<rparr>\<rparr>"
  have u1_id: "Identifier u1 =
               \<lparr>Type = typeID,
                Variable = \<lparr>Number = of_nat (length infos), IsSequence = True\<rparr>,
                Coa = coa, OrigAddr = 0, CommonAddr = ca\<rparr>"
    and u1_obj: "infoObj u1 = []" and u1_par: "ASDU.Params u1 = cParams c"
    by (simp_all add: u1_def u0_def NewASDU_def)
  from checkValid_None(1) [OF None] obtain v vs where infos: "infos = v # vs"
    by (cases infos) auto
  have body: "\<And>v u. single_body typeID v u = Inr (AppendBytes u (f v))"
    unfolding f_def by (rule single_body_bytes [OF ty])
  have loop: "range_infos True SinglePointInfo.Ioa (single_body typeID) False infos u1 =
           (case AppendInfoObjAddr u1 (SinglePointInfo.Ioa v) of
              Inl err \<Rightarrow> Inl err
            | Inr u \<Rightarrow> Inr (AppendBytes u (concat (map f infos))))"
    unfolding infos by (rule range_infos_seq_first [OF body])
  from SetVariableNumber_cases [of u0 "int (length infos)"]
  show ?thesis
  proof
    assume sv: "SetVariableNumber u0 (int (length infos)) = (Some ErrLengthOutOfRange, u0)"
    have "single c typeID True coa ca infos = (Some ErrLengthOutOfRange, c)"
      using single_unfold [OF None sv [unfolded u0_def] refl] by simp
    then show ?thesis by blast
  next
    assume "SetVariableNumber u0 (int (length infos))
       = (None, u0\<lparr>Identifier :=
                    (Identifier u0)\<lparr>Variable :=
                       (Variable (Identifier u0))\<lparr>Number := of_int (int (length infos))\<rparr>\<rparr>\<rparr>)"
    then have sv: "SetVariableNumber u0 (int (length infos)) = (None, u1)"
      by (simp only: u1_def)
    note unf = single_unfold [OF None sv [unfolded u0_def] loop]
    show ?thesis
    proof (cases "AppendInfoObjAddr u1 (SinglePointInfo.Ioa v)")
      case (Inl err)
      have "single c typeID True coa ca infos = (Some err, c)"
        using unf by (simp add: Inl)
      then show ?thesis by blast
    next
      case (Inr u2)
      from AppendInfoObjAddr_bytes [OF Inr]
      have u2: "u2 = AppendBytes u1
                       (take (nat (InfoObjAddrSize (cParams c)))
                          [ucast (SinglePointInfo.Ioa v), ucast (rsh (SinglePointInfo.Ioa v) 8),
                           ucast (rsh (SinglePointInfo.Ioa v) 16)])"
        by (simp only: u1_par)
      have eq: "single c typeID True coa ca infos
              = Send c (AppendBytes u2 (concat (map f infos)))"
        using unf by (simp add: Inr)
      have "Identifier (AppendBytes u2 (concat (map f infos))) = Identifier u1"
        and "infoObj (AppendBytes u2 (concat (map f infos)))
              = take (nat (InfoObjAddrSize (cParams c)))
                          [ucast (SinglePointInfo.Ioa v), ucast (rsh (SinglePointInfo.Ioa v) 8),
                           ucast (rsh (SinglePointInfo.Ioa v) 16)] @ concat (map f infos)"
        unfolding u2 by (simp_all add: AppendBytes_def u1_obj)
      then show ?thesis
        using eq unfolding u1_id f_def infos list.sel by blast
    qed
  qed
qed

lemma single_seq_sends:
  assumes ty: "typeID = M_SP_NA_1 \<or> typeID = M_SP_TA_1 \<or> typeID = M_SP_TB_1"
    and cv: "checkValid c typeID True (int (length infos)) = None"
    and len: "length infos \<le> 127"
    and addr: "unat (SinglePointInfo.Ioa (hd infos))
                 < 2 ^ (8 * nat (InfoObjAddrSize (cParams c)))"
  shows "\<exists>u. single c typeID True coa ca infos = Send c u"
proof -
  define f where "f = (\<lambda>v :: SinglePointInfo. [(if SinglePointInfo.Value v then 0x01 else 0x00)
                      OR (SinglePointInfo.Qds v AND 0xf0)]
                   @ (if typeID = M_SP_TA_1 then CP24Time2a (SinglePointInfo.Time v)
                      else if typeID = M_SP_TB_1 then CP56Time2a (SinglePointInfo.Time v)
                      else []))"
  define i where "i = \<lparr>Type = typeID, Variable = \<lparr>Number = 0, IsSequence = True\<rparr>,
            Coa = coa, OrigAddr = 0, CommonAddr = ca\<rparr>"
  define u1 where
    "u1 = NewASDU (cParams c) (i\<lparr>Variable := (Variable i)\<lparr>Number := of_int (int (length infos))\<rparr>\<rparr>)"
  have valid: "Params_Valid (cParams c) = None"
    by (rule checkValid_None(2) [OF cv])
  have u1_par: "Params_Valid (ASDU.Params u1) = None"
    using valid by (simp add: u1_def NewASDU_def)
  have u1_fit: "unat (SinglePointInfo.Ioa (hd infos))
                  < 2 ^ (8 * nat (InfoObjAddrSize (ASDU.Params u1)))"
    using addr by (simp add: u1_def NewASDU_def)
  from checkValid_None(1) [OF cv] obtain v vs where infos: "infos = v # vs"
    by (cases infos) auto
  have sv: "SetVariableNumber (NewASDU (cParams c) i) (int (length infos)) = (None, u1)"
    unfolding u1_def using len by (intro SetVariableNumber_fresh [OF valid]) simp_all
  have body: "\<And>v u. single_body typeID v u = Inr (AppendBytes u (f v))"
    unfolding f_def by (rule single_body_bytes [OF ty])
  have loop: "range_infos True SinglePointInfo.Ioa (single_body typeID) False infos u1 =
           (case AppendInfoObjAddr u1 (SinglePointInfo.Ioa v) of
              Inl err \<Rightarrow> Inl err
            | Inr u \<Rightarrow> Inr (AppendBytes u (concat (map f infos))))"
    unfolding infos by (rule range_infos_seq_first [OF body])
  from AppendInfoObjAddr_fits_width [OF u1_par u1_fit]
  obtain u2 where app: "AppendInfoObjAddr u1 (SinglePointInfo.Ioa v) = Inr u2"
    unfolding infos list.sel by blast
  have "single c typeID True coa ca infos = Send c (AppendBytes u2 (concat (map f infos)))"
    using single_unfold [OF cv sv [unfolded i_def] loop] by (simp add: app)
  then show ?thesis by blast
qed

section \<open>Sequence mode of the single-point messages\<close>

text \<open>
  Claim C6. Take an ASDU in sequence mode (\<open>IsSequence\<close> set) of a single-point type
  (M_SP_NA_1, M_SP_TA_1 or M_SP_TB_1) whose payload holds the information object address
  and \<open>N\<close> objects of the size the table \<open>infoObjSize\<close> gives for the type, \<open>N\<close> being
  \<open>Variable.Number\<close>. The decoder \<open>GetSinglePoint\<close> returns exactly \<open>N\<close> records, and
  with \<open>a\<close> the address \<open>DecodeInfoObjAddr\<close> reads at the head of the payload, which is
  the number the first one, two or three payload bytes spell least significant byte first,
  the addresses of the records are \<open>a, a + 1, \<dots>, a + N - 1\<close> in this order, with no
  wrap-around.
  The encoder \<open>single\<close> called in sequence mode hands to \<open>Send\<close> only ASDUs in sequence
  mode, with \<open>Number\<close> the number of records, whose payload is the address of the first
  record, written once on as many bytes as the parameters say, followed by the objects
  one after the other with no address between them; it hands one over when \<open>checkValid\<close>
  admits the build, there are at most 127 records and the first address fits its width.
\<close>

theorem sequence_mode_addresses:
  assumes seq: "IsSequence (Variable (Identifier sf))"
    and ty: "Type (Identifier sf) \<in> {M_SP_NA_1, M_SP_TA_1, M_SP_TB_1}"
    and sz: "GetInfoObjSize (Type (Identifier sf)) = Inr k"
    and w: "InfoObjAddrSize (ASDU.Params sf) \<in> {1, 2, 3}"
    and len: "InfoObjAddrSize (ASDU.Params sf)
                + int (unat (Number (Variable (Identifier sf)))) * k
              \<le> int (length (infoObj sf))"
    and ety: "typeID \<in> {M_SP_NA_1, M_SP_TA_1, M_SP_TB_1}"
  shows "(\<exists>a rest infos sf'.
            DecodeInfoObjAddr sf = Inr (a, rest)
            \<and> unat a =
                (if InfoObjAddrSize (ASDU.Params sf) = 1 then unat (infoObj sf ! 0)
                 else if InfoObjAddrSize (ASDU.Params sf) = 2
                   then unat (infoObj sf ! 0) + 256 * unat (infoObj sf ! 1)
                 else unat (infoObj sf ! 0) + 256 * unat (infoObj sf ! 1)
                        + 65536 * unat (infoObj sf ! 2))
            \<and> GetSinglePoint sf = Inr (infos, sf')
            \<and> length infos = unat (Number (Variable (Identifier sf)))
            \<and> (\<forall>i < unat (Number (Variable (Identifier sf))).
                  SinglePointInfo.Ioa (infos ! i) = a + of_nat i
                  \<and> unat (SinglePointInfo.Ioa (infos ! i)) = unat a + i))
         \<and> (\<forall>u \<in> set (handed c (single c typeID True coa ca vs)).
               IsSequence (Variable (Identifier u))
               \<and> Number (Variable (Identifier u)) = of_nat (length vs)
               \<and> infoObj u =
                   take (nat (InfoObjAddrSize (cParams c)))
                     [ucast (SinglePointInfo.Ioa (hd vs)),
                      ucast (rsh (SinglePointInfo.Ioa (hd vs)) 8),
                      ucast (rsh (SinglePointInfo.Ioa (hd vs)) 16)]
                   @ concat (map (\<lambda>v. [(if SinglePointInfo.Value v then 0x01 else 0x00)
                                           OR (SinglePointInfo.Qds v AND 0xf0)]
                                        @ (if typeID = M_SP_TA_1
                                             then CP24Time2a (SinglePointInfo.Time v)
                                           else if typeID = M_SP_TB_1
                                             then CP56Time2a (SinglePointInfo.Time v)
                                           else [])) vs))
         \<and> (checkValid c typeID True (int (length vs)) = None
              \<and> length vs \<le> 127
              \<and> unat (SinglePointInfo.Ioa (hd vs)) < 2 ^ (8 * nat (InfoObjAddrSize (cParams c)))
              \<longrightarrow> length (handed c (single c typeID True coa ca vs)) = 1)"
proof (intro conjI)
  let ?N = "unat (Number (Variable (Identifier sf)))"
  define wn where "wn = nat (InfoObjAddrSize (ASDU.Params sf))"
  define kn where "kn = nat k"
  have wn: "InfoObjAddrSize (ASDU.Params sf) = int wn" "wn = 1 \<or> wn = 2 \<or> wn = 3"
    using w unfolding wn_def by auto
  have kn: "Type (Identifier sf) = M_SP_NA_1 \<and> kn = 1
         \<or> Type (Identifier sf) = M_SP_TA_1 \<and> kn = 4
         \<or> Type (Identifier sf) = M_SP_TB_1 \<and> kn = 8"
    and k: "k = int kn"
    using ty sz unfolding kn_def by (auto simp add: GetInfoObjSize_single_point)
  have "int (wn + ?N * kn) \<le> int (length (infoObj sf))"
    using len by (simp add: wn(1) k)
  then have len': "wn + ?N * kn \<le> length (infoObj sf)"
    by (simp only: of_nat_le_iff)
  from GetSinglePoint_seq [OF seq kn wn len']
  obtain a rest infos sf' where dec: "DecodeInfoObjAddr sf = Inr (a, rest)"
    and get: "GetSinglePoint sf = Inr (infos, sf')" "length infos = ?N"
    and ioa: "\<forall>i < ?N. SinglePointInfo.Ioa (infos ! i) = a + of_nat i"
    by blast
  have N: "?N < 256"
    using unsigned_less [of "Number (Variable (Identifier sf))"] by simp
  have "\<forall>i < ?N. SinglePointInfo.Ioa (infos ! i) = a + of_nat i
                  \<and> unat (SinglePointInfo.Ioa (infos ! i)) = unat a + i"
  proof (intro allI impI)
    fix i assume i: "i < ?N"
    then have "i < 256" using N by simp
    from unat_addr_plus [OF DecodeInfoObjAddr_bound [OF dec] this] ioa i
    show "SinglePointInfo.Ioa (infos ! i) = a + of_nat i
                  \<and> unat (SinglePointInfo.Ioa (infos ! i)) = unat a + i"
      by simp
  qed
  with dec get DecodeInfoObjAddr_value(1) [OF dec]
  show "\<exists>a rest infos sf'.
            DecodeInfoObjAddr sf = Inr (a, rest)
            \<and> unat a =
                (if InfoObjAddrSize (ASDU.Params sf) = 1 then unat (infoObj sf ! 0)
                 else if InfoObjAddrSize (ASDU.Params sf) = 2
                   then unat (infoObj sf ! 0) + 256 * unat (infoObj sf ! 1)
                 else unat (infoObj sf ! 0) + 256 * unat (infoObj sf ! 1)
                        + 65536 * unat (infoObj sf ! 2))
            \<and> GetSinglePoint sf = Inr (infos, sf')
            \<and> length infos = ?N
            \<and> (\<forall>i < ?N.
                  SinglePointInfo.Ioa (infos ! i) = a + of_nat i
                  \<and> unat (SinglePointInfo.Ioa (infos ! i)) = unat a + i)"
    by blast
next
  have ety': "typeID = M_SP_NA_1 \<or> typeID = M_SP_TA_1 \<or> typeID = M_SP_TB_1"
    using ety by simp
  from single_seq_outcome [OF ety', of c coa ca vs]
  show "\<forall>u \<in> set (handed c (single c typeID True coa ca vs)).
               IsSequence (Variable (Identifier u))
               \<and> Number (Variable (Identifier u)) = of_nat (length vs)
               \<and> infoObj u =
                   take (nat (InfoObjAddrSize (cParams c)))
                     [ucast (SinglePointInfo.Ioa (hd vs)),
                      ucast (rsh (SinglePointInfo.Ioa (hd vs)) 8),
                      ucast (rsh (SinglePointInfo.Ioa (hd vs)) 16)]
                   @ concat (map (\<lambda>v. [(if SinglePointInfo.Value v then 0x01 else 0x00)
                                           OR (SinglePointInfo.Qds v AND 0xf0)]
                                        @ (if typeID = M_SP_TA_1
                                             then CP24Time2a (SinglePointInfo.Time v)
                                           else if typeID = M_SP_TB_1
                                             then CP56Time2a (SinglePointInfo.Time v)
                                           else [])) vs)"
  proof (elim disjE exE conjE)
    fix err assume "single c typeID True coa ca vs = (Some err, c)"
    then show ?thesis by simp
  next
    fix u assume "single c typeID True coa ca vs = Send c u"
      and "Identifier u =
               \<lparr>Type = typeID,
                Variable = \<lparr>Number = of_nat (length vs), IsSequence = True\<rparr>,
                Coa = coa, OrigAddr = 0, CommonAddr = ca\<rparr>"
      and "infoObj u =
               take (nat (InfoObjAddrSize (cParams c)))
                 [ucast (SinglePointInfo.Ioa (hd vs)),
                  ucast (rsh (SinglePointInfo.Ioa (hd vs)) 8),
                  ucast (rsh (SinglePointInfo.Ioa (hd vs)) 16)]
               @ concat (map (\<lambda>v. [(if SinglePointInfo.Value v then 0x01 else 0x00)
                                       OR (SinglePointInfo.Qds v AND 0xf0)]
                                    @ (if typeID = M_SP_TA_1
                                         then CP24Time2a (SinglePointInfo.Time v)
                                       else if typeID = M_SP_TB_1
                                         then CP56Time2a (SinglePointInfo.Time v)
                                       else [])) vs)"
    then show ?thesis by simp
  qed
next
  have ety': "typeID = M_SP_NA_1 \<or> typeID = M_SP_TA_1 \<or> typeID = M_SP_TB_1"
    using ety by simp
  show "checkValid c typeID True (int (length vs)) = None
              \<and> length vs \<le> 127
              \<and> unat (SinglePointInfo.Ioa (hd vs)) < 2 ^ (8 * nat (InfoObjAddrSize (cParams c)))
              \<longrightarrow> length (handed c (single c typeID True coa ca vs)) = 1"
  proof (intro impI, elim conjE)
    assume "checkValid c typeID True (int (length vs)) = None" and "length vs \<le> 127"
      and "unat (SinglePointInfo.Ioa (hd vs)) < 2 ^ (8 * nat (InfoObjAddrSize (cParams c)))"
    from single_seq_sends [OF ety' this, of coa ca]
    show "length (handed c (single c typeID True coa ca vs)) = 1"
      by auto
  qed
qed

theorem sequence_mode_addresses_witness:
  "GetInfoObjSize M_SP_NA_1 = Inr 1
   \<and> checkValid \<lparr>cParams = \<lparr>CauseSize = 2, CommonAddrSize = 2, InfoObjAddrSize = 3\<rparr>,
        cAnswer = (\<lambda>_ _. None), cSent = []\<rparr> M_SP_NA_1 True 2 = None
   \<and> (\<exists>rest infos sf'.
         DecodeInfoObjAddr
           \<lparr>Params = \<lparr>CauseSize = 2, CommonAddrSize = 2, InfoObjAddrSize = 3\<rparr>,
       Identifier = \<lparr>Type = M_SP_NA_1, Variable = \<lparr>Number = 2, IsSequence = True\<rparr>,
                      Coa = \<lparr>IsTest = False, IsNegative = False, Cause = Spontaneous\<rparr>,
                      OrigAddr = 0, CommonAddr = 1\<rparr>,
       infoObj = [0x64, 0x00, 0x00, 0x01, 0x01]\<rparr> = Inr (100, rest)
         \<and> GetSinglePoint
           \<lparr>Params = \<lparr>CauseSize = 2, CommonAddrSize = 2, InfoObjAddrSize = 3\<rparr>,
       Identifier = \<lparr>Type = M_SP_NA_1, Variable = \<lparr>Number = 2, IsSequence = True\<rparr>,
                      Coa = \<lparr>IsTest = False, IsNegative = False, Cause = Spontaneous\<rparr>,
                      OrigAddr = 0, CommonAddr = 1\<rparr>,
       infoObj = [0x64, 0x00, 0x00, 0x01, 0x01]\<rparr> = Inr (infos, sf')
         \<and> map SinglePointInfo.Ioa infos = [100, 101])
   \<and> length (handed \<lparr>cParams = \<lparr>CauseSize = 2, CommonAddrSize = 2, InfoObjAddrSize = 3\<rparr>,
        cAnswer = (\<lambda>_ _. None), cSent = []\<rparr>
        (single \<lparr>cParams = \<lparr>CauseSize = 2, CommonAddrSize = 2, InfoObjAddrSize = 3\<rparr>,
        cAnswer = (\<lambda>_ _. None), cSent = []\<rparr> M_SP_NA_1 True
           \<lparr>IsTest = False, IsNegative = False, Cause = Spontaneous\<rparr> 1
           [\<lparr>SinglePointInfo.Ioa = 100, SinglePointInfo.Value = True,
          SinglePointInfo.Qds = QDSGood, SinglePointInfo.Time = zeroTime\<rparr>,
         \<lparr>SinglePointInfo.Ioa = 0, SinglePointInfo.Value = True,
          SinglePointInfo.Qds = QDSGood, SinglePointInfo.Time = zeroTime\<rparr>])) = 1"
proof -
  let ?sf = "\<lparr>Params = \<lparr>CauseSize = 2, CommonAddrSize = 2, InfoObjAddrSize = 3\<rparr>,
       Identifier = \<lparr>Type = M_SP_NA_1, Variable = \<lparr>Number = 2, IsSequence = True\<rparr>,
                      Coa = \<lparr>IsTest = False, IsNegative = False, Cause = Spontaneous\<rparr>,
                      OrigAddr = 0, CommonAddr = 1\<rparr>,
       infoObj = [0x64, 0x00, 0x00, 0x01, 0x01]\<rparr>"
  let ?c = "\<lparr>cParams = \<lparr>CauseSize = 2, CommonAddrSize = 2, InfoObjAddrSize = 3\<rparr>,
        cAnswer = (\<lambda>_ _. None), cSent = []\<rparr>"
  let ?coa = "\<lparr>IsTest = False, IsNegative = False, Cause = Spontaneous\<rparr>"
  let ?vs = "[\<lparr>SinglePointInfo.Ioa = 100, SinglePointInfo.Value = True,
          SinglePointInfo.Qds = QDSGood, SinglePointInfo.Time = zeroTime\<rparr>,
         \<lparr>SinglePointInfo.Ioa = 0, SinglePointInfo.Value = True,
          SinglePointInfo.Qds = QDSGood, SinglePointInfo.Time = zeroTime\<rparr>]"
  have h1: "IsSequence (Variable (Identifier ?sf))" by simp
  have h2: "Type (Identifier ?sf) \<in> {M_SP_NA_1, M_SP_TA_1, M_SP_TB_1}" by simp
  have h3: "GetInfoObjSize (Type (Identifier ?sf)) = Inr 1"
    by (simp add: GetInfoObjSize_single_point)
  have h4: "InfoObjAddrSize (ASDU.Params ?sf) \<in> {1, 2, 3}" by simp
  have h5: "InfoObjAddrSize (ASDU.Params ?sf)
                + int (unat (Number (Variable (Identifier ?sf)))) * 1
              \<le> int (length (infoObj ?sf))" by simp
  have h6: "M_SP_NA_1 \<in> {M_SP_NA_1, M_SP_TA_1, M_SP_TB_1}" by simp
  have cv: "checkValid ?c M_SP_NA_1 True 2 = None"
    by (simp add: checkValid_def GetInfoObjSize_single_point Params_Valid_def
        IdentifierSize_def ASDUSizeMax_def)
  have fit: "unat (SinglePointInfo.Ioa (hd ?vs)) < 2 ^ (8 * nat (InfoObjAddrSize (cParams ?c)))"
    by simp
  note t = sequence_mode_addresses [of ?sf 1 M_SP_NA_1 ?c ?coa 1 ?vs, OF h1 h2 h3 h4 h5 h6]
  from t obtain a rest infos sf' where dec: "DecodeInfoObjAddr ?sf = Inr (a, rest)"
    and val: "unat a =
                (if InfoObjAddrSize (ASDU.Params ?sf) = 1 then unat (infoObj ?sf ! 0)
                 else if InfoObjAddrSize (ASDU.Params ?sf) = 2
                   then unat (infoObj ?sf ! 0) + 256 * unat (infoObj ?sf ! 1)
                 else unat (infoObj ?sf ! 0) + 256 * unat (infoObj ?sf ! 1)
                        + 65536 * unat (infoObj ?sf ! 2))"
    and get: "GetSinglePoint ?sf = Inr (infos, sf')"
    and n: "length infos = unat (Number (Variable (Identifier ?sf)))"
    and ioa: "\<forall>i < unat (Number (Variable (Identifier ?sf))).
                 SinglePointInfo.Ioa (infos ! i) = a + of_nat i
                 \<and> unat (SinglePointInfo.Ioa (infos ! i)) = unat a + i"
    by blast
  from val have "unat a = 100" by simp
  then have "of_nat (unat a) = (of_nat 100 :: InfoObjAddr)" by (rule arg_cong)
  then have a: "a = 100" by simp
  have n2: "length infos = Suc (Suc 0)" using n by simp
  have "0 < unat (Number (Variable (Identifier ?sf)))"
    and "Suc 0 < unat (Number (Variable (Identifier ?sf)))"
    by simp_all
  with ioa have "SinglePointInfo.Ioa (infos ! 0) = a + of_nat 0"
    and "SinglePointInfo.Ioa (infos ! Suc 0) = a + of_nat (Suc 0)"
    by blast+
  then have a0: "SinglePointInfo.Ioa (infos ! 0) = 100"
    and a1: "SinglePointInfo.Ioa (infos ! Suc 0) = 101"
    unfolding a by simp_all
  have addrs: "map SinglePointInfo.Ioa infos = [100, 101]"
    unfolding list_eq_iff_nth_eq using n2 a0 a1 by (auto simp add: less_Suc_eq)
  have dpart: "\<exists>rest infos sf'.
         DecodeInfoObjAddr ?sf = Inr (100, rest)
         \<and> GetSinglePoint ?sf = Inr (infos, sf')
         \<and> map SinglePointInfo.Ioa infos = [100, 101]"
    by (intro exI conjI) (rule dec [unfolded a] get addrs)+
  from t have "checkValid ?c M_SP_NA_1 True (int (length ?vs)) = None
              \<and> length ?vs \<le> 127
              \<and> unat (SinglePointInfo.Ioa (hd ?vs)) < 2 ^ (8 * nat (InfoObjAddrSize (cParams ?c)))
              \<longrightarrow> length (handed ?c (single ?c M_SP_NA_1 True ?coa 1 ?vs)) = 1"
    by (rule conjunct2 [THEN conjunct2])
  moreover have "checkValid ?c M_SP_NA_1 True (int (length ?vs)) = None" using cv by simp
  moreover have "length ?vs \<le> 127" by simp
  ultimately have epart: "length (handed ?c (single ?c M_SP_NA_1 True ?coa 1 ?vs)) = 1"
    using fit by blast
  from GetInfoObjSize_single_point(1) cv dpart epart show ?thesis by blast
qed
end
